theory Spec2Isabelle
  imports Complex_Main "HOL-Library.Multiset" "HOL-Library.Log_Nat"
begin

section \<open>Errors and effectful computations\<close>

text \<open>
  The exceptions the services raise. \<open>NotFoundException\<close>, \<open>ConflictException\<close>,
  \<open>ForbiddenException\<close> and \<open>InternalServerErrorException\<close> are the NestJS classes
  (all subclasses of \<open>HttpException\<close>); \<open>Error\<close> and \<open>TypeError\<close> are the plain
  JavaScript ones; \<open>PrismaError code\<close> is an error object carrying a \<open>code\<close>
  property, as the store client throws (\<open>P2002\<close>: unique constraint, \<open>P2003\<close>:
  foreign key, \<open>P2025\<close>: record to update or delete not found).
\<close>

datatype error =
    NotFoundException string
  | ConflictException string
  | ForbiddenException string
  | InternalServerErrorException string
  | Error string
  | TypeError string
  | PrismaError string

fun isNotFoundException :: "error \<Rightarrow> bool" where
  "isNotFoundException (NotFoundException m) = True"
| "isNotFoundException e = False"

fun isHttpException :: "error \<Rightarrow> bool" where
  "isHttpException (NotFoundException m) = True"
| "isHttpException (ConflictException m) = True"
| "isHttpException (ForbiddenException m) = True"
| "isHttpException (InternalServerErrorException m) = True"
| "isHttpException e = False"

fun errorCode :: "error \<Rightarrow> string option" where
  "errorCode (PrismaError c) = Some c"
| "errorCode e = None"

text \<open>
  An asynchronous method is a function from the state of the outside world to a result
  (\<open>Inl\<close>: the promise rejects with that error) and the state afterwards.
  \<open>await m f\<close> is \<open>const x = await m; f x\<close>; \<open>try_catch m h\<close> is
  \<open>try { m } catch (error) { h error }\<close>.
\<close>

type_synonym ('s, 'a) io = "'s \<Rightarrow> (error + 'a) \<times> 's"

definition ret :: "'a \<Rightarrow> ('s, 'a) io" where
  "ret x s = (Inr x, s)"

definition throw :: "error \<Rightarrow> ('s, 'a) io" where
  "throw e s = (Inl e, s)"

definition await :: "('s, 'a) io \<Rightarrow> ('a \<Rightarrow> ('s, 'b) io) \<Rightarrow> ('s, 'b) io" where
  "await m f s = (case m s of (Inl e, s') \<Rightarrow> (Inl e, s') | (Inr x, s') \<Rightarrow> f x s')"

definition try_catch :: "('s, 'a) io \<Rightarrow> (error \<Rightarrow> ('s, 'a) io) \<Rightarrow> ('s, 'a) io" where
  "try_catch m h s = (case m s of (Inl e, s') \<Rightarrow> h e s' | (Inr x, s') \<Rightarrow> (Inr x, s'))"

section \<open>JavaScript string and array primitives\<close>

text \<open>
  Strings are ASCII: one \<open>char\<close> per UTF-16 code unit. The only case mappings that
  matter to the code are those producing the letters of \<open>album\<close>, \<open>ep\<close> and
  \<open>single\<close>, and no character outside \<open>A-Z\<close> lower-cases to one of them.
\<close>

definition toLowerCaseChar :: "char \<Rightarrow> char" where
  "toLowerCaseChar c =
     (case map_of (zip ''ABCDEFGHIJKLMNOPQRSTUVWXYZ'' ''abcdefghijklmnopqrstuvwxyz'') c of
        Some l \<Rightarrow> l
      | None \<Rightarrow> c)"

definition toLowerCase :: "string \<Rightarrow> string" where
  "toLowerCase s = map toLowerCaseChar s"

definition isWhiteSpace :: "char \<Rightarrow> bool" where
  "isWhiteSpace c = (of_char c \<in> {9::nat, 10, 11, 12, 13, 32})"

definition trim :: "string \<Rightarrow> string" where
  "trim s = rev (dropWhile isWhiteSpace (rev (dropWhile isWhiteSpace s)))"

definition isAlphaNum :: "char \<Rightarrow> bool" where
  "isAlphaNum c =
     (c \<in> set ''0123456789ABCDEFGHIJKLMNOPQRSTUVWXYZabcdefghijklmnopqrstuvwxyz'')"

definition hexDigit :: "nat \<Rightarrow> char" where
  "hexDigit n = ''0123456789ABCDEF'' ! (n mod 16)"

definition encodeURIComponentChar :: "char \<Rightarrow> string" where
  "encodeURIComponentChar c =
     (if isAlphaNum c \<or> c \<in> set ''-_.!~*()'' \<or> of_char c = (39::nat) then [c]
      else [CHR ''%'', hexDigit (of_char c div 16), hexDigit (of_char c mod 16)])"

definition encodeURIComponent :: "string \<Rightarrow> string" where
  "encodeURIComponent s = concat (map encodeURIComponentChar s)"

text \<open>\<open>xs.slice(0, n)\<close>: a negative \<open>n\<close> counts from the end of the array.\<close>

definition slice0 :: "'a list \<Rightarrow> int \<Rightarrow> 'a list" where
  "slice0 xs n = (if 0 \<le> n then take (nat n) xs else take (length xs - nat (- n)) xs)"

text \<open>\<open>xs.find(p)\<close> is \<open>List.find p xs\<close>, with \<open>None\<close> for \<open>undefined\<close>.\<close>

fun digitsOf :: "nat \<Rightarrow> string" where
  "digitsOf n = (if n < 10 then [''0123456789'' ! n] else digitsOf (n div 10) @ [''0123456789'' ! (n mod 10)])"

definition showNumber :: "int \<Rightarrow> string" where
  "showNumber i = (if i < 0 then CHR ''-'' # digitsOf (nat (- i)) else digitsOf (nat i))"

section \<open>JavaScript numbers\<close>

text \<open>
  A JavaScript number is an IEEE 754 double. A finite value is written \<open>Num q\<close>, with
  \<open>q\<close> the rational it denotes (the two zeros are both \<open>Num 0\<close>); the other values
  are \<open>NaN\<close> and the two infinities. \<open>roundToDouble x\<close> is the number value for the
  rational \<open>x\<close> as the language defines it: the nearest value with a significand of 53
  bits and an exponent of at least \<open>-1022\<close> (below which values are subnormal), a tie
  going to the even significand, and a result of magnitude \<open>2^1024\<close> becoming an
  infinity. \<open>exponent a\<close> is the floor of the binary logarithm of a positive \<open>a\<close>.

  The operators \<open>+\<close> and \<open>/\<close> compute the exact result of two finite operands and
  round it once; a zero divisor is taken as the positive zero. \<open>fromInt i\<close> is the
  number that an integer of the store is read as.
\<close>

datatype number = Num rat | NaN | Infinity | NegInfinity

definition exponent :: "rat \<Rightarrow> int" where
  "exponent a =
     (if 1 \<le> a then bitlen \<lfloor>a\<rfloor> - 1
      else (let j = bitlen \<lfloor>1 / a\<rfloor> - 1 in if 1 / a = 2 powi j then - j else - j - 1))"

definition roundTiesToEven :: "rat \<Rightarrow> int" where
  "roundTiesToEven x =
     (let f = \<lfloor>x\<rfloor> in
      if x - of_int f < 1 / 2 then f
      else if 1 / 2 < x - of_int f then f + 1
      else if even f then f else f + 1)"

definition roundToDouble :: "rat \<Rightarrow> number" where
  "roundToDouble x =
     (if x = 0 then Num 0
      else (let a = \<bar>x\<bar>;
                e = max (exponent a) (- 1022);
                ulp = 2 powi (e - 52);
                r = of_int (roundTiesToEven (a / ulp)) * ulp in
            if 2 powi 1024 \<le> r then (if 0 < x then Infinity else NegInfinity)
            else Num (if 0 < x then r else - r)))"

definition fromInt :: "int \<Rightarrow> number" where
  "fromInt i = roundToDouble (of_int i)"

fun jsAdd :: "number \<Rightarrow> number \<Rightarrow> number" where
  "jsAdd (Num a) (Num b) = roundToDouble (a + b)"
| "jsAdd NaN y = NaN"
| "jsAdd x NaN = NaN"
| "jsAdd Infinity NegInfinity = NaN"
| "jsAdd NegInfinity Infinity = NaN"
| "jsAdd Infinity y = Infinity"
| "jsAdd x Infinity = Infinity"
| "jsAdd NegInfinity y = NegInfinity"
| "jsAdd x NegInfinity = NegInfinity"

fun jsDivide :: "number \<Rightarrow> number \<Rightarrow> number" where
  "jsDivide (Num a) (Num b) =
     (if b = 0 then (if a = 0 then NaN else if 0 < a then Infinity else NegInfinity)
      else roundToDouble (a / b))"
| "jsDivide NaN y = NaN"
| "jsDivide x NaN = NaN"
| "jsDivide (Num a) y = Num 0"
| "jsDivide x (Num b) = (if (x = Infinity) = (0 \<le> b) then Infinity else NegInfinity)"
| "jsDivide x y = NaN"

section \<open>Catalog client (MusicApiService)\<close>

subsection \<open>Catalog responses and the HTTP boundary\<close>

text \<open>
  The JSON objects of the catalog's responses, with the fields the client reads. A field
  that the code guards with \<open>?.\<close>, \<open>||\<close> or a comparison with \<open>undefined\<close> is an
  option (\<open>None\<close>: absent). \<open>sp_images\<close> holds the \<open>url\<close> of each image; an absent
  \<open>images\<close> array and an empty one both give \<open>images?.[0]?.url = undefined\<close>.
  \<open>sp_artists = None\<close> is an absent \<open>artists\<close> array, on which \<open>album.artists[0]\<close>
  throws a \<open>TypeError\<close>.
\<close>

record spotify_artist =
  spa_id :: "string option"
  spa_name :: "string option"

record spotify_track =
  spt_name :: "string option"
  spt_duration_ms :: "int option"
  spt_track_number :: "int option"

record spotify_album =
  sp_id :: "string option"
  sp_name :: "string option"
  sp_release_date :: "string option"
  sp_images :: "string list"
  sp_artists :: "spotify_artist list option"
  sp_album_type :: "string option"
  sp_total_tracks :: "int option"
  sp_tracks :: "spotify_track list option"

text \<open>The records the client returns: a search result, and the details of one album.\<close>

record track =
  t_name :: "string option"
  t_duration :: "int option"
  t_trackNumber :: "int option"

record album_summary =
  s_externalId :: "string option"
  s_title :: "string option"
  s_releaseDate :: "string option"
  s_coverUrl :: "string option"
  s_artistName :: "string option"
  s_artistExternalId :: "string option"
  s_albumType :: "string option"
  s_totalTracks :: "int option"

record album_details =
  d_externalId :: "string option"
  d_title :: "string option"
  d_releaseDate :: "string option"
  d_coverUrl :: "string option"
  d_artistName :: "string option"
  d_artistExternalId :: "string option"
  d_tracks :: "track list option"

datatype album_record = Details album_details | SearchResult album_summary

text \<open>
  The catalog is a black box behind \<open>httpService\<close>. Each interaction of the client with
  it is appended to a trace, and the catalog's answer may depend on the request and on
  how many interactions came before (the same lookup may be answered differently the
  second time). \<open>AlbumLookup p\<close> is \<open>GET /albums/p\<close>; \<open>AlbumSearch q l off\<close> is
  \<open>GET /search\<close> with \<open>q\<close>, \<open>type: album\<close>, \<open>album_type: album,single,ep\<close>, limit
  \<open>l\<close> and offset \<open>off\<close>. An album lookup answers with the response body
  (\<open>AlbumData\<close>, \<open>None\<close> for an empty body) or fails with an optional HTTP status.
  \<open>getAccessToken\<close> (the cached credential and its refresh) is taken as one such
  interaction, which yields a token or throws one of its two plain errors.
\<close>

datatype request =
    AccessToken
  | AlbumLookup string
  | AlbumSearch string int int

datatype album_reply = AlbumData "spotify_album option" | AlbumFailed "nat option"

datatype search_reply = SearchData "spotify_album list" | SearchFailed

datatype token_reply = Token string | NoCredentials | TokenRequestFailed

record spotify =
  token_reply :: "nat \<Rightarrow> token_reply"
  album_reply :: "nat \<Rightarrow> string \<Rightarrow> album_reply"
  search_reply :: "nat \<Rightarrow> string \<Rightarrow> int \<Rightarrow> int \<Rightarrow> search_reply"

definition getAccessToken :: "spotify \<Rightarrow> (request list, string) io" where
  "getAccessToken sp tr =
     (case token_reply sp (length tr) of
        NoCredentials \<Rightarrow> (Inl (Error ''Spotify credentials are not configured''), tr @ [AccessToken])
      | TokenRequestFailed \<Rightarrow> (Inl (Error ''Failed to get Spotify access token''), tr @ [AccessToken])
      | Token token \<Rightarrow> (Inr token, tr @ [AccessToken]))"

text \<open>
  \<open>httpService.get(url).pipe(catchError(h))\<close> for an album: \<open>h\<close> maps the status of
  the failed response to the error thrown instead.
\<close>

definition httpGetAlbum ::
  "spotify \<Rightarrow> string \<Rightarrow> (nat option \<Rightarrow> error) \<Rightarrow> (request list, spotify_album option) io" where
  "httpGetAlbum sp path h tr =
     (case album_reply sp (length tr) path of
        AlbumFailed status \<Rightarrow> (Inl (h status), tr @ [AlbumLookup path])
      | AlbumData body \<Rightarrow> (Inr body, tr @ [AlbumLookup path]))"

definition httpSearchAlbums ::
  "spotify \<Rightarrow> string \<Rightarrow> int \<Rightarrow> int \<Rightarrow> error \<Rightarrow> (request list, spotify_album list) io" where
  "httpSearchAlbums sp q l off e tr =
     (case search_reply sp (length tr) q l off of
        SearchFailed \<Rightarrow> (Inl e, tr @ [AlbumSearch q l off])
      | SearchData items \<Rightarrow> (Inr items, tr @ [AlbumSearch q l off]))"

subsection \<open>searchAlbums\<close>

text \<open>
  The callback of \<open>items.filter\<close>: its boolean result, and the album as the callback
  leaves it (it assigns \<open>album.album_type\<close> in place). Note that the first two tests
  compare the lower-cased type and the third the type as received.
\<close>

definition albumFilter :: "spotify_album \<Rightarrow> bool \<times> spotify_album" where
  "albumFilter album =
     (let albumType = (case sp_album_type album of None \<Rightarrow> [] | Some t \<Rightarrow> toLowerCase t) in
      if albumType = ''album'' then (True, album)
      else if albumType = ''ep'' then (True, album)
      else if sp_album_type album = Some ''single'' then
        (case sp_total_tracks album of
           None \<Rightarrow> (True, album\<lparr>sp_album_type := Some ''ep''\<rparr>)
         | Some total_tracks \<Rightarrow>
             if total_tracks \<ge> 2 then (True, album\<lparr>sp_album_type := Some ''ep''\<rparr>)
             else (False, album))
      else (False, album))"

definition filteredItems :: "spotify_album list \<Rightarrow> spotify_album list" where
  "filteredItems items = map snd (filter fst (map albumFilter items))"

text \<open>The callback of \<open>limitedResults.map\<close>; it throws when \<open>album.artists\<close> is absent.\<close>

definition firstArtist :: "spotify_album \<Rightarrow> error + spotify_artist option" where
  "firstArtist album =
     (case sp_artists album of
        None \<Rightarrow> Inl (TypeError ''Cannot read properties of undefined (reading 0)'')
      | Some [] \<Rightarrow> Inr None
      | Some (a # as) \<Rightarrow> Inr (Some a))"

definition formatSummary :: "spotify_album \<Rightarrow> error + album_summary" where
  "formatSummary album =
     (case firstArtist album of
        Inl e \<Rightarrow> Inl e
      | Inr artist \<Rightarrow> Inr \<lparr>
          s_externalId = sp_id album,
          s_title = sp_name album,
          s_releaseDate = sp_release_date album,
          s_coverUrl = (case sp_images album of [] \<Rightarrow> None | u # us \<Rightarrow> Some u),
          s_artistName = (case artist of None \<Rightarrow> None | Some a \<Rightarrow> spa_name a),
          s_artistExternalId = (case artist of None \<Rightarrow> None | Some a \<Rightarrow> spa_id a),
          s_albumType = map_option toLowerCase (sp_album_type album),
          s_totalTracks = (case sp_total_tracks album of None \<Rightarrow> None
                         | Some n \<Rightarrow> if n = 0 then None else Some n) \<rparr>)"

fun mapE :: "('a \<Rightarrow> error + 'b) \<Rightarrow> 'a list \<Rightarrow> error + 'b list" where
  "mapE f [] = Inr []"
| "mapE f (x # xs) =
     (case f x of
        Inl e \<Rightarrow> Inl e
      | Inr y \<Rightarrow> (case mapE f xs of Inl e \<Rightarrow> Inl e | Inr ys \<Rightarrow> Inr (y # ys)))"

definition formattedResults :: "int \<Rightarrow> spotify_album list \<Rightarrow> error + album_summary list" where
  "formattedResults limit items =
     (let limitedResults = slice0 (filteredItems items) limit in
      mapE formatSummary limitedResults)"

definition isLikelySpotifyId :: "string \<Rightarrow> bool" where
  "isLikelySpotifyId query = (length query = 22 \<and> list_all isAlphaNum query)"

definition searchAlbums ::
  "spotify \<Rightarrow> string \<Rightarrow> int \<Rightarrow> int \<Rightarrow> (request list, album_summary list) io" where
  "searchAlbums sp query limit offset =
     try_catch
       (await (getAccessToken sp) (\<lambda>token.
          let searchQuery = (if isLikelySpotifyId query then ''id:'' @ query else query);
              apiLimit = 50;
              apiOffset = min offset 950 in
          await (httpSearchAlbums sp searchQuery apiLimit apiOffset (Error ''Failed to search albums''))
            (\<lambda>items.
               case formattedResults limit items of
                 Inl e \<Rightarrow> throw e
               | Inr results \<Rightarrow> ret results)))
       (\<lambda>error. throw error)"

subsection \<open>getAlbumDetails\<close>

definition formatDetails :: "spotify_album \<Rightarrow> error + album_details" where
  "formatDetails album =
     (case firstArtist album of
        Inl e \<Rightarrow> Inl e
      | Inr artist \<Rightarrow> Inr \<lparr>
          d_externalId = sp_id album,
          d_title = sp_name album,
          d_releaseDate = sp_release_date album,
          d_coverUrl = (case sp_images album of [] \<Rightarrow> None | u # us \<Rightarrow> Some u),
          d_artistName = (case artist of None \<Rightarrow> None | Some a \<Rightarrow> spa_name a),
          d_artistExternalId = (case artist of None \<Rightarrow> None | Some a \<Rightarrow> spa_id a),
          d_tracks = map_option (map (\<lambda>t. \<lparr> t_name = spt_name t, t_duration = spt_duration_ms t,
                                            t_trackNumber = spt_track_number t \<rparr>)) (sp_tracks album) \<rparr>)"

text \<open>The part of \<open>getAlbumDetails\<close> inside the outer \<open>try\<close>: the direct lookup.\<close>

definition directLookup :: "spotify \<Rightarrow> string \<Rightarrow> (request list, album_record) io" where
  "directLookup sp externalId =
     (let cleanExternalId = trim externalId in
      await (getAccessToken sp) (\<lambda>token.
        await (httpGetAlbum sp cleanExternalId
                 (\<lambda>status. if status = Some 404
                    then NotFoundException (''Album with ID '' @ cleanExternalId @ '' not found in Spotify'')
                    else InternalServerErrorException ''Failed to get album details from Spotify API''))
          (\<lambda>body.
             case body of
               None \<Rightarrow> throw (InternalServerErrorException ''Invalid album data received from Spotify'')
             | Some album \<Rightarrow>
                 if sp_id album = None \<or> sp_id album = Some []
                 then throw (InternalServerErrorException ''Invalid album data received from Spotify'')
                 else (case formatDetails album of
                         Inl e \<Rightarrow> throw e
                       | Inr details \<Rightarrow> ret (Details details)))))"

text \<open>
  The innermost \<open>try\<close>: the lookup with the URL-encoded id. Its \<open>catchError\<close> throws
  the original error; a body without \<open>artists\<close> (or no body) throws a \<open>TypeError\<close>.
\<close>

definition alternativeLookup :: "spotify \<Rightarrow> string \<Rightarrow> error \<Rightarrow> (request list, album_record) io" where
  "alternativeLookup sp externalId error =
     await (getAccessToken sp) (\<lambda>altToken.
       await (httpGetAlbum sp (encodeURIComponent externalId) (\<lambda>status. error))
         (\<lambda>body.
            case body of
              None \<Rightarrow> throw (TypeError ''Cannot read properties of undefined (reading id)'')
            | Some altAlbum \<Rightarrow>
                (case formatDetails altAlbum of
                   Inl e \<Rightarrow> throw e
                 | Inr details \<Rightarrow> ret (Details details))))"

definition getAlbumDetails :: "spotify \<Rightarrow> string \<Rightarrow> (request list, album_record) io" where
  "getAlbumDetails sp externalId =
     try_catch (directLookup sp externalId)
       (\<lambda>error.
          if isNotFoundException error then
            try_catch
              (await (searchAlbums sp externalId 5 0) (\<lambda>searchResults.
                 if searchResults \<noteq> [] then
                   (case find (\<lambda>album. s_externalId album = Some externalId) searchResults of
                      Some exactMatch \<Rightarrow> ret (SearchResult exactMatch)
                    | None \<Rightarrow>
                        try_catch (alternativeLookup sp externalId error)
                          (\<lambda>altError. throw error))
                 else throw error))
              (\<lambda>searchError. throw error)
          else if isHttpException error then throw error
          else throw (InternalServerErrorException ''An error occurred while fetching album details''))"

section \<open>The local store\<close>

subsection \<open>Tables\<close>

text \<open>
  The rows of the four tables of the schema (\<open>migration.sql\<close>, with the artist's
  optional \<open>imageUrl\<close> that the services write). Timestamps are integers; an album's
  release date is kept as the date string it was created from. A table is the list of its
  rows in insertion order. Each table has the counter of its \<open>SERIAL\<close> key, and
  \<open>now\<close> is the store's \<open>CURRENT_TIMESTAMP\<close>. \<open>catalogCalls\<close> is not part of
  the store: it records the calls made to the catalog client, in order.
\<close>

record user =
  user_id :: int
  user_username :: string
  user_email :: string
  user_passwordHash :: string
  user_createdAt :: int

record artist =
  artist_id :: int
  artist_externalId :: string
  artist_name :: string
  artist_imageUrl :: "string option"

record album =
  album_id :: int
  album_externalId :: string
  album_title :: string
  album_releaseDate :: "string option"
  album_coverUrl :: "string option"
  album_artistId :: int

record review =
  review_id :: int
  review_userId :: int
  review_albumId :: int
  review_rating :: int
  review_comment :: "string option"
  review_createdAt :: int

datatype api_call = GetArtistDetails string | GetArtistAlbums string

record world =
  users :: "user list"
  artists :: "artist list"
  albums :: "album list"
  reviews :: "review list"
  artistSeq :: int
  albumSeq :: int
  reviewSeq :: int
  now :: int
  catalogCalls :: "api_call list"

subsection \<open>Request objects\<close>

record createArtistDto =
  ca_externalId :: string
  ca_name :: string
  ca_imageUrl :: "string option"

record createAlbumDto =
  cb_externalId :: string
  cb_title :: string
  cb_releaseDate :: "string option"
  cb_coverUrl :: "string option"
  cb_artistExternalId :: string

record createReviewDto =
  cr_albumId :: int
  cr_rating :: int
  cr_comment :: "string option"

record updateReviewDto =
  ur_rating :: "int option"
  ur_comment :: "string option"

text \<open>The \<open>data\<close> arguments of \<open>album.create\<close> and \<open>review.create\<close>.\<close>

record album_data =
  ab_externalId :: string
  ab_title :: string
  ab_releaseDate :: "string option"
  ab_coverUrl :: "string option"
  ab_connect_artist_id :: int

record review_data =
  rd_userId :: int
  rd_albumId :: int
  rd_rating :: int
  rd_comment :: "string option"

datatype review_where = AllReviews | ByAlbumId int | ByUserId int

subsection \<open>The store client\<close>

text \<open>
  The services receive the store client by injection (their tests replace it with
  mocks), so they are written over a record of the operations they call. Each field is
  one call shape: \<open>artist_findUnique_externalId_albums\<close> is
  \<open>artist.findUnique({where: {externalId}, include: {albums: true}})\<close>,
  \<open>review_findMany w skip take\<close> is \<open>review.findMany\<close> with that filter and window
  and \<open>orderBy: {createdAt: desc}\<close>, \<open>review_findMany_rating\<close> is
  \<open>review.findMany({where: {albumId}, select: {rating: true}})\<close>. The \<open>include\<close>
  options of the review queries only attach the related user and album to each returned
  row; the rows are returned without them.
\<close>

record prisma =
  artist_findUnique_externalId_albums :: "string \<Rightarrow> (world, (artist \<times> album list) option) io"
  artist_findUnique_externalId :: "string \<Rightarrow> (world, artist option) io"
  artist_findUnique_id :: "int \<Rightarrow> (world, artist option) io"
  artist_create :: "createArtistDto \<Rightarrow> (world, artist) io"
  album_findUnique_externalId :: "string \<Rightarrow> (world, album option) io"
  album_findUnique_id :: "int \<Rightarrow> (world, album option) io"
  album_findMany_artistId :: "int \<Rightarrow> (world, album list) io"
  album_create :: "album_data \<Rightarrow> (world, album \<times> artist) io"
  user_findUnique_id :: "int \<Rightarrow> (world, user option) io"
  review_findUnique_id :: "int \<Rightarrow> (world, review option) io"
  review_findUnique_userId_albumId :: "int \<Rightarrow> int \<Rightarrow> (world, review option) io"
  review_create :: "review_data \<Rightarrow> (world, review) io"
  review_update :: "int \<Rightarrow> updateReviewDto \<Rightarrow> (world, review) io"
  review_delete :: "int \<Rightarrow> (world, review) io"
  review_findMany :: "review_where \<Rightarrow> nat \<Rightarrow> nat \<Rightarrow> (world, review list) io"
  review_count :: "review_where \<Rightarrow> (world, nat) io"
  review_findMany_rating :: "int \<Rightarrow> (world, int list) io"

subsection \<open>The relational store\<close>

text \<open>
  Modelled from the spec: the persistence engine (the generated store client and the
  database behind it) is not part of the sources; the specification treats it as a generic
  transactional relational store with point lookups by unique key, insert, partial
  update, delete and count. \<open>pg\<close> is that store over the tables and constraints of
  \<open>migration.sql\<close>: a read returns the first row with the key; an insert draws the next
  value of the key's sequence, is refused with \<open>P2002\<close> when a unique index (the
  primary key, \<open>externalId\<close>, or the pair \<open>(userId, albumId)\<close>) already holds the
  value and with \<open>P2003\<close> when a referenced row is missing, and otherwise appends the
  row; connecting an album to an artist that does not exist, and updating or deleting a
  row that does not exist, is refused with \<open>P2025\<close>. Pagination arguments are natural
  numbers. Rows with equal \<open>createdAt\<close> keep their insertion order.
\<close>

definition pg_artist_findUnique_externalId :: "string \<Rightarrow> (world, artist option) io" where
  "pg_artist_findUnique_externalId e w = (Inr (find (\<lambda>a. artist_externalId a = e) (artists w)), w)"

definition pg_artist_findUnique_externalId_albums ::
  "string \<Rightarrow> (world, (artist \<times> album list) option) io" where
  "pg_artist_findUnique_externalId_albums e w =
     (Inr (map_option (\<lambda>a. (a, filter (\<lambda>b. album_artistId b = artist_id a) (albums w)))
            (find (\<lambda>a. artist_externalId a = e) (artists w))), w)"

definition pg_artist_findUnique_id :: "int \<Rightarrow> (world, artist option) io" where
  "pg_artist_findUnique_id i w = (Inr (find (\<lambda>a. artist_id a = i) (artists w)), w)"

definition pg_artist_create :: "createArtistDto \<Rightarrow> (world, artist) io" where
  "pg_artist_create dto w =
     (let i = artistSeq w + 1;
          w1 = w\<lparr>artistSeq := i\<rparr>;
          row = \<lparr> artist_id = i, artist_externalId = ca_externalId dto,
                  artist_name = ca_name dto, artist_imageUrl = ca_imageUrl dto \<rparr> in
      if \<exists>a \<in> set (artists w). artist_id a = i \<or> artist_externalId a = ca_externalId dto
      then (Inl (PrismaError ''P2002''), w1)
      else (Inr row, w1\<lparr>artists := artists w @ [row]\<rparr>))"

definition pg_album_findUnique_externalId :: "string \<Rightarrow> (world, album option) io" where
  "pg_album_findUnique_externalId e w = (Inr (find (\<lambda>b. album_externalId b = e) (albums w)), w)"

definition pg_album_findUnique_id :: "int \<Rightarrow> (world, album option) io" where
  "pg_album_findUnique_id i w = (Inr (find (\<lambda>b. album_id b = i) (albums w)), w)"

definition pg_album_findMany_artistId :: "int \<Rightarrow> (world, album list) io" where
  "pg_album_findMany_artistId i w = (Inr (filter (\<lambda>b. album_artistId b = i) (albums w)), w)"

definition pg_album_create :: "album_data \<Rightarrow> (world, album \<times> artist) io" where
  "pg_album_create d w =
     (case find (\<lambda>a. artist_id a = ab_connect_artist_id d) (artists w) of
        None \<Rightarrow> (Inl (PrismaError ''P2025''), w)
      | Some a \<Rightarrow>
          (let i = albumSeq w + 1;
               w1 = w\<lparr>albumSeq := i\<rparr>;
               row = \<lparr> album_id = i, album_externalId = ab_externalId d, album_title = ab_title d,
                       album_releaseDate = ab_releaseDate d, album_coverUrl = ab_coverUrl d,
                       album_artistId = artist_id a \<rparr> in
           if \<exists>b \<in> set (albums w). album_id b = i \<or> album_externalId b = ab_externalId d
           then (Inl (PrismaError ''P2002''), w1)
           else (Inr (row, a), w1\<lparr>albums := albums w @ [row]\<rparr>)))"

definition pg_user_findUnique_id :: "int \<Rightarrow> (world, user option) io" where
  "pg_user_findUnique_id i w = (Inr (find (\<lambda>u. user_id u = i) (users w)), w)"

definition pg_review_findUnique_id :: "int \<Rightarrow> (world, review option) io" where
  "pg_review_findUnique_id i w = (Inr (find (\<lambda>r. review_id r = i) (reviews w)), w)"

definition pg_review_findUnique_userId_albumId :: "int \<Rightarrow> int \<Rightarrow> (world, review option) io" where
  "pg_review_findUnique_userId_albumId u a w =
     (Inr (find (\<lambda>r. review_userId r = u \<and> review_albumId r = a) (reviews w)), w)"

definition pg_review_create :: "review_data \<Rightarrow> (world, review) io" where
  "pg_review_create d w =
     (let i = reviewSeq w + 1;
          w1 = w\<lparr>reviewSeq := i\<rparr>;
          row = \<lparr> review_id = i, review_userId = rd_userId d, review_albumId = rd_albumId d,
                  review_rating = rd_rating d, review_comment = rd_comment d,
                  review_createdAt = now w \<rparr> in
      if \<exists>r \<in> set (reviews w). review_id r = i
            \<or> (review_userId r = rd_userId d \<and> review_albumId r = rd_albumId d)
      then (Inl (PrismaError ''P2002''), w1)
      else if (\<forall>u \<in> set (users w). user_id u \<noteq> rd_userId d)
            \<or> (\<forall>b \<in> set (albums w). album_id b \<noteq> rd_albumId d)
      then (Inl (PrismaError ''P2003''), w1)
      else (Inr row, w1\<lparr>reviews := reviews w @ [row]\<rparr>))"

definition applyPatch :: "updateReviewDto \<Rightarrow> review \<Rightarrow> review" where
  "applyPatch p r =
     r\<lparr> review_rating := (case ur_rating p of None \<Rightarrow> review_rating r | Some x \<Rightarrow> x),
        review_comment := (case ur_comment p of None \<Rightarrow> review_comment r | Some c \<Rightarrow> Some c) \<rparr>"

definition pg_review_update :: "int \<Rightarrow> updateReviewDto \<Rightarrow> (world, review) io" where
  "pg_review_update i p w =
     (case find (\<lambda>r. review_id r = i) (reviews w) of
        None \<Rightarrow> (Inl (PrismaError ''P2025''), w)
      | Some r \<Rightarrow>
          (Inr (applyPatch p r),
           w\<lparr>reviews := map (\<lambda>x. if review_id x = i then applyPatch p x else x) (reviews w)\<rparr>))"

definition pg_review_delete :: "int \<Rightarrow> (world, review) io" where
  "pg_review_delete i w =
     (case find (\<lambda>r. review_id r = i) (reviews w) of
        None \<Rightarrow> (Inl (PrismaError ''P2025''), w)
      | Some r \<Rightarrow> (Inr r, w\<lparr>reviews := filter (\<lambda>x. review_id x \<noteq> i) (reviews w)\<rparr>))"

fun matches :: "review_where \<Rightarrow> review \<Rightarrow> bool" where
  "matches AllReviews r = True"
| "matches (ByAlbumId a) r = (review_albumId r = a)"
| "matches (ByUserId u) r = (review_userId r = u)"

definition newestFirst :: "review list \<Rightarrow> review list" where
  "newestFirst rs = sort_key (\<lambda>r. - review_createdAt r) rs"

definition pg_review_findMany :: "review_where \<Rightarrow> nat \<Rightarrow> nat \<Rightarrow> (world, review list) io" where
  "pg_review_findMany wh skip tk w =
     (Inr (take tk (drop skip (newestFirst (filter (matches wh) (reviews w))))), w)"

definition pg_review_count :: "review_where \<Rightarrow> (world, nat) io" where
  "pg_review_count wh w = (Inr (length (filter (matches wh) (reviews w))), w)"

definition pg_review_findMany_rating :: "int \<Rightarrow> (world, int list) io" where
  "pg_review_findMany_rating a w =
     (Inr (map review_rating (filter (\<lambda>r. review_albumId r = a) (reviews w))), w)"

definition pg :: prisma where
  "pg = \<lparr>
     artist_findUnique_externalId_albums = pg_artist_findUnique_externalId_albums,
     artist_findUnique_externalId = pg_artist_findUnique_externalId,
     artist_findUnique_id = pg_artist_findUnique_id,
     artist_create = pg_artist_create,
     album_findUnique_externalId = pg_album_findUnique_externalId,
     album_findUnique_id = pg_album_findUnique_id,
     album_findMany_artistId = pg_album_findMany_artistId,
     album_create = pg_album_create,
     user_findUnique_id = pg_user_findUnique_id,
     review_findUnique_id = pg_review_findUnique_id,
     review_findUnique_userId_albumId = pg_review_findUnique_userId_albumId,
     review_create = pg_review_create,
     review_update = pg_review_update,
     review_delete = pg_review_delete,
     review_findMany = pg_review_findMany,
     review_count = pg_review_count,
     review_findMany_rating = pg_review_findMany_rating \<rparr>"

text \<open>
  The same store when another request commits its own change \<open>other\<close> between this
  request's existence check and its insert (the services do not wrap the two in a
  transaction).
\<close>

definition pg_racing :: "(world \<Rightarrow> world) \<Rightarrow> prisma" where
  "pg_racing other = pg\<lparr>
     artist_create := (\<lambda>dto w. pg_artist_create dto (other w)),
     album_create := (\<lambda>d w. pg_album_create d (other w)) \<rparr>"

text \<open>
  Every key was drawn from its sequence: no row has a key beyond the sequence's counter.
  The empty store satisfies this, and the operations of \<open>pg\<close> preserve it.
\<close>

definition keysFromSequences :: "world \<Rightarrow> bool" where
  "keysFromSequences w =
     ((\<forall>a \<in> set (artists w). artist_id a \<le> artistSeq w)
      \<and> (\<forall>b \<in> set (albums w). album_id b \<le> albumSeq w)
      \<and> (\<forall>r \<in> set (reviews w). review_id r \<le> reviewSeq w))"

section \<open>Services\<close>

subsection \<open>The catalog client as the services see it\<close>

text \<open>
  The services receive the catalog client by injection as well. Here it is the record of
  the two methods they call, each answering a request with a record or an error; every
  call is appended to \<open>catalogCalls\<close>.
\<close>

record artist_details =
  ad_externalId :: string
  ad_name :: string
  ad_imageUrl :: "string option"
  ad_popularity :: "int option"
  ad_genres :: "string list"

record artist_album =
  aa_externalId :: string
  aa_title :: string
  aa_releaseDate :: "string option"
  aa_coverUrl :: "string option"
  aa_albumType :: "string option"

record musicApi =
  api_getArtistDetails :: "string \<Rightarrow> error + artist_details"
  api_getArtistAlbums :: "string \<Rightarrow> error + artist_album list"

definition musicApi_getArtistDetails :: "musicApi \<Rightarrow> string \<Rightarrow> (world, artist_details) io" where
  "musicApi_getArtistDetails api externalId w =
     (api_getArtistDetails api externalId,
      w\<lparr>catalogCalls := catalogCalls w @ [GetArtistDetails externalId]\<rparr>)"

definition musicApi_getArtistAlbums :: "musicApi \<Rightarrow> string \<Rightarrow> (world, artist_album list) io" where
  "musicApi_getArtistAlbums api externalId w =
     (api_getArtistAlbums api externalId,
      w\<lparr>catalogCalls := catalogCalls w @ [GetArtistAlbums externalId]\<rparr>)"

subsection \<open>ArtistsService\<close>

definition artistsService_create :: "prisma \<Rightarrow> createArtistDto \<Rightarrow> (world, artist) io" where
  "artistsService_create p createArtistDto =
     try_catch
       (await (artist_findUnique_externalId p (ca_externalId createArtistDto)) (\<lambda>existingArtist.
          case existingArtist of
            Some a \<Rightarrow> ret a
          | None \<Rightarrow> artist_create p createArtistDto))
       (\<lambda>error.
          if errorCode error = Some ''P2002''
          then throw (ConflictException ''Artist with this external ID already exists'')
          else throw error)"

text \<open>
  The result of \<open>getArtistDetailsByExternalId\<close>: the artist row, with its albums when
  the row came from the lookup that includes them.
\<close>

record artist_view =
  v_artist :: artist
  v_albums :: "album list option"

definition artistsService_getArtistDetailsByExternalId ::
  "prisma \<Rightarrow> musicApi \<Rightarrow> string \<Rightarrow> (world, artist_view) io" where
  "artistsService_getArtistDetailsByExternalId p api externalId =
     await (artist_findUnique_externalId_albums p externalId) (\<lambda>existingArtist.
       case existingArtist of
         Some (a, bs) \<Rightarrow> ret \<lparr> v_artist = a, v_albums = Some bs \<rparr>
       | None \<Rightarrow>
           await (musicApi_getArtistDetails api externalId) (\<lambda>artistDetails.
             await (artistsService_create p \<lparr> ca_externalId = ad_externalId artistDetails,
                                         ca_name = ad_name artistDetails,
                                         ca_imageUrl = ad_imageUrl artistDetails \<rparr>)
               (\<lambda>a. ret \<lparr> v_artist = a, v_albums = None \<rparr>)))"

datatype artist_albums = AlbumsInDb "album list" | ExternalAlbums "artist_album list"

definition artistsService_getArtistAlbums :: "prisma \<Rightarrow> musicApi \<Rightarrow> int \<Rightarrow> (world, artist_albums) io" where
  "artistsService_getArtistAlbums p api artistId =
     await (artist_findUnique_id p artistId) (\<lambda>artist.
       case artist of
         None \<Rightarrow> throw (NotFoundException (''Artist with ID '' @ showNumber artistId @ '' not found''))
       | Some a \<Rightarrow>
           await (album_findMany_artistId p artistId) (\<lambda>albumsInDb.
             if length albumsInDb > 0 then ret (AlbumsInDb albumsInDb)
             else await (musicApi_getArtistAlbums api (artist_externalId a)) (\<lambda>externalAlbums.
                    ret (ExternalAlbums externalAlbums))))"

subsection \<open>AlbumsService\<close>

text \<open>
  \<open>create\<close> returns the existing row as found, or the new row with its artist
  (\<open>include: {artist: true}\<close>). An empty \<open>releaseDate\<close> string is falsy and is stored
  as \<open>null\<close>.
\<close>

definition albumsService_create ::
  "prisma \<Rightarrow> musicApi \<Rightarrow> createAlbumDto \<Rightarrow> (world, album \<times> artist option) io" where
  "albumsService_create p api createAlbumDto =
     try_catch
       (await (album_findUnique_externalId p (cb_externalId createAlbumDto)) (\<lambda>existingAlbum.
          case existingAlbum of
            Some b \<Rightarrow> ret (b, None)
          | None \<Rightarrow>
              await (artist_findUnique_externalId p (cb_artistExternalId createAlbumDto)) (\<lambda>found.
                await (case found of
                         Some a \<Rightarrow> ret a
                       | None \<Rightarrow>
                           await (musicApi_getArtistDetails api (cb_artistExternalId createAlbumDto))
                             (\<lambda>artistDetails.
                                artistsService_create p \<lparr> ca_externalId = ad_externalId artistDetails,
                                                    ca_name = ad_name artistDetails,
                                                    ca_imageUrl = ad_imageUrl artistDetails \<rparr>))
                  (\<lambda>artist.
                     await (album_create p \<lparr>
                              ab_externalId = cb_externalId createAlbumDto,
                              ab_title = cb_title createAlbumDto,
                              ab_releaseDate = (case cb_releaseDate createAlbumDto of
                                                  None \<Rightarrow> None
                                                | Some d \<Rightarrow> if d = [] then None else Some d),
                              ab_coverUrl = cb_coverUrl createAlbumDto,
                              ab_connect_artist_id = artist_id artist \<rparr>)
                       (\<lambda>(b, a). ret (b, Some a))))))
       (\<lambda>error.
          if errorCode error = Some ''P2002''
          then throw (ConflictException ''Album with this external ID already exists'')
          else throw error)"

text \<open>
  \<open>getAlbumRating\<close>: \<open>reduce\<close> adds the ratings from the left, starting from \<open>0\<close>,
  and the sum is divided by \<open>reviews.length\<close>.
\<close>

record album_rating =
  averageRating :: number
  reviewCount :: nat

definition albumsService_getAlbumRating :: "prisma \<Rightarrow> int \<Rightarrow> (world, album_rating) io" where
  "albumsService_getAlbumRating p albumId =
     await (review_findMany_rating p albumId) (\<lambda>ratings.
       if length ratings = 0 then ret \<lparr> averageRating = Num 0, reviewCount = 0 \<rparr>
       else
         (let totalRating = foldl (\<lambda>sum rating. jsAdd sum (fromInt rating)) (Num 0) ratings;
              averageRating = jsDivide totalRating (fromInt (int (length ratings))) in
          ret \<lparr> averageRating = averageRating, reviewCount = length ratings \<rparr>))"

subsection \<open>ReviewsService\<close>

definition reviewsService_create :: "prisma \<Rightarrow> int \<Rightarrow> createReviewDto \<Rightarrow> (world, review) io" where
  "reviewsService_create p userId createReviewDto =
     await (album_findUnique_id p (cr_albumId createReviewDto)) (\<lambda>album.
       case album of
         None \<Rightarrow> throw (NotFoundException
                   (''Album with ID '' @ showNumber (cr_albumId createReviewDto) @ '' not found''))
       | Some b \<Rightarrow>
           await (review_findUnique_userId_albumId p userId (cr_albumId createReviewDto))
             (\<lambda>existingReview.
                case existingReview of
                  Some r \<Rightarrow> throw (ConflictException ''You have already reviewed this album'')
                | None \<Rightarrow>
                    review_create p \<lparr> rd_userId = userId,
                                       rd_albumId = cr_albumId createReviewDto,
                                       rd_rating = cr_rating createReviewDto,
                                       rd_comment = cr_comment createReviewDto \<rparr>))"

record page_meta =
  meta_total :: nat
  meta_skip :: nat
  meta_take :: nat
  meta_hasMore :: bool

record review_page =
  page_reviews :: "review list"
  page_meta :: page_meta

text \<open>\<open>Promise.all([findMany, count])\<close>, then the page object.\<close>

definition reviewPage :: "prisma \<Rightarrow> review_where \<Rightarrow> nat \<Rightarrow> nat \<Rightarrow> (world, review_page) io" where
  "reviewPage p wh skip tk =
     await (review_findMany p wh skip tk) (\<lambda>rs.
       await (review_count p wh) (\<lambda>total.
         ret \<lparr> page_reviews = rs,
               page_meta = \<lparr> meta_total = total, meta_skip = skip, meta_take = tk,
                              meta_hasMore = (skip + tk < total) \<rparr> \<rparr>))"

definition reviewsService_findAll :: "prisma \<Rightarrow> nat \<Rightarrow> nat \<Rightarrow> (world, review_page) io" where
  "reviewsService_findAll p skip tk = reviewPage p AllReviews skip tk"

definition reviewsService_findByAlbumId :: "prisma \<Rightarrow> int \<Rightarrow> nat \<Rightarrow> nat \<Rightarrow> (world, review_page) io" where
  "reviewsService_findByAlbumId p albumId skip tk =
     await (album_findUnique_id p albumId) (\<lambda>album.
       case album of
         None \<Rightarrow> throw (NotFoundException (''Album with ID '' @ showNumber albumId @ '' not found''))
       | Some b \<Rightarrow> reviewPage p (ByAlbumId albumId) skip tk)"

definition reviewsService_findByUserId :: "prisma \<Rightarrow> int \<Rightarrow> nat \<Rightarrow> nat \<Rightarrow> (world, review_page) io" where
  "reviewsService_findByUserId p userId skip tk =
     await (user_findUnique_id p userId) (\<lambda>user.
       case user of
         None \<Rightarrow> throw (NotFoundException (''User with ID '' @ showNumber userId @ '' not found''))
       | Some u \<Rightarrow> reviewPage p (ByUserId userId) skip tk)"

definition reviewsService_update :: "prisma \<Rightarrow> int \<Rightarrow> int \<Rightarrow> updateReviewDto \<Rightarrow> (world, review) io" where
  "reviewsService_update p i userId updateReviewDto =
     await (review_findUnique_id p i) (\<lambda>review.
       case review of
         None \<Rightarrow> throw (NotFoundException (''Review with ID '' @ showNumber i @ '' not found''))
       | Some r \<Rightarrow>
           if review_userId r \<noteq> userId
           then throw (ForbiddenException ''You can only update your own reviews'')
           else review_update p i updateReviewDto)"

definition reviewsService_remove :: "prisma \<Rightarrow> int \<Rightarrow> int \<Rightarrow> (world, review) io" where
  "reviewsService_remove p i userId =
     await (review_findUnique_id p i) (\<lambda>review.
       case review of
         None \<Rightarrow> throw (NotFoundException (''Review with ID '' @ showNumber i @ '' not found''))
       | Some r \<Rightarrow>
           if review_userId r \<noteq> userId
           then throw (ForbiddenException ''You can only delete your own reviews'')
           else review_delete p i)"

section \<open>Notions of the specification\<close>

text \<open>
  The ratings of the review rows of an album, and the arithmetic mean of a list of
  ratings (from the wording of the specification).
\<close>

definition albumRatings :: "int \<Rightarrow> world \<Rightarrow> int list" where
  "albumRatings albumId w = map review_rating (filter (\<lambda>r. review_albumId r = albumId) (reviews w))"

definition arithmeticMean :: "int list \<Rightarrow> rat" where
  "arithmeticMean xs = of_int (sum_list xs) / of_nat (length xs)"


section \<open>Example data\<close>

text \<open>Concrete catalog entries and a catalog that answers every search with a fixed list.\<close>

definition ex_album :: "string \<Rightarrow> string option \<Rightarrow> int option \<Rightarrow> spotify_album" where
  "ex_album i ty n = \<lparr> sp_id = Some i, sp_name = Some ''Title'', sp_release_date = None, sp_images = [],
      sp_artists = Some [], sp_album_type = ty, sp_total_tracks = n, sp_tracks = None \<rparr>"

definition ex_catalog :: "spotify_album list \<Rightarrow> spotify" where
  "ex_catalog items = \<lparr>
     token_reply = (\<lambda>t. Token ''token''),
     album_reply = (\<lambda>t path. AlbumFailed (Some 404)),
     search_reply = (\<lambda>t q l off. SearchData items) \<rparr>"

text \<open>
  A catalog whose album endpoint refuses the second interaction (the first lookup, which
  follows the token) with status 404 and answers every later lookup, and whose search
  returns a fixed list.
\<close>

definition ex_flaky :: "spotify_album list \<Rightarrow> spotify" where
  "ex_flaky items = \<lparr>
     token_reply = (\<lambda>t. Token ''token''),
     album_reply = (\<lambda>t path. if t = 1 then AlbumFailed (Some 404)
                               else AlbumData (Some (ex_album path (Some ''album'') (Some 9)))),
     search_reply = (\<lambda>t q l off. SearchData items) \<rparr>"

definition ex_details :: "string \<Rightarrow> album_details" where
  "ex_details i = \<lparr> d_externalId = Some i, d_title = Some ''Title'', d_releaseDate = None,
     d_coverUrl = None, d_artistName = None, d_artistExternalId = None, d_tracks = None \<rparr>"

definition ex_summary :: "string \<Rightarrow> album_summary" where
  "ex_summary i = \<lparr> s_externalId = Some i, s_title = Some ''Title'', s_releaseDate = None,
     s_coverUrl = None, s_artistName = None, s_artistExternalId = None,
     s_albumType = Some ''album'', s_totalTracks = Some 9 \<rparr>"

definition ex_notFound :: error where
  "ex_notFound = NotFoundException ''Album with ID abc not found in Spotify''"

text \<open>
  A store with two users, one artist with two albums, and two reviews of the first album;
  and a catalog client that knows one more artist.
\<close>

definition ex_artist :: artist where
  "ex_artist = \<lparr> artist_id = 1, artist_externalId = ''artist123'', artist_name = ''Test Artist'',
     artist_imageUrl = None \<rparr>"

definition ex_album1 :: album where
  "ex_album1 = \<lparr> album_id = 1, album_externalId = ''album123'', album_title = ''Test Album'',
     album_releaseDate = None, album_coverUrl = None, album_artistId = 1 \<rparr>"

definition ex_album2 :: album where
  "ex_album2 = \<lparr> album_id = 2, album_externalId = ''album456'', album_title = ''Other Album'',
     album_releaseDate = None, album_coverUrl = None, album_artistId = 1 \<rparr>"

definition ex_review1 :: review where
  "ex_review1 = \<lparr> review_id = 1, review_userId = 1, review_albumId = 1, review_rating = 4,
     review_comment = Some ''Good'', review_createdAt = 10 \<rparr>"

definition ex_review2 :: review where
  "ex_review2 = \<lparr> review_id = 2, review_userId = 2, review_albumId = 1, review_rating = 5,
     review_comment = None, review_createdAt = 20 \<rparr>"

definition ex_world :: world where
  "ex_world = \<lparr>
     users = [\<lparr> user_id = 1, user_username = ''alice'', user_email = ''alice@example.com'',
                user_passwordHash = ''hash'', user_createdAt = 1 \<rparr>,
              \<lparr> user_id = 2, user_username = ''bob'', user_email = ''bob@example.com'',
                user_passwordHash = ''hash'', user_createdAt = 2 \<rparr>],
     artists = [ex_artist],
     albums = [ex_album1, ex_album2],
     reviews = [ex_review1, ex_review2],
     artistSeq = 1, albumSeq = 2, reviewSeq = 2, now = 30, catalogCalls = [] \<rparr>"

text \<open>
  The same store with a third user, where the first album has the ratings 1, 1 and 2 and
  the second the ratings 4, 5 and 3.
\<close>

definition ex_rating :: "int \<Rightarrow> int \<Rightarrow> int \<Rightarrow> int \<Rightarrow> review" where
  "ex_rating i u a r = \<lparr> review_id = i, review_userId = u, review_albumId = a, review_rating = r,
     review_comment = None, review_createdAt = 10 + i \<rparr>"

definition ex_rated :: world where
  "ex_rated = ex_world\<lparr>
     users := users ex_world @ [\<lparr> user_id = 3, user_username = ''carol'', user_email = ''carol@example.com'',
                                 user_passwordHash = ''hash'', user_createdAt = 3 \<rparr>],
     reviews := [ex_rating 1 1 1 1, ex_rating 2 2 1 1, ex_rating 3 3 1 2,
                 ex_rating 4 1 2 4, ex_rating 5 2 2 5, ex_rating 6 3 2 3],
     reviewSeq := 6 \<rparr>"

definition ex_api :: musicApi where
  "ex_api = \<lparr>
     api_getArtistDetails = (\<lambda>e. if e = ''artist999''
        then Inr \<lparr> ad_externalId = ''artist999'', ad_name = ''New Artist'', ad_imageUrl = None,
                   ad_popularity = Some 85, ad_genres = [''pop''] \<rparr>
        else Inl (Error ''Failed to get artist details'')),
     api_getArtistAlbums = (\<lambda>e. Inr [\<lparr> aa_externalId = ''album789'', aa_title = ''Catalog Album'',
        aa_releaseDate = None, aa_coverUrl = None, aa_albumType = Some ''album'' \<rparr>]) \<rparr>"

text \<open>The row of the catalog's artist once resolved, and the store after resolving it.\<close>

definition ex_new_artist :: artist where
  "ex_new_artist = \<lparr> artist_id = 2, artist_externalId = ''artist999'', artist_name = ''New Artist'',
     artist_imageUrl = None \<rparr>"

definition ex_world1 :: world where
  "ex_world1 = ex_world\<lparr> artists := [ex_artist, ex_new_artist], artistSeq := 2,
     catalogCalls := [GetArtistDetails ''artist999''] \<rparr>"

text \<open>
  A concurrent request that creates the catalog's artist, one that creates an album
  \<open>album789\<close> of the first artist, and stores in which an insert or a lookup fails
  because the database cannot be reached.
\<close>

definition ex_concurrent_artist :: "world \<Rightarrow> world" where
  "ex_concurrent_artist w =
     snd (pg_artist_create \<lparr> ca_externalId = ''artist999'', ca_name = ''New Artist'',
                              ca_imageUrl = None \<rparr> w)"

definition ex_concurrent_album :: "world \<Rightarrow> world" where
  "ex_concurrent_album w =
     snd (pg_album_create \<lparr> ab_externalId = ''album789'', ab_title = ''Catalog Album'',
                             ab_releaseDate = None, ab_coverUrl = None,
                             ab_connect_artist_id = 1 \<rparr> w)"

definition ex_artist_insert_down :: prisma where
  "ex_artist_insert_down = pg\<lparr> artist_create := (\<lambda>dto. throw (PrismaError ''P1001'')) \<rparr>"

definition ex_album_insert_down :: prisma where
  "ex_album_insert_down = pg\<lparr> album_create := (\<lambda>d. throw (PrismaError ''P1001'')) \<rparr>"

definition ex_createArtist :: createArtistDto where
  "ex_createArtist = \<lparr> ca_externalId = ''artist999'', ca_name = ''New Artist'', ca_imageUrl = None \<rparr>"

definition ex_createAlbum :: "string \<Rightarrow> string \<Rightarrow> createAlbumDto" where
  "ex_createAlbum e a = \<lparr> cb_externalId = e, cb_title = ''Catalog Album'', cb_releaseDate = None,
     cb_coverUrl = None, cb_artistExternalId = a \<rparr>"

definition ex_artist_lookup_down :: prisma where
  "ex_artist_lookup_down = pg\<lparr> artist_findUnique_externalId := (\<lambda>e. throw (PrismaError ''P1001'')) \<rparr>"

definition ex_album_lookup_down :: prisma where
  "ex_album_lookup_down = pg\<lparr> album_findUnique_externalId := (\<lambda>e. throw (PrismaError ''P1001'')) \<rparr>"

section \<open>Verified properties\<close>

subsection \<open>JavaScript primitives on literals\<close>

lemma toLowerCase_literals:
  "toLowerCase ''album'' = ''album''" "toLowerCase ''ep'' = ''ep''" "toLowerCase ''single'' = ''single''"
  by (simp_all add: toLowerCase_def toLowerCaseChar_def)

lemma try_catch_rethrow: "try_catch m (\<lambda>error. throw error) = m"
  by (rule ext) (simp add: try_catch_def throw_def split: prod.split sum.split)

subsection \<open>The post-filter of searchAlbums\<close>

lemma filteredItems_append: "filteredItems (xs @ ys) = filteredItems xs @ filteredItems ys"
  by (simp add: filteredItems_def)

lemma filteredItems_Cons:
  "filteredItems (x # xs) = (if fst (albumFilter x) then [snd (albumFilter x)] else []) @ filteredItems xs"
  by (simp add: filteredItems_def)

lemma albumFilter_album:
  "sp_album_type a = Some ''album'' \<or> sp_album_type a = Some ''ep'' \<Longrightarrow> albumFilter a = (True, a)"
  by (auto simp add: albumFilter_def toLowerCase_literals)

lemma albumFilter_single:
  "sp_album_type a = Some ''single'' \<Longrightarrow>
   albumFilter a = (case sp_total_tracks a of None \<Rightarrow> (True, a\<lparr>sp_album_type := Some ''ep''\<rparr>)
       | Some n \<Rightarrow> if n \<ge> 2 then (True, a\<lparr>sp_album_type := Some ''ep''\<rparr>) else (False, a))"
  by (auto simp add: albumFilter_def toLowerCase_literals)


lemma albumFilter_cases:
  "(albumFilter a = (True, a)
      \<and> (\<exists>t. sp_album_type a = Some t \<and> (toLowerCase t = ''album'' \<or> toLowerCase t = ''ep'')))
   \<or> albumFilter a = (True, a\<lparr>sp_album_type := Some ''ep''\<rparr>)
   \<or> albumFilter a = (False, a)"
proof (cases "sp_album_type a")
  case None
  then show ?thesis by (simp add: albumFilter_def)
next
  case (Some t)
  then show ?thesis by (simp add: albumFilter_def Let_def toLowerCase_literals split: option.split)
qed



lemma set_slice0: "set (slice0 xs n) \<subseteq> set xs"
  by (simp add: slice0_def set_take_subset)


lemma formatSummary_type: "formatSummary a = Inr r \<Longrightarrow> s_albumType r = map_option toLowerCase (sp_album_type a)"
  by (auto simp add: formatSummary_def split: sum.splits)


lemma getAccessToken_cases:
  "(\<exists>token. getAccessToken sp tr = (Inr token, tr @ [AccessToken]))
   \<or> (\<exists>m. getAccessToken sp tr = (Inl (Error m), tr @ [AccessToken]))"
  by (cases "token_reply sp (length tr)") (simp_all add: getAccessToken_def)

lemma searchAlbums_cases:
  "(\<exists>m. searchAlbums sp query limit offset tr = (Inl (Error m), tr @ [AccessToken]))
   \<or> (\<exists>m. searchAlbums sp query limit offset tr
          = (Inl (Error m),
             tr @ [AccessToken, AlbumSearch (if isLikelySpotifyId query then ''id:'' @ query else query) 50 (min offset 950)]))
   \<or> (\<exists>items. searchAlbums sp query limit offset tr
          = (formattedResults limit items,
             tr @ [AccessToken, AlbumSearch (if isLikelySpotifyId query then ''id:'' @ query else query) 50 (min offset 950)]))"
proof -
  let ?q = "if isLikelySpotifyId query then ''id:'' @ query else query"
  from getAccessToken_cases [of sp tr] show ?thesis
  proof (elim disjE exE)
    fix m assume "getAccessToken sp tr = (Inl (Error m), tr @ [AccessToken])"
    then show ?thesis by (simp add: searchAlbums_def try_catch_rethrow await_def)
  next
    fix token assume tok: "getAccessToken sp tr = (Inr token, tr @ [AccessToken])"
    show ?thesis
    proof (cases "search_reply sp (Suc (length tr)) ?q 50 (min offset 950)")
      case SearchFailed
      with tok show ?thesis
        by (simp add: searchAlbums_def try_catch_rethrow await_def httpSearchAlbums_def Let_def)
    next
      case (SearchData items)
      with tok have "searchAlbums sp query limit offset tr
          = (formattedResults limit items, tr @ [AccessToken, AlbumSearch ?q 50 (min offset 950)])"
        by (cases "formattedResults limit items")
           (simp_all add: searchAlbums_def try_catch_rethrow await_def httpSearchAlbums_def Let_def
              throw_def ret_def)
      then show ?thesis by blast
    qed
  qed
qed


lemma mapE_nth: "mapE f xs = Inr ys \<Longrightarrow> length ys = length xs \<and> (\<forall>i < length xs. f (xs ! i) = Inr (ys ! i))"
proof (induction xs arbitrary: ys)
  case Nil
  then show ?case by simp
next
  case (Cons x xs)
  from Cons.prems obtain z zs where z: "f x = Inr z" "mapE f xs = Inr zs" "ys = z # zs"
    by (auto split: sum.splits)
  from Cons.IH [OF z(2)] z show ?case by (auto simp add: nth_Cons split: nat.split)
qed

lemma mapE_total: "(\<forall>x \<in> set xs. \<exists>y. f x = Inr y) \<Longrightarrow> \<exists>ys. mapE f xs = Inr ys"
  by (induction xs) auto

lemma slice0_nth: "int k < limit \<Longrightarrow> k < length zs \<Longrightarrow> k < length (slice0 zs limit) \<and> slice0 zs limit ! k = zs ! k"
  by (simp add: slice0_def)

lemma formatSummary_id: "formatSummary a = Inr r \<Longrightarrow> s_externalId r = sp_id a"
  by (auto simp add: formatSummary_def split: sum.splits)

lemma formatSummary_total: "sp_artists a \<noteq> None \<Longrightarrow> \<exists>r. formatSummary a = Inr r"
  by (auto simp add: formatSummary_def firstArtist_def split: option.splits list.splits)

lemma filteredItems_artists:
  assumes "x \<in> set (filteredItems items)"
  shows "\<exists>a \<in> set items. sp_artists x = sp_artists a"
proof -
  from assms obtain a where a: "a \<in> set items" "x = snd (albumFilter a)"
    by (auto simp add: filteredItems_def)
  from albumFilter_cases [of a] a(2) have "sp_artists x = sp_artists a" by auto
  with a(1) show ?thesis by blast
qed

lemma searchAlbums_answer:
  assumes t: "token_reply sp (length tr) = Token token"
    and s: "search_reply sp (Suc (length tr)) (if isLikelySpotifyId query then ''id:'' @ query else query) 50 (min offset 950)
          = SearchData items"
  shows "searchAlbums sp query limit offset tr
     = (mapE formatSummary (slice0 (filteredItems items) limit),
        tr @ [AccessToken, AlbumSearch (if isLikelySpotifyId query then ''id:'' @ query else query) 50 (min offset 950)])"
  by (cases "formattedResults limit items")
      (use t s in \<open>simp_all add: searchAlbums_def try_catch_rethrow await_def getAccessToken_def httpSearchAlbums_def Let_def
              throw_def ret_def\<close>, simp_all add: formattedResults_def)

lemma searchAlbums_entry:
  assumes run: "searchAlbums sp query limit offset tr = (Inr results, tr')"
    and ans: "searchAlbums sp query limit offset tr = (mapE formatSummary (slice0 (us @ e # vs) limit), tr'')"
    and k: "int (length us) < limit"
  shows "length us < length results \<and> formatSummary e = Inr (results ! length us)"
proof -
  from run ans have m: "mapE formatSummary (slice0 (us @ e # vs) limit) = Inr results" by simp
  from slice0_nth [of "length us" limit "us @ e # vs"] k
  have s: "length us < length (slice0 (us @ e # vs) limit)" "slice0 (us @ e # vs) limit ! length us = e"
    by simp_all
  from mapE_nth [OF m] s show ?thesis by auto
qed

text \<open>
  C2. Let the catalog answer the search of \<open>searchAlbums\<close> with the list \<open>items\<close>.
  Then \<open>searchAlbums\<close> returns the records formatted from the first \<open>limit\<close> entries
  of the post-filtered list, and it does return records when every entry has an
  \<open>artists\<close> array. In the post-filtered list an entry of type \<open>album\<close> or \<open>ep\<close>
  is kept unchanged and in place, and where it falls within the limit it is returned
  with its own id and type; an entry of type \<open>single\<close> whose track count is at least 2
  or undefined is kept with its type rewritten to \<open>ep\<close>, and returned with type
  \<open>ep\<close>; an entry of type \<open>single\<close> with exactly one track is dropped, and the
  result is the one formatted from the other entries.
\<close>

theorem searchAlbums_post_filter:
  assumes "token_reply sp (length tr) = Token token"
    and "search_reply sp (Suc (length tr)) (if isLikelySpotifyId query then ''id:'' @ query else query) 50 (min offset 950)
          = SearchData items"
  shows "searchAlbums sp query limit offset tr
           = (mapE formatSummary (slice0 (filteredItems items) limit),
              tr @ [AccessToken, AlbumSearch (if isLikelySpotifyId query then ''id:'' @ query else query) 50 (min offset 950)])
   \<and> ((\<forall>x \<in> set items. sp_artists x \<noteq> None) \<longrightarrow>
        (\<exists>results. fst (searchAlbums sp query limit offset tr) = Inr results
            \<and> length results = length (slice0 (filteredItems items) limit)))
   \<and> (items = xs @ a # ys \<and> (sp_album_type a = Some ''album'' \<or> sp_album_type a = Some ''ep'') \<longrightarrow>
        filteredItems items = filteredItems xs @ a # filteredItems ys
        \<and> (fst (searchAlbums sp query limit offset tr) = Inr results \<and> int (length (filteredItems xs)) < limit \<longrightarrow>
             length (filteredItems xs) < length results
             \<and> formatSummary a = Inr (results ! length (filteredItems xs))
             \<and> s_externalId (results ! length (filteredItems xs)) = sp_id a
             \<and> s_albumType (results ! length (filteredItems xs)) = sp_album_type a))
   \<and> (items = xs @ s # ys \<and> sp_album_type s = Some ''single''
        \<and> (sp_total_tracks s = None \<or> (\<exists>n. sp_total_tracks s = Some n \<and> n \<ge> 2)) \<longrightarrow>
        filteredItems items = filteredItems xs @ s\<lparr>sp_album_type := Some ''ep''\<rparr> # filteredItems ys
        \<and> (fst (searchAlbums sp query limit offset tr) = Inr results \<and> int (length (filteredItems xs)) < limit \<longrightarrow>
             length (filteredItems xs) < length results
             \<and> formatSummary (s\<lparr>sp_album_type := Some ''ep''\<rparr>) = Inr (results ! length (filteredItems xs))
             \<and> s_externalId (results ! length (filteredItems xs)) = sp_id s
             \<and> s_albumType (results ! length (filteredItems xs)) = Some ''ep''))
   \<and> (items = xs @ d # ys \<and> sp_album_type d = Some ''single'' \<and> sp_total_tracks d = Some 1 \<longrightarrow>
        filteredItems items = filteredItems xs @ filteredItems ys
        \<and> fst (searchAlbums sp query limit offset tr) = mapE formatSummary (slice0 (filteredItems (xs @ ys)) limit))"
proof -
  let ?q = "if isLikelySpotifyId query then ''id:'' @ query else query"
  let ?tr = "tr @ [AccessToken, AlbumSearch ?q 50 (min offset 950)]"
  let ?k = "length (filteredItems xs)"
  note ans = searchAlbums_answer [OF assms, of limit]
  have total: "\<exists>results. fst (searchAlbums sp query limit offset tr) = Inr results
            \<and> length results = length (slice0 (filteredItems items) limit)"
    if art: "\<forall>x \<in> set items. sp_artists x \<noteq> None"
  proof -
    have "\<exists>y. formatSummary x = Inr y" if x: "x \<in> set (slice0 (filteredItems items) limit)" for x
    proof -
      from x set_slice0 [of "filteredItems items" limit] have "x \<in> set (filteredItems items)"
        by (rule subsetD [rotated])
      from filteredItems_artists [OF this] art have "sp_artists x \<noteq> None" by auto
      then show ?thesis by (rule formatSummary_total)
    qed
    then have "\<forall>x \<in> set (slice0 (filteredItems items) limit). \<exists>y. formatSummary x = Inr y" by blast
    from mapE_total [OF this] obtain rs where rs: "mapE formatSummary (slice0 (filteredItems items) limit) = Inr rs" ..
    from mapE_nth [OF rs] have "length rs = length (slice0 (filteredItems items) limit)" by simp
    with rs ans show ?thesis by simp
  qed
  have kept: "filteredItems items = filteredItems xs @ a # filteredItems ys
        \<and> (fst (searchAlbums sp query limit offset tr) = Inr results \<and> int ?k < limit \<longrightarrow>
             ?k < length results
             \<and> formatSummary a = Inr (results ! ?k)
             \<and> s_externalId (results ! ?k) = sp_id a
             \<and> s_albumType (results ! ?k) = sp_album_type a)"
    if h: "items = xs @ a # ys \<and> (sp_album_type a = Some ''album'' \<or> sp_album_type a = Some ''ep'')"
  proof -
    from h have f: "filteredItems items = filteredItems xs @ a # filteredItems ys"
      by (simp add: filteredItems_append filteredItems_Cons albumFilter_album)
    have "?k < length results \<and> formatSummary a = Inr (results ! ?k)
             \<and> s_externalId (results ! ?k) = sp_id a \<and> s_albumType (results ! ?k) = sp_album_type a"
      if r: "fst (searchAlbums sp query limit offset tr) = Inr results \<and> int ?k < limit"
    proof -
      from r ans have run: "searchAlbums sp query limit offset tr = (Inr results, ?tr)" by simp
      from ans f have "searchAlbums sp query limit offset tr
          = (mapE formatSummary (slice0 (filteredItems xs @ a # filteredItems ys) limit), ?tr)" by simp
      from searchAlbums_entry [OF run this] r
      have e: "?k < length results" "formatSummary a = Inr (results ! ?k)" by simp_all
      from formatSummary_type [OF e(2)] h have "s_albumType (results ! ?k) = sp_album_type a"
        by (auto simp add: toLowerCase_literals)
      moreover from formatSummary_id [OF e(2)] have "s_externalId (results ! ?k) = sp_id a" .
      ultimately show ?thesis using e by simp
    qed
    with f show ?thesis by blast
  qed
  have rewritten: "filteredItems items = filteredItems xs @ s\<lparr>sp_album_type := Some ''ep''\<rparr> # filteredItems ys
        \<and> (fst (searchAlbums sp query limit offset tr) = Inr results \<and> int ?k < limit \<longrightarrow>
             ?k < length results
             \<and> formatSummary (s\<lparr>sp_album_type := Some ''ep''\<rparr>) = Inr (results ! ?k)
             \<and> s_externalId (results ! ?k) = sp_id s
             \<and> s_albumType (results ! ?k) = Some ''ep'')"
    if h: "items = xs @ s # ys \<and> sp_album_type s = Some ''single''
        \<and> (sp_total_tracks s = None \<or> (\<exists>n. sp_total_tracks s = Some n \<and> n \<ge> 2))"
  proof -
    let ?s = "s\<lparr>sp_album_type := Some ''ep''\<rparr>"
    from h have f: "filteredItems items = filteredItems xs @ ?s # filteredItems ys"
      by (auto simp add: filteredItems_append filteredItems_Cons albumFilter_single)
    have "?k < length results \<and> formatSummary ?s = Inr (results ! ?k)
             \<and> s_externalId (results ! ?k) = sp_id s \<and> s_albumType (results ! ?k) = Some ''ep''"
      if r: "fst (searchAlbums sp query limit offset tr) = Inr results \<and> int ?k < limit"
    proof -
      from r ans have run: "searchAlbums sp query limit offset tr = (Inr results, ?tr)" by simp
      from ans f have "searchAlbums sp query limit offset tr
          = (mapE formatSummary (slice0 (filteredItems xs @ ?s # filteredItems ys) limit), ?tr)" by simp
      from searchAlbums_entry [OF run this] r
      have e: "?k < length results" "formatSummary ?s = Inr (results ! ?k)" by simp_all
      from formatSummary_type [OF e(2)] have "s_albumType (results ! ?k) = Some ''ep''"
        by (simp add: toLowerCase_literals)
      moreover from formatSummary_id [OF e(2)] have "s_externalId (results ! ?k) = sp_id s" by simp
      ultimately show ?thesis using e by simp
    qed
    with f show ?thesis by blast
  qed
  have dropped: "filteredItems items = filteredItems xs @ filteredItems ys
        \<and> fst (searchAlbums sp query limit offset tr) = mapE formatSummary (slice0 (filteredItems (xs @ ys)) limit)"
    if h: "items = xs @ d # ys \<and> sp_album_type d = Some ''single'' \<and> sp_total_tracks d = Some 1"
  proof -
    from h have f: "filteredItems items = filteredItems xs @ filteredItems ys"
      by (simp add: filteredItems_append filteredItems_Cons albumFilter_single)
    with ans show ?thesis by (simp add: filteredItems_append)
  qed
  from ans total kept rewritten dropped show ?thesis by blast
qed

theorem searchAlbums_post_filter_witness:
  "searchAlbums (ex_catalog [ex_album ''d'' (Some ''single'') (Some 1), ex_album ''a'' (Some ''album'') (Some 9),
                             ex_album ''s'' (Some ''single'') (Some 2)]) ''x'' 10 0 []
     = (Inr [ex_summary ''a'', (ex_summary ''s'')\<lparr>s_albumType := Some ''ep'', s_totalTracks := Some 2\<rparr>],
        [AccessToken, AlbumSearch ''x'' 50 0])
   \<and> filteredItems [ex_album ''d'' (Some ''single'') (Some 1), ex_album ''a'' (Some ''album'') (Some 9),
                     ex_album ''s'' (Some ''single'') (Some 2)]
     = [ex_album ''a'' (Some ''album'') (Some 9), ex_album ''s'' (Some ''ep'') (Some 2)]
   \<and> formatSummary (ex_album ''a'' (Some ''album'') (Some 9))
     = Inr ([ex_summary ''a'', (ex_summary ''s'')\<lparr>s_albumType := Some ''ep'', s_totalTracks := Some 2\<rparr>] ! 0)
   \<and> s_albumType ([ex_summary ''a'', (ex_summary ''s'')\<lparr>s_albumType := Some ''ep'', s_totalTracks := Some 2\<rparr>] ! 0)
     = Some ''album''
   \<and> formatSummary (ex_album ''s'' (Some ''ep'') (Some 2))
     = Inr ([ex_summary ''a'', (ex_summary ''s'')\<lparr>s_albumType := Some ''ep'', s_totalTracks := Some 2\<rparr>] ! 1)
   \<and> s_externalId ([ex_summary ''a'', (ex_summary ''s'')\<lparr>s_albumType := Some ''ep'', s_totalTracks := Some 2\<rparr>] ! 1)
     = Some ''s''
   \<and> s_albumType ([ex_summary ''a'', (ex_summary ''s'')\<lparr>s_albumType := Some ''ep'', s_totalTracks := Some 2\<rparr>] ! 1)
     = Some ''ep''
   \<and> fst (searchAlbums (ex_catalog [ex_album ''d'' (Some ''single'') (Some 1), ex_album ''a'' (Some ''album'') (Some 9),
                                  ex_album ''s'' (Some ''single'') (Some 2)]) ''x'' 10 0 [])
     = mapE formatSummary (slice0 (filteredItems ([] @ [ex_album ''a'' (Some ''album'') (Some 9),
                                                        ex_album ''s'' (Some ''single'') (Some 2)])) 10)"
proof -
  let ?d = "ex_album ''d'' (Some ''single'') (Some 1)"
  let ?a = "ex_album ''a'' (Some ''album'') (Some 9)"
  let ?s = "ex_album ''s'' (Some ''single'') (Some 2)"
  let ?rs = "[ex_summary ''a'', (ex_summary ''s'')\<lparr>s_albumType := Some ''ep'', s_totalTracks := Some 2\<rparr>]"
  let ?sp = "ex_catalog [?d, ?a, ?s]"
  have tok: "token_reply ?sp (length []) = Token ''token''"
    by (simp add: ex_catalog_def)
  have sr: "search_reply ?sp (Suc (length [])) (if isLikelySpotifyId ''x'' then ''id:'' @ ''x'' else ''x'') 50 (min 0 950)
        = SearchData [?d, ?a, ?s]"
    by (simp add: ex_catalog_def)
  have q: "(if isLikelySpotifyId ''x'' then ''id:'' @ ''x'' else ''x'') = ''x''"
    by (simp add: isLikelySpotifyId_def)
  have a: "[?d, ?a, ?s] = [?d] @ ?a # [?s] \<and> (sp_album_type ?a = Some ''album'' \<or> sp_album_type ?a = Some ''ep'')"
    by (simp add: ex_album_def)
  have s: "[?d, ?a, ?s] = [?d, ?a] @ ?s # [] \<and> sp_album_type ?s = Some ''single''
        \<and> (sp_total_tracks ?s = None \<or> (\<exists>n. sp_total_tracks ?s = Some n \<and> n \<ge> 2))"
    by (simp add: ex_album_def)
  have d: "[?d, ?a, ?s] = [] @ ?d # [?a, ?s] \<and> sp_album_type ?d = Some ''single'' \<and> sp_total_tracks ?d = Some 1"
    by (simp add: ex_album_def)
  have ep: "?s\<lparr>sp_album_type := Some ''ep''\<rparr> = ex_album ''s'' (Some ''ep'') (Some 2)"
    by (simp add: ex_album_def)
  have fe: "filteredItems [] = []" "filteredItems [?d] = []" "filteredItems [?d, ?a] = [?a]"
    by (simp_all add: filteredItems_def albumFilter_def ex_album_def toLowerCase_def toLowerCaseChar_def)
  note ta = searchAlbums_post_filter [OF tok sr, where limit = 10 and xs = "[?d]" and a = ?a and ys = "[?s]"
      and results = ?rs]
  note ts = searchAlbums_post_filter [OF tok sr, where limit = 10 and xs = "[?d, ?a]" and s = ?s and ys = "[]"
      and results = ?rs]
  note td = searchAlbums_post_filter [OF tok sr, where limit = 10 and xs = "[]" and d = ?d and ys = "[?a, ?s]"]
  from td d have f1: "fst (searchAlbums ?sp ''x'' 10 0 []) = mapE formatSummary (slice0 (filteredItems ([] @ [?a, ?s])) 10)"
    by blast
  from ts s have f2: "filteredItems [?d, ?a, ?s] = filteredItems [?d, ?a] @ ?s\<lparr>sp_album_type := Some ''ep''\<rparr> # filteredItems []"
    by blast
  from ta a have f3: "filteredItems [?d, ?a, ?s] = filteredItems [?d] @ ?a # filteredItems [?s]" by blast
  from f2 have f: "filteredItems [?d, ?a, ?s] = [?a, ex_album ''s'' (Some ''ep'') (Some 2)]"
    by (simp add: fe ep)
  from ta have "searchAlbums ?sp ''x'' 10 0 [] = (mapE formatSummary (slice0 (filteredItems [?d, ?a, ?s]) 10),
      [] @ [AccessToken, AlbumSearch (if isLikelySpotifyId ''x'' then ''id:'' @ ''x'' else ''x'') 50 (min 0 950)])"
    by blast
  then have run: "searchAlbums ?sp ''x'' 10 0 [] = (Inr ?rs, [AccessToken, AlbumSearch ''x'' 50 0])"
    unfolding f q
    by (simp add: slice0_def formatSummary_def firstArtist_def ex_album_def ex_summary_def toLowerCase_def toLowerCaseChar_def)
  have pre: "fst (searchAlbums ?sp ''x'' 10 0 []) = Inr ?rs \<and> int (length (filteredItems [?d])) < 10"
    "fst (searchAlbums ?sp ''x'' 10 0 []) = Inr ?rs \<and> int (length (filteredItems [?d, ?a])) < 10"
    unfolding run fe by simp_all
  from ta a pre(1) have "formatSummary ?a = Inr (?rs ! length (filteredItems [?d]))
      \<and> s_albumType (?rs ! length (filteredItems [?d])) = sp_album_type ?a"
    by blast
  then have ra: "formatSummary ?a = Inr (?rs ! 0) \<and> s_albumType (?rs ! 0) = Some ''album''"
    unfolding fe by (simp add: ex_album_def)
  from ts s pre(2) have "formatSummary (?s\<lparr>sp_album_type := Some ''ep''\<rparr>) = Inr (?rs ! length (filteredItems [?d, ?a]))
      \<and> s_externalId (?rs ! length (filteredItems [?d, ?a])) = sp_id ?s
      \<and> s_albumType (?rs ! length (filteredItems [?d, ?a])) = Some ''ep''"
    by blast
  then have rs: "formatSummary (ex_album ''s'' (Some ''ep'') (Some 2)) = Inr (?rs ! 1)
      \<and> s_externalId (?rs ! 1) = Some ''s'' \<and> s_albumType (?rs ! 1) = Some ''ep''"
    unfolding fe ep by (simp add: ex_album_def)
  from run f ra rs f1 show ?thesis by blast
qed




subsection \<open>The fallback chain of getAlbumDetails\<close>

lemma httpGetAlbum_cases:
  "(\<exists>status. album_reply sp (length tr) path = AlbumFailed status
       \<and> httpGetAlbum sp path h tr = (Inl (h status), tr @ [AlbumLookup path]))
   \<or> (\<exists>body. httpGetAlbum sp path h tr = (Inr body, tr @ [AlbumLookup path]))"
  by (cases "album_reply sp (length tr) path") (simp_all add: httpGetAlbum_def)

lemma formatDetails_error: "formatDetails album = Inl e \<Longrightarrow> \<not> isNotFoundException e"
  by (cases "sp_artists album") (auto simp add: formatDetails_def firstArtist_def split: list.splits)

lemma directLookup_NotFound:
  assumes "directLookup sp externalId tr = (Inl err, tr1)" "isNotFoundException err"
  shows "err = NotFoundException (''Album with ID '' @ trim externalId @ '' not found in Spotify'')
         \<and> tr1 = tr @ [AccessToken, AlbumLookup (trim externalId)]"
proof -
  let ?h = "\<lambda>status. if status = Some 404
                    then NotFoundException (''Album with ID '' @ trim externalId @ '' not found in Spotify'')
                    else InternalServerErrorException ''Failed to get album details from Spotify API''"
  from getAccessToken_cases [of sp tr] show ?thesis
  proof (elim disjE exE)
    fix m assume "getAccessToken sp tr = (Inl (Error m), tr @ [AccessToken])"
    with assms show ?thesis by (auto simp add: directLookup_def await_def Let_def)
  next
    fix token assume tok: "getAccessToken sp tr = (Inr token, tr @ [AccessToken])"
    from httpGetAlbum_cases [of sp "tr @ [AccessToken]" "trim externalId" ?h] show ?thesis
    proof (elim disjE exE conjE)
      fix status
      assume "httpGetAlbum sp (trim externalId) ?h (tr @ [AccessToken])
              = (Inl (?h status), (tr @ [AccessToken]) @ [AlbumLookup (trim externalId)])"
      with tok assms show ?thesis
        by (auto simp add: directLookup_def await_def Let_def split: if_splits)
    next
      fix body
      assume b: "httpGetAlbum sp (trim externalId) ?h (tr @ [AccessToken])
              = (Inr body, (tr @ [AccessToken]) @ [AlbumLookup (trim externalId)])"
      show ?thesis
      proof (cases body)
        case None
        with b tok assms show ?thesis by (auto simp add: directLookup_def await_def Let_def throw_def)
      next
        case (Some album)
        show ?thesis
        proof (cases "formatDetails album")
          case (Inl e)
          with Some b tok assms formatDetails_error [OF Inl] show ?thesis
            by (auto simp add: directLookup_def await_def Let_def throw_def split: if_splits)
        next
          case (Inr d)
          with Some b tok assms show ?thesis
            by (auto simp add: directLookup_def await_def Let_def throw_def ret_def split: if_splits)
        qed
      qed
    qed
  qed
qed

lemma alternativeLookup_trace:
  "snd (alternativeLookup sp externalId err tr) = tr @ [AccessToken]
   \<or> snd (alternativeLookup sp externalId err tr)
       = tr @ [AccessToken, AlbumLookup (encodeURIComponent externalId)]"
proof -
  from getAccessToken_cases [of sp tr] show ?thesis
  proof (elim disjE exE)
    fix m assume "getAccessToken sp tr = (Inl (Error m), tr @ [AccessToken])"
    then show ?thesis by (simp add: alternativeLookup_def await_def)
  next
    fix token assume tok: "getAccessToken sp tr = (Inr token, tr @ [AccessToken])"
    from httpGetAlbum_cases [of sp "tr @ [AccessToken]" "encodeURIComponent externalId" "\<lambda>status. err"]
    show ?thesis
    proof (elim disjE exE conjE)
      fix status
      assume "httpGetAlbum sp (encodeURIComponent externalId) (\<lambda>status. err) (tr @ [AccessToken])
              = (Inl err, (tr @ [AccessToken]) @ [AlbumLookup (encodeURIComponent externalId)])"
      with tok show ?thesis by (simp add: alternativeLookup_def await_def)
    next
      fix body
      assume "httpGetAlbum sp (encodeURIComponent externalId) (\<lambda>status. err) (tr @ [AccessToken])
              = (Inr body, (tr @ [AccessToken]) @ [AlbumLookup (encodeURIComponent externalId)])"
      with tok show ?thesis
        by (simp add: alternativeLookup_def await_def throw_def ret_def split: option.split sum.split)
    qed
  qed
qed

lemma getAlbumDetails_after_NotFound:
  assumes "directLookup sp externalId tr = (Inl err, tr1)" "isNotFoundException err"
  shows "getAlbumDetails sp externalId tr =
     (case searchAlbums sp externalId 5 0 tr1 of
        (Inl e, tr2) \<Rightarrow> (Inl err, tr2)
      | (Inr searchResults, tr2) \<Rightarrow>
          (case find (\<lambda>album. s_externalId album = Some externalId) searchResults of
             Some exactMatch \<Rightarrow> (Inr (SearchResult exactMatch), tr2)
           | None \<Rightarrow>
               if searchResults = [] then (Inl err, tr2)
               else (case alternativeLookup sp externalId err tr2 of
                       (Inl e, tr3) \<Rightarrow> (Inl err, tr3)
                     | (Inr r, tr3) \<Rightarrow> (Inr r, tr3))))"
proof (cases "searchAlbums sp externalId 5 0 tr1")
  case (Pair sres tr2)
  show ?thesis
  proof (cases sres)
    case (Inl e)
    with Pair assms show ?thesis
      by (simp add: getAlbumDetails_def try_catch_def await_def throw_def)
  next
    case (Inr searchResults)
    show ?thesis
    proof (cases "find (\<lambda>album. s_externalId album = Some externalId) searchResults")
      case (Some m)
      then have "searchResults \<noteq> []" by auto
      with Some Inr Pair assms show ?thesis
        by (simp add: getAlbumDetails_def try_catch_def await_def throw_def ret_def)
    next
      case None
      show ?thesis
      proof (cases "searchResults = []")
        case True
        with None Inr Pair assms show ?thesis
          by (simp add: getAlbumDetails_def try_catch_def await_def throw_def ret_def)
      next
        case False
        obtain ares tr3 where alt: "alternativeLookup sp externalId err tr2 = (ares, tr3)"
          by (cases "alternativeLookup sp externalId err tr2")
        with False None Inr Pair assms show ?thesis
          by (cases ares) (simp_all add: getAlbumDetails_def try_catch_def await_def throw_def ret_def)
      qed
    qed
  qed
qed

lemmas client_eval =
  Let_def directLookup_def alternativeLookup_def searchAlbums_def try_catch_rethrow await_def
  getAccessToken_def httpGetAlbum_def httpSearchAlbums_def isLikelySpotifyId_def
  formattedResults_def filteredItems_def albumFilter_def toLowerCase_def toLowerCaseChar_def
  slice0_def formatSummary_def formatDetails_def firstArtist_def ret_def throw_def
  trim_def isWhiteSpace_def encodeURIComponent_def encodeURIComponentChar_def isAlphaNum_def
  ex_catalog_def ex_flaky_def ex_album_def ex_details_def ex_summary_def ex_notFound_def

lemma ex_direct_flaky:
  "directLookup (ex_flaky items) ''abc'' [] = (Inl ex_notFound, [AccessToken, AlbumLookup ''abc''])"
  by (simp add: client_eval)

lemma ex_direct_catalog:
  "directLookup (ex_catalog items) ''abc'' [] = (Inl ex_notFound, [AccessToken, AlbumLookup ''abc''])"
  by (simp add: client_eval)

lemma ex_search_empty:
  "searchAlbums (ex_flaky []) ''abc'' 5 0 [AccessToken, AlbumLookup ''abc'']
   = (Inr [], [AccessToken, AlbumLookup ''abc'', AccessToken, AlbumSearch ''abc'' 50 0])"
  by (simp add: client_eval)

lemma ex_search_flaky:
  "searchAlbums (ex_flaky [ex_album i (Some ''album'') (Some 9)]) ''abc'' 5 0 [AccessToken, AlbumLookup ''abc'']
   = (Inr [ex_summary i], [AccessToken, AlbumLookup ''abc'', AccessToken, AlbumSearch ''abc'' 50 0])"
  by (simp add: client_eval)

lemma ex_search_catalog:
  "searchAlbums (ex_catalog [ex_album i (Some ''album'') (Some 9)]) ''abc'' 5 0 [AccessToken, AlbumLookup ''abc'']
   = (Inr [ex_summary i], [AccessToken, AlbumLookup ''abc'', AccessToken, AlbumSearch ''abc'' 50 0])"
  by (simp add: client_eval)

lemma ex_alt_flaky:
  "alternativeLookup (ex_flaky items) ''abc'' ex_notFound
     [AccessToken, AlbumLookup ''abc'', AccessToken, AlbumSearch ''abc'' 50 0]
   = (Inr (Details (ex_details ''abc'')),
      [AccessToken, AlbumLookup ''abc'', AccessToken, AlbumSearch ''abc'' 50 0, AccessToken, AlbumLookup ''abc''])"
  by (simp add: client_eval)

lemma ex_alt_catalog:
  "alternativeLookup (ex_catalog items) ''abc'' ex_notFound
     [AccessToken, AlbumLookup ''abc'', AccessToken, AlbumSearch ''abc'' 50 0]
   = (Inl ex_notFound,
      [AccessToken, AlbumLookup ''abc'', AccessToken, AlbumSearch ''abc'' 50 0, AccessToken, AlbumLookup ''abc''])"
  by (simp add: client_eval)

lemma ex_notFound_is: "isNotFoundException ex_notFound"
  by (simp add: ex_notFound_def)

text \<open>
  C8, as amended. Suppose the direct lookup of \<open>getAlbumDetails\<close> is rejected with the
  not-found error \<open>err\<close>. Then the trace shows the direct lookup first, next the search
  for the id, and the lookup with the URL-encoded id only after it. If the search
  returns a record whose \<open>externalId\<close> equals the id, that record is returned. If it
  returns records none of which matches, the URL-encoded lookup is tried: its record is
  returned when it succeeds, and \<open>err\<close> itself is raised when it fails. If the search
  fails or returns no record at all, \<open>err\<close> is raised and the URL-encoded lookup is
  not tried (the trace ends with the search).
\<close>

theorem getAlbumDetails_fallback:
  assumes direct: "directLookup sp externalId tr = (Inl err, tr1)"
    and nf: "isNotFoundException err"
    and search: "searchAlbums sp externalId 5 0 tr1 = (sres, tr2)"
    and alt: "alternativeLookup sp externalId err tr2 = (ares, tr3)"
  shows "tr1 = tr @ [AccessToken, AlbumLookup (trim externalId)]
    \<and> (tr2 = tr1 @ [AccessToken]
        \<or> tr2 = tr1 @ [AccessToken,
              AlbumSearch (if isLikelySpotifyId externalId then ''id:'' @ externalId else externalId) 50 0])
    \<and> (tr3 = tr2 @ [AccessToken]
        \<or> tr3 = tr2 @ [AccessToken, AlbumLookup (encodeURIComponent externalId)])
    \<and> (\<forall>results m. sres = Inr results
          \<and> find (\<lambda>album. s_externalId album = Some externalId) results = Some m
        \<longrightarrow> getAlbumDetails sp externalId tr = (Inr (SearchResult m), tr2))
    \<and> (\<forall>results r. sres = Inr results \<and> results \<noteq> []
          \<and> find (\<lambda>album. s_externalId album = Some externalId) results = None
          \<and> ares = Inr r
        \<longrightarrow> getAlbumDetails sp externalId tr = (Inr r, tr3))
    \<and> (\<forall>results e. sres = Inr results \<and> results \<noteq> []
          \<and> find (\<lambda>album. s_externalId album = Some externalId) results = None
          \<and> ares = Inl e
        \<longrightarrow> getAlbumDetails sp externalId tr = (Inl err, tr3))
    \<and> (sres = Inr [] \<or> (\<exists>e. sres = Inl e)
        \<longrightarrow> getAlbumDetails sp externalId tr = (Inl err, tr2))"
proof (intro conjI allI impI)
  show "tr1 = tr @ [AccessToken, AlbumLookup (trim externalId)]"
    using directLookup_NotFound [OF direct nf] by simp
next
  show "tr2 = tr1 @ [AccessToken]
        \<or> tr2 = tr1 @ [AccessToken,
              AlbumSearch (if isLikelySpotifyId externalId then ''id:'' @ externalId else externalId) 50 0]"
    using searchAlbums_cases [of sp externalId 5 0 tr1] search by auto
next
  show "tr3 = tr2 @ [AccessToken]
        \<or> tr3 = tr2 @ [AccessToken, AlbumLookup (encodeURIComponent externalId)]"
    using alternativeLookup_trace [of sp externalId err tr2] alt by simp
next
  fix results m
  assume "sres = Inr results
          \<and> find (\<lambda>album. s_externalId album = Some externalId) results = Some m"
  then show "getAlbumDetails sp externalId tr = (Inr (SearchResult m), tr2)"
    using search by (simp add: getAlbumDetails_after_NotFound [OF direct nf])
next
  fix results r
  assume "sres = Inr results \<and> results \<noteq> []
          \<and> find (\<lambda>album. s_externalId album = Some externalId) results = None
          \<and> ares = Inr r"
  then show "getAlbumDetails sp externalId tr = (Inr r, tr3)"
    using search alt by (simp add: getAlbumDetails_after_NotFound [OF direct nf])
next
  fix results e
  assume "sres = Inr results \<and> results \<noteq> []
          \<and> find (\<lambda>album. s_externalId album = Some externalId) results = None
          \<and> ares = Inl e"
  then show "getAlbumDetails sp externalId tr = (Inl err, tr3)"
    using search alt by (simp add: getAlbumDetails_after_NotFound [OF direct nf])
next
  assume "sres = Inr [] \<or> (\<exists>e. sres = Inl e)"
  then show "getAlbumDetails sp externalId tr = (Inl err, tr2)"
    using search by (auto simp add: getAlbumDetails_after_NotFound [OF direct nf])
qed

theorem getAlbumDetails_fallback_witness:
  "getAlbumDetails (ex_flaky [ex_album ''abc'' (Some ''album'') (Some 9)]) ''abc'' []
     = (Inr (SearchResult (ex_summary ''abc'')),
        [AccessToken, AlbumLookup ''abc'', AccessToken, AlbumSearch ''abc'' 50 0])
   \<and> getAlbumDetails (ex_flaky [ex_album ''xyz'' (Some ''album'') (Some 9)]) ''abc'' []
     = (Inr (Details (ex_details ''abc'')),
        [AccessToken, AlbumLookup ''abc'', AccessToken, AlbumSearch ''abc'' 50 0,
         AccessToken, AlbumLookup ''abc''])
   \<and> getAlbumDetails (ex_catalog [ex_album ''xyz'' (Some ''album'') (Some 9)]) ''abc'' []
     = (Inl ex_notFound,
        [AccessToken, AlbumLookup ''abc'', AccessToken, AlbumSearch ''abc'' 50 0,
         AccessToken, AlbumLookup ''abc''])
   \<and> getAlbumDetails (ex_flaky []) ''abc'' []
     = (Inl ex_notFound, [AccessToken, AlbumLookup ''abc'', AccessToken, AlbumSearch ''abc'' 50 0])"
proof -
  let ?P = "\<lambda>album. s_externalId album = Some ''abc''"
  have f1: "find ?P [ex_summary ''abc''] = Some (ex_summary ''abc'')"
    and f2: "find ?P [ex_summary ''xyz''] = None"
    by (simp_all add: ex_summary_def)
  have n: "[ex_summary ''xyz''] \<noteq> []" by simp
  from getAlbumDetails_fallback [OF ex_direct_flaky ex_notFound_is ex_search_flaky [of "''abc''"] ex_alt_flaky] f1
  have 1: "getAlbumDetails (ex_flaky [ex_album ''abc'' (Some ''album'') (Some 9)]) ''abc'' []
     = (Inr (SearchResult (ex_summary ''abc'')),
        [AccessToken, AlbumLookup ''abc'', AccessToken, AlbumSearch ''abc'' 50 0])"
    by blast
  from getAlbumDetails_fallback [OF ex_direct_flaky ex_notFound_is ex_search_flaky [of "''xyz''"] ex_alt_flaky] f2 n
  have 2: "getAlbumDetails (ex_flaky [ex_album ''xyz'' (Some ''album'') (Some 9)]) ''abc'' []
     = (Inr (Details (ex_details ''abc'')),
        [AccessToken, AlbumLookup ''abc'', AccessToken, AlbumSearch ''abc'' 50 0,
         AccessToken, AlbumLookup ''abc''])"
    by blast
  from getAlbumDetails_fallback [OF ex_direct_catalog ex_notFound_is ex_search_catalog [of "''xyz''"] ex_alt_catalog] f2 n
  have 3: "getAlbumDetails (ex_catalog [ex_album ''xyz'' (Some ''album'') (Some 9)]) ''abc'' []
     = (Inl ex_notFound,
        [AccessToken, AlbumLookup ''abc'', AccessToken, AlbumSearch ''abc'' 50 0,
         AccessToken, AlbumLookup ''abc''])"
    by blast
  from getAlbumDetails_fallback [OF ex_direct_flaky ex_notFound_is ex_search_empty ex_alt_flaky]
  have 4: "getAlbumDetails (ex_flaky []) ''abc'' []
     = (Inl ex_notFound, [AccessToken, AlbumLookup ''abc'', AccessToken, AlbumSearch ''abc'' 50 0])"
    by blast
  from 1 2 3 4 show ?thesis by (intro conjI)
qed

text \<open>
  As first stated, C8 fails where the search returns no record: the lookup with
  the URL-encoded id would succeed at that point, yet \<open>getAlbumDetails\<close> raises the
  not-found error without trying it.
\<close>

theorem getAlbumDetails_retry_skipped_counterexample:
  "getAlbumDetails (ex_flaky []) ''abc'' []
     = (Inl ex_notFound, [AccessToken, AlbumLookup ''abc'', AccessToken, AlbumSearch ''abc'' 50 0])
   \<and> alternativeLookup (ex_flaky []) ''abc'' ex_notFound
        [AccessToken, AlbumLookup ''abc'', AccessToken, AlbumSearch ''abc'' 50 0]
     = (Inr (Details (ex_details ''abc'')),
        [AccessToken, AlbumLookup ''abc'', AccessToken, AlbumSearch ''abc'' 50 0,
         AccessToken, AlbumLookup ''abc''])"
proof -
  have "getAlbumDetails (ex_flaky []) ''abc'' []
     = (Inl ex_notFound, [AccessToken, AlbumLookup ''abc'', AccessToken, AlbumSearch ''abc'' 50 0])"
    by (simp add: getAlbumDetails_after_NotFound [OF ex_direct_flaky ex_notFound_is] ex_search_empty)
  with ex_alt_flaky [of "[]"] show ?thesis by (intro conjI)
qed

subsection \<open>The store client \<open>pg\<close>\<close>

lemma pg_simps:
  "artist_findUnique_externalId_albums pg = pg_artist_findUnique_externalId_albums"
  "artist_findUnique_externalId pg = pg_artist_findUnique_externalId"
  "artist_findUnique_id pg = pg_artist_findUnique_id"
  "artist_create pg = pg_artist_create"
  "album_findUnique_externalId pg = pg_album_findUnique_externalId"
  "album_findUnique_id pg = pg_album_findUnique_id"
  "album_findMany_artistId pg = pg_album_findMany_artistId"
  "album_create pg = pg_album_create"
  "user_findUnique_id pg = pg_user_findUnique_id"
  "review_findUnique_id pg = pg_review_findUnique_id"
  "review_findUnique_userId_albumId pg = pg_review_findUnique_userId_albumId"
  "review_create pg = pg_review_create"
  "review_update pg = pg_review_update"
  "review_delete pg = pg_review_delete"
  "review_findMany pg = pg_review_findMany"
  "review_count pg = pg_review_count"
  "review_findMany_rating pg = pg_review_findMany_rating"
  by (simp_all add: pg_def)

subsection \<open>Rounding to a double\<close>

lemma exponent_bounds_ge1:
  fixes a :: rat
  assumes "1 \<le> a"
  shows "2 powi (bitlen \<lfloor>a\<rfloor> - 1) \<le> a \<and> a < 2 powi (bitlen \<lfloor>a\<rfloor> - 1 + 1)"
proof -
  let ?n = "\<lfloor>a\<rfloor>"
  from assms have n: "0 < ?n" by simp
  from bitlen_bounds [OF n] have b: "2 ^ nat (bitlen ?n - 1) \<le> ?n" "?n < 2 ^ nat (bitlen ?n)" by simp_all
  from n have bl: "0 < bitlen ?n" using bitlen_eq_zero_iff [of ?n] bitlen_nonneg [of ?n] by linarith
  have "(2::rat) powi (bitlen ?n - 1) = 2 ^ nat (bitlen ?n - 1)"
    using bl by (simp add: power_int_nonneg_exp)
  also have "\<dots> = of_int (2 ^ nat (bitlen ?n - 1))" by simp
  also have "\<dots> \<le> of_int ?n" using b(1) by (simp only: of_int_le_iff)
  also have "\<dots> \<le> a" by simp
  finally have lo: "2 powi (bitlen ?n - 1) \<le> a" .
  have "a < of_int (?n + 1)" by linarith
  also have "\<dots> \<le> of_int (2 ^ nat (bitlen ?n))"
  proof -
    from b(2) have "?n + 1 \<le> 2 ^ nat (bitlen ?n)" by simp
    then show ?thesis by (simp only: of_int_le_iff)
  qed
  also have "\<dots> = 2 ^ nat (bitlen ?n)" by simp
  also have "\<dots> = (2::rat) powi (bitlen ?n - 1 + 1)"
    using bl by (simp add: power_int_nonneg_exp)
  finally have hi: "a < 2 powi (bitlen ?n - 1 + 1)" .
  from lo hi show ?thesis ..
qed

lemma exponent_bounds:
  assumes "0 < a"
  shows "2 powi (exponent a) \<le> a \<and> a < 2 powi (exponent a + 1)"
proof (cases "1 \<le> a")
  case True
  with exponent_bounds_ge1 [OF True] show ?thesis by (simp add: exponent_def)
next
  case False
  let ?b = "1 / a"
  let ?j = "bitlen \<lfloor>?b\<rfloor> - 1"
  from False assms have b1: "1 \<le> ?b" by simp
  from exponent_bounds_ge1 [OF b1] have b: "2 powi ?j \<le> ?b" "?b < 2 powi (?j + 1)" by simp_all
  have p: "(2::rat) powi k > 0" for k by (simp add: zero_less_power_int)
  show ?thesis
  proof (cases "?b = 2 powi ?j")
    case True
    with False have e: "exponent a = - ?j" by (simp add: exponent_def)
    from assms have "a = 1 / ?b" by simp
    also have "\<dots> = 1 / 2 powi ?j" using True by (simp only:)
    also have "\<dots> = 2 powi (- ?j)" by (rule power_int_minus_divide [symmetric])
    finally have a: "a = 2 powi (- ?j)" .
    have "(2::rat) powi (- ?j) < 2 powi (- ?j + 1)" by (rule power_int_strict_increasing) simp_all
    with a e show ?thesis by simp
  next
    case ne: False
    with False have e: "exponent a = - ?j - 1" by (simp add: exponent_def Let_def)
    from ne b(1) have lt: "2 powi ?j < ?b" by simp
    have "2 powi (- ?j - 1) = 1 / (2::rat) powi (?j + 1)"
      using power_int_minus_divide [of "2::rat" "?j + 1"] by (simp add: algebra_simps)
    also have "\<dots> < a" using b(2) assms p [of "?j + 1"] by (simp add: field_simps)
    finally have lo: "2 powi (- ?j - 1) < a" .
    have "a < 1 / (2::rat) powi ?j" using lt assms p [of ?j] by (simp add: field_simps)
    also have "\<dots> = 2 powi (- ?j)" by (rule power_int_minus_divide [symmetric])
    finally have hi: "a < 2 powi (- ?j - 1 + 1)" by simp
    from lo hi e show ?thesis by simp
  qed
qed

lemma exponent_unique:
  assumes lo: "2 powi e \<le> a" and hi: "a < 2 powi (e + 1)"
  shows "exponent a = e"
proof -
  have "(0::rat) < 2 powi e" by (simp add: zero_less_power_int)
  with lo have pos: "0 < a" by (rule less_le_trans [rotated])
  from exponent_bounds [OF pos] have b: "2 powi (exponent a) \<le> a" "a < 2 powi (exponent a + 1)" by simp_all
  have 1: "exponent a < e + 1"
  proof (rule ccontr)
    assume "\<not> exponent a < e + 1"
    then have "e + 1 \<le> exponent a" by simp
    then have "(2::rat) powi (e + 1) \<le> 2 powi (exponent a)" by (rule power_int_increasing) simp
    with b(1) hi show False by simp
  qed
  have 2: "e < exponent a + 1"
  proof (rule ccontr)
    assume "\<not> e < exponent a + 1"
    then have "exponent a + 1 \<le> e" by simp
    then have "(2::rat) powi (exponent a + 1) \<le> 2 powi e" by (rule power_int_increasing) simp
    with b(2) lo show False by simp
  qed
  from 1 2 show ?thesis by simp
qed

lemma roundTiesToEven_near: "\<bar>of_int (roundTiesToEven x) - x\<bar> \<le> 1 / 2"
proof -
  have "of_int \<lfloor>x\<rfloor> \<le> x" "x < of_int \<lfloor>x\<rfloor> + 1" by linarith+
  then show ?thesis by (auto simp add: roundTiesToEven_def Let_def)
qed

lemma roundTiesToEven_of_int: "roundTiesToEven (of_int k) = k"
  by (simp add: roundTiesToEven_def)

lemma roundToDouble_representable:
  assumes x: "x \<noteq> 0" and m: "\<bar>x\<bar> / 2 powi (max (exponent \<bar>x\<bar>) (- 1022) - 52) = of_int m"
    and b: "\<bar>x\<bar> < 2 powi 1024"
  shows "roundToDouble x = Num x"
proof -
  let ?ulp = "(2::rat) powi (max (exponent \<bar>x\<bar>) (- 1022) - 52)"
  have u: "?ulp \<noteq> 0" by (simp add: power_int_eq_0_iff)
  have "of_int (roundTiesToEven (\<bar>x\<bar> / ?ulp)) * ?ulp = of_int m * ?ulp"
    by (simp only: m roundTiesToEven_of_int)
  also have "\<dots> = \<bar>x\<bar> / ?ulp * ?ulp" by (simp only: m)
  also have "\<dots> = \<bar>x\<bar>" using u by simp
  finally have r: "of_int (roundTiesToEven (\<bar>x\<bar> / ?ulp)) * ?ulp = \<bar>x\<bar>" .
  from b have nb: "\<not> 2 powi 1024 \<le> \<bar>x\<bar>" by simp
  show ?thesis
    unfolding roundToDouble_def Let_def r using x nb by (simp add: abs_if)
qed

lemma roundToDouble_of_int:
  assumes "\<bar>k\<bar> \<le> 2 ^ 53"
  shows "roundToDouble (of_int k) = Num (of_int k)"
proof (cases "k = 0")
  case True
  then show ?thesis by (simp add: roundToDouble_def)
next
  case False
  define n where "n = \<bar>k\<bar>"
  define a :: rat where "a = of_int n"
  define e where "e = bitlen n - 1"
  from False have n: "0 < n" by (simp add: n_def)
  have ak: "\<bar>of_int k\<bar> = a" by (simp add: a_def n_def)
  from n have a1: "1 \<le> a" by (simp add: a_def)
  have fl: "\<lfloor>a\<rfloor> = n" by (simp add: a_def)
  from a1 fl have ex: "exponent a = e" by (simp add: exponent_def e_def)
  from bitlen_bounds [OF n] have b: "2 ^ nat e \<le> n" by (simp add: e_def)
  from n have bl: "0 < bitlen n" using bitlen_eq_zero_iff [of n] bitlen_nonneg [of n] by linarith
  then have e0: "0 \<le> e" by (simp add: e_def)
  from b have "2 ^ nat e \<le> \<bar>k\<bar>" by (simp only: n_def)
  from order_trans [OF this assms] have "nat e \<le> 53" by (rule power_le_imp_le_exp [rotated]) simp
  with e0 have e53: "e \<le> 53" by simp
  from e0 have mx: "max (exponent a) (- 1022) = e" unfolding ex by simp
  have "\<exists>m. a / 2 powi (e - 52) = of_int m"
  proof (cases "e \<le> 52")
    case True
    have "a / 2 powi (e - 52) = a * 2 powi (- (e - 52))"
      by (simp only: power_int_minus divide_inverse)
    also have "\<dots> = a * 2 powi (52 - e)" by simp
    also have "\<dots> = a * 2 ^ nat (52 - e)" using True by (simp add: power_int_nonneg_exp)
    also have "\<dots> = of_int (n * 2 ^ nat (52 - e))" by (simp add: a_def)
    finally show ?thesis by blast
  next
    case gt: False
    with e53 have e: "e = 53" by simp
    with b assms have "n = 2 ^ 53" by (simp add: n_def)
    then have "a = 2 ^ 53" by (simp add: a_def)
    then have "a / 2 powi (e - 52) = of_int (2 ^ 52)" unfolding e by simp
    then show ?thesis by blast
  qed
  then obtain m where m: "a / 2 powi (max (exponent a) (- 1022) - 52) = of_int m"
    unfolding mx by blast
  from assms have "n \<le> 2 ^ 53" by (simp only: n_def)
  then have "of_int n \<le> (of_int (2 ^ 53) :: rat)" by (simp only: of_int_le_iff)
  then have "a \<le> 2 ^ 53" by (simp add: a_def)
  also have "\<dots> < (2::rat) ^ 1024" by (rule power_strict_increasing) simp_all
  also have "\<dots> = 2 powi 1024" by simp
  finally have lt: "a < 2 powi 1024" .
  from False have "(of_int k :: rat) \<noteq> 0" by simp
  from roundToDouble_representable [OF this, of m] m lt show ?thesis by (simp only: ak)
qed

lemma roundToDouble_near:
  assumes lo: "2 powi (- 1022) \<le> \<bar>x\<bar>" and hi: "\<bar>x\<bar> \<le> 2 ^ 53"
  shows "\<exists>y. roundToDouble x = Num y \<and> \<bar>y - x\<bar> \<le> \<bar>x\<bar> / 2 ^ 53"
proof -
  let ?a = "\<bar>x\<bar>"
  let ?e = "exponent ?a"
  let ?ulp = "(2::rat) powi (?e - 52)"
  let ?r = "of_int (roundTiesToEven (?a / ?ulp)) * ?ulp"
  have "(0::rat) < 2 powi (- 1022)" by (simp add: zero_less_power_int)
  with lo have pos: "0 < ?a" by (rule less_le_trans [rotated])
  then have x0: "x \<noteq> 0" by simp
  from exponent_bounds [OF pos] have b: "2 powi ?e \<le> ?a" "?a < 2 powi (?e + 1)" by simp_all
  have "- 1022 < ?e + 1"
  proof (rule ccontr)
    assume "\<not> - 1022 < ?e + 1"
    then have "?e + 1 \<le> - 1022" by simp
    then have "(2::rat) powi (?e + 1) \<le> 2 powi (- 1022)" by (rule power_int_increasing) simp
    with b(2) lo show False by simp
  qed
  then have mx: "max ?e (- 1022) = ?e" by simp
  have u: "0 < ?ulp" by (simp add: zero_less_power_int)
  have "\<bar>?r - ?a\<bar> = \<bar>of_int (roundTiesToEven (?a / ?ulp)) - ?a / ?ulp\<bar> * ?ulp"
  proof -
    have "?r - ?a = (of_int (roundTiesToEven (?a / ?ulp)) - ?a / ?ulp) * ?ulp"
      using u by (simp add: field_simps)
    then show ?thesis using u by (simp add: abs_mult)
  qed
  also have "\<dots> \<le> 1 / 2 * ?ulp"
    using roundTiesToEven_near [of "?a / ?ulp"] u by (intro mult_right_mono) simp_all
  also have "\<dots> = 2 powi ?e / 2 ^ 53"
  proof -
    have "(2::rat) powi (?e - 52) = 2 powi ?e / 2 powi 52" by (rule power_int_diff) simp
    then show ?thesis by simp
  qed
  also have "\<dots> \<le> ?a / 2 ^ 53" using b(1) by (simp add: divide_right_mono)
  finally have near: "\<bar>?r - ?a\<bar> \<le> ?a / 2 ^ 53" .
  have "?r \<le> ?a + ?a / 2 ^ 53" using near by linarith
  also have "\<dots> \<le> 2 ^ 53 + 2 ^ 53 / 2 ^ 53" using hi by (intro add_mono divide_right_mono) simp_all
  also have "\<dots> < 2 ^ 1024" by simp
  finally have nov: "\<not> 2 powi 1024 \<le> ?r" by simp
  have eq: "roundToDouble x = Num (if 0 < x then ?r else - ?r)"
    unfolding roundToDouble_def Let_def mx using x0 nov by simp
  have "\<bar>(if 0 < x then r else - r) - x\<bar> = \<bar>r - \<bar>x\<bar>\<bar>" for r :: rat
    by (auto simp add: abs_if)
  then have "\<bar>(if 0 < x then ?r else - ?r) - x\<bar> = \<bar>?r - ?a\<bar>" .
  with near eq show ?thesis by simp
qed

lemma fromInt_exact: "\<bar>i\<bar> \<le> 2 ^ 53 \<Longrightarrow> fromInt i = Num (of_int i)"
  by (simp only: fromInt_def roundToDouble_of_int)

lemma foldl_jsAdd_exact:
  assumes "\<bar>acc\<bar> + sum_list (map abs rs) \<le> 2 ^ 53"
  shows "foldl (\<lambda>sum rating. jsAdd sum (fromInt rating)) (Num (of_int acc)) rs
         = Num (of_int (acc + sum_list rs))"
  using assms
proof (induction rs arbitrary: acc)
  case Nil
  then show ?case by simp
next
  case (Cons r rs)
  have nn: "0 \<le> sum_list (map abs rs)" by (rule sum_list_nonneg) auto
  from Cons.prems nn have r: "\<bar>r\<bar> \<le> 2 ^ 53" by simp
  from Cons.prems nn have ar: "\<bar>acc + r\<bar> \<le> 2 ^ 53" by simp
  from Cons.prems have nxt: "\<bar>acc + r\<bar> + sum_list (map abs rs) \<le> 2 ^ 53" by simp
  have "jsAdd (Num (of_int acc)) (fromInt r) = roundToDouble (of_int (acc + r))"
    by (simp add: fromInt_exact [OF r])
  also have "\<dots> = Num (of_int (acc + r))" by (rule roundToDouble_of_int [OF ar])
  finally have step: "jsAdd (Num (of_int acc)) (fromInt r) = Num (of_int (acc + r))" .
  from Cons.IH [OF nxt] step show ?case by (simp add: add.assoc)
qed

lemma mean_quotient:
  assumes ne: "rs \<noteq> []" and sum: "sum_list (map abs rs) \<le> 2 ^ 53" and len: "length rs < 2 ^ 32"
  shows "jsDivide (foldl (\<lambda>sum rating. jsAdd sum (fromInt rating)) (Num 0) rs) (fromInt (int (length rs)))
         = roundToDouble (arithmeticMean rs)"
proof -
  from sum have "\<bar>0\<bar> + sum_list (map abs rs) \<le> 2 ^ 53" by simp
  from foldl_jsAdd_exact [OF this]
  have total: "foldl (\<lambda>sum rating. jsAdd sum (fromInt rating)) (Num 0) rs = Num (of_int (sum_list rs))"
    by simp
  from len have "\<bar>int (length rs)\<bar> \<le> 2 ^ 53" by simp
  from fromInt_exact [OF this] have n: "fromInt (int (length rs)) = Num (of_nat (length rs))" by simp
  from ne have "(of_nat (length rs) :: rat) \<noteq> 0" by simp
  then show ?thesis unfolding total n by (simp add: arithmeticMean_def)
qed

lemma abs_arithmeticMean:
  assumes ne: "rs \<noteq> []"
  shows "\<bar>arithmeticMean rs\<bar> \<le> of_int (sum_list (map abs rs))"
proof -
  let ?n = "of_nat (length rs) :: rat"
  from ne have "1 \<le> length rs" by (cases rs) simp_all
  then have "(of_nat 1 :: rat) \<le> of_nat (length rs)" by (simp only: of_nat_le_iff)
  then have n1: "1 \<le> ?n" by simp
  have "\<bar>arithmeticMean rs\<bar> = \<bar>of_int (sum_list rs)\<bar> / ?n" by (simp add: arithmeticMean_def)
  also have "\<dots> \<le> \<bar>of_int (sum_list rs)\<bar> / 1" using n1 ne by (intro divide_left_mono) simp_all
  also have "\<dots> = of_int \<bar>sum_list rs\<bar>" by simp
  also have "\<dots> \<le> of_int (sum_list (map abs rs))" using sum_list_abs [of rs] by (simp only: of_int_le_iff)
  finally show ?thesis .
qed

lemma mean_near:
  assumes ne: "rs \<noteq> []" and sum: "sum_list (map abs rs) \<le> 2 ^ 53" and len: "length rs < 2 ^ 32"
  shows "\<exists>y. roundToDouble (arithmeticMean rs) = Num y
           \<and> \<bar>y - arithmeticMean rs\<bar> \<le> \<bar>arithmeticMean rs\<bar> / 2 ^ 53"
proof (cases "sum_list rs = 0")
  case True
  then show ?thesis by (simp add: arithmeticMean_def roundToDouble_def)
next
  case False
  let ?n = "of_nat (length rs) :: rat"
  from ne have n0: "0 < ?n" by simp
  from len have "of_nat (length rs) < (of_nat (2 ^ 32) :: rat)" by (simp only: of_nat_less_iff)
  then have n32: "?n < 2 ^ 32" by simp
  from False have "1 \<le> \<bar>sum_list rs\<bar>" by simp
  then have "(of_int 1 :: rat) \<le> of_int \<bar>sum_list rs\<bar>" by (simp only: of_int_le_iff)
  then have s1: "1 \<le> \<bar>of_int (sum_list rs) :: rat\<bar>" by simp
  have "(2::rat) powi (- 1022) \<le> 2 powi (- 32)" by (rule power_int_increasing) simp_all
  also have "\<dots> = 1 / 2 ^ 32" by (simp add: power_int_minus_divide)
  also have "\<dots> \<le> 1 / ?n" using n0 n32 by (intro divide_left_mono) simp_all
  also have "\<dots> \<le> \<bar>of_int (sum_list rs)\<bar> / ?n" using s1 n0 by (intro divide_right_mono) simp_all
  also have "\<dots> = \<bar>arithmeticMean rs\<bar>" by (simp add: arithmeticMean_def)
  finally have lo: "2 powi (- 1022) \<le> \<bar>arithmeticMean rs\<bar>" .
  from sum have "(of_int (sum_list (map abs rs)) :: rat) \<le> of_int (2 ^ 53)" by (simp only: of_int_le_iff)
  with abs_arithmeticMean [OF ne] have hi: "\<bar>arithmeticMean rs\<bar> \<le> 2 ^ 53" by simp
  from roundToDouble_near [OF lo hi] show ?thesis .
qed

lemma mean_integer:
  assumes ne: "rs \<noteq> []" and sum: "sum_list (map abs rs) \<le> 2 ^ 53"
    and d: "int (length rs) dvd sum_list rs"
  shows "roundToDouble (arithmeticMean rs) = Num (arithmeticMean rs)"
proof -
  from d obtain q where q: "sum_list rs = int (length rs) * q" ..
  from ne have n0: "(of_nat (length rs) :: rat) \<noteq> 0" by simp
  from q n0 have m: "arithmeticMean rs = of_int q" by (simp add: arithmeticMean_def)
  from sum have "(of_int (sum_list (map abs rs)) :: rat) \<le> of_int (2 ^ 53)" by (simp only: of_int_le_iff)
  with abs_arithmeticMean [OF ne] have "\<bar>of_int q :: rat\<bar> \<le> of_int (2 ^ 53)" unfolding m by simp
  then have "(of_int \<bar>q\<bar> :: rat) \<le> of_int (2 ^ 53)" by simp
  then have "\<bar>q\<bar> \<le> 2 ^ 53" by (simp only: of_int_le_iff)
  from roundToDouble_of_int [OF this] show ?thesis unfolding m .
qed

lemma roundToDouble_at:
  assumes pos: "0 < x" and lo: "2 powi e \<le> x" and hi: "x < 2 powi (e + 1)" and e: "- 1022 \<le> e" "e \<le> 52"
  shows "roundToDouble x = Num (of_int (roundTiesToEven (x / 2 powi (e - 52))) * 2 powi (e - 52))"
proof -
  let ?ulp = "(2::rat) powi (e - 52)"
  let ?r = "of_int (roundTiesToEven (x / ?ulp)) * ?ulp"
  from pos have a: "\<bar>x\<bar> = x" by simp
  from exponent_unique [OF lo hi] e have mx: "max (exponent x) (- 1022) = e" by simp
  have u: "0 < ?ulp" by (simp add: zero_less_power_int)
  from e have "?ulp \<le> 2 powi 0" by (intro power_int_increasing) simp_all
  then have u1: "?ulp \<le> 1" by simp
  have "\<bar>?r - x\<bar> = \<bar>of_int (roundTiesToEven (x / ?ulp)) - x / ?ulp\<bar> * ?ulp"
  proof -
    have "?r - x = (of_int (roundTiesToEven (x / ?ulp)) - x / ?ulp) * ?ulp"
      using u by (simp add: field_simps)
    then show ?thesis using u by (simp add: abs_mult)
  qed
  also have "\<dots> \<le> 1 / 2 * ?ulp"
    using roundTiesToEven_near [of "x / ?ulp"] u by (intro mult_right_mono) simp_all
  also have "\<dots> \<le> 1" using u1 by simp
  finally have "?r \<le> x + 1" by linarith
  also from e have "(2::rat) powi (e + 1) \<le> 2 powi 53" by (intro power_int_increasing) simp_all
  with hi have "x + 1 < 2 powi 53 + 1" by simp
  also have "\<dots> < (2::rat) powi 1024" by simp
  finally have nov: "\<not> 2 powi 1024 \<le> ?r" by simp
  from pos have "x \<noteq> 0" by simp
  then show ?thesis
    unfolding roundToDouble_def Let_def a mx using nov pos by simp
qed

lemma floor_numeral_divide_rat: "\<lfloor>numeral a / numeral b :: rat\<rfloor> = numeral a div numeral b"
  using floor_divide_of_int_eq [of "numeral a" "numeral b", where ?'a = rat] by simp

lemma roundToDouble_four_thirds: "roundToDouble (4 / 3) = Num (6004799503160661 / 4503599627370496)"
proof -
  have "roundToDouble (4 / 3) = Num (of_int (roundTiesToEven (4 / 3 / 2 powi (0 - 52))) * 2 powi (0 - 52))"
    by (rule roundToDouble_at) simp_all
  also have "\<dots> = Num (6004799503160661 / 4503599627370496)"
    by (simp add: roundTiesToEven_def Let_def power_int_minus floor_numeral_divide_rat)
  finally show ?thesis .
qed

lemma roundToDouble_nine_halves: "roundToDouble (9 / 2) = Num (9 / 2)"
proof -
  have "roundToDouble (9 / 2) = Num (of_int (roundTiesToEven (9 / 2 / 2 powi (2 - 52))) * 2 powi (2 - 52))"
    by (rule roundToDouble_at) simp_all
  also have "\<dots> = Num (9 / 2)"
    by (simp add: roundTiesToEven_def Let_def power_int_minus floor_numeral_divide_rat)
  finally show ?thesis .
qed

subsection \<open>Rating aggregation\<close>


lemma getAlbumRating_pg:
  "albumsService_getAlbumRating pg albumId w =
     (let rs = albumRatings albumId w in
      if rs = [] then (Inr \<lparr> averageRating = Num 0, reviewCount = 0 \<rparr>, w)
      else (Inr \<lparr> averageRating =
                    jsDivide (foldl (\<lambda>sum rating. jsAdd sum (fromInt rating)) (Num 0) rs) (fromInt (int (length rs))),
                  reviewCount = length rs \<rparr>, w))"
  by (simp add: albumsService_getAlbumRating_def pg_simps pg_review_findMany_rating_def await_def ret_def
        Let_def albumRatings_def)

lemma ex_rated_ratings: "albumRatings 1 ex_rated = [1, 1, 2]" "albumRatings 2 ex_rated = [4, 5, 3]"
  by (simp_all add: albumRatings_def ex_rated_def ex_rating_def)

lemma ex_world_ratings: "albumRatings 1 ex_world = [4, 5]" "albumRatings 2 ex_world = []"
  by (simp_all add: albumRatings_def ex_world_def ex_review1_def ex_review2_def)

text \<open>
  C5. \<open>getAlbumRating\<close> returns \<open>{averageRating: 0, reviewCount: 0}\<close> for an album
  without review rows. Otherwise, for ratings whose absolute values sum to at most
  \<open>2^53\<close> (so that the sum is exact), \<open>reviewCount\<close> is the number of the album's
  review rows and \<open>averageRating\<close> is the arithmetic mean of their ratings rounded to
  the nearest double: a proper number (neither \<open>NaN\<close> nor an infinity, so no division
  by zero happened) within the relative error \<open>2^-53\<close> of the mean, and the mean itself
  when that is an integer. The store is not changed.
\<close>

theorem getAlbumRating_rounded_mean:
  "(albumRatings albumId w = [] \<longrightarrow>
      albumsService_getAlbumRating pg albumId w = (Inr \<lparr> averageRating = Num 0, reviewCount = 0 \<rparr>, w))
   \<and> (albumRatings albumId w \<noteq> [] \<and> sum_list (map abs (albumRatings albumId w)) \<le> 2 ^ 53
        \<and> length (albumRatings albumId w) < 2 ^ 32 \<longrightarrow>
      albumsService_getAlbumRating pg albumId w
        = (Inr \<lparr> averageRating = roundToDouble (arithmeticMean (albumRatings albumId w)),
                 reviewCount = length (albumRatings albumId w) \<rparr>, w)
      \<and> (\<exists>y. roundToDouble (arithmeticMean (albumRatings albumId w)) = Num y
             \<and> \<bar>y - arithmeticMean (albumRatings albumId w)\<bar> \<le> \<bar>arithmeticMean (albumRatings albumId w)\<bar> / 2 ^ 53)
      \<and> (int (length (albumRatings albumId w)) dvd sum_list (albumRatings albumId w) \<longrightarrow>
            roundToDouble (arithmeticMean (albumRatings albumId w)) = Num (arithmeticMean (albumRatings albumId w))))"
proof (intro conjI impI)
  assume "albumRatings albumId w = []"
  then show "albumsService_getAlbumRating pg albumId w = (Inr \<lparr> averageRating = Num 0, reviewCount = 0 \<rparr>, w)"
    by (simp add: getAlbumRating_pg)
next
  assume h: "albumRatings albumId w \<noteq> [] \<and> sum_list (map abs (albumRatings albumId w)) \<le> 2 ^ 53
        \<and> length (albumRatings albumId w) < 2 ^ 32"
  then have ne: "albumRatings albumId w \<noteq> []" and sum: "sum_list (map abs (albumRatings albumId w)) \<le> 2 ^ 53"
    and len: "length (albumRatings albumId w) < 2 ^ 32" by simp_all
  from ne mean_quotient [OF ne sum len]
  show "albumsService_getAlbumRating pg albumId w
        = (Inr \<lparr> averageRating = roundToDouble (arithmeticMean (albumRatings albumId w)),
                 reviewCount = length (albumRatings albumId w) \<rparr>, w)"
    by (simp add: getAlbumRating_pg Let_def)
  from mean_near [OF ne sum len]
  show "\<exists>y. roundToDouble (arithmeticMean (albumRatings albumId w)) = Num y
             \<and> \<bar>y - arithmeticMean (albumRatings albumId w)\<bar> \<le> \<bar>arithmeticMean (albumRatings albumId w)\<bar> / 2 ^ 53" .
  assume "int (length (albumRatings albumId w)) dvd sum_list (albumRatings albumId w)"
  from mean_integer [OF ne sum this]
  show "roundToDouble (arithmeticMean (albumRatings albumId w)) = Num (arithmeticMean (albumRatings albumId w))" .
qed

theorem getAlbumRating_rounded_mean_witness:
  "albumsService_getAlbumRating pg 2 ex_world = (Inr \<lparr> averageRating = Num 0, reviewCount = 0 \<rparr>, ex_world)
   \<and> albumsService_getAlbumRating pg 1 ex_world
       = (Inr \<lparr> averageRating = Num (9 / 2), reviewCount = 2 \<rparr>, ex_world)
   \<and> albumsService_getAlbumRating pg 2 ex_rated
       = (Inr \<lparr> averageRating = Num 4, reviewCount = 3 \<rparr>, ex_rated)
   \<and> roundToDouble (arithmeticMean (albumRatings 2 ex_rated)) = Num (arithmeticMean (albumRatings 2 ex_rated))
   \<and> albumsService_getAlbumRating pg 1 ex_rated
       = (Inr \<lparr> averageRating = roundToDouble (4 / 3), reviewCount = 3 \<rparr>, ex_rated)
   \<and> (\<exists>y. roundToDouble (4 / 3) = Num y \<and> \<bar>y - 4 / 3\<bar> \<le> \<bar>4 / 3\<bar> / 2 ^ 53)"
proof -
  have m: "arithmeticMean [4, 5] = 9 / 2" "arithmeticMean [4, 5, 3] = 4" "arithmeticMean [1, 1, 2] = 4 / 3"
    by (simp_all add: arithmeticMean_def)
  from getAlbumRating_rounded_mean [of 2 ex_world]
  have 1: "albumsService_getAlbumRating pg 2 ex_world = (Inr \<lparr> averageRating = Num 0, reviewCount = 0 \<rparr>, ex_world)"
    by (simp add: ex_world_ratings)
  from getAlbumRating_rounded_mean [of 1 ex_world]
  have 2: "albumsService_getAlbumRating pg 1 ex_world
       = (Inr \<lparr> averageRating = Num (9 / 2), reviewCount = 2 \<rparr>, ex_world)"
    by (simp add: ex_world_ratings m roundToDouble_nine_halves)
  have d: "int (length [4, 5, 3 :: int]) dvd sum_list [4, 5, 3]" by simp
  from getAlbumRating_rounded_mean [of 2 ex_rated] d
  have 3: "albumsService_getAlbumRating pg 2 ex_rated
       = (Inr \<lparr> averageRating = Num 4, reviewCount = 3 \<rparr>, ex_rated)
     \<and> roundToDouble (arithmeticMean (albumRatings 2 ex_rated)) = Num (arithmeticMean (albumRatings 2 ex_rated))"
    by (simp add: ex_rated_ratings m)
  from getAlbumRating_rounded_mean [of 1 ex_rated]
  have 4: "albumsService_getAlbumRating pg 1 ex_rated
       = (Inr \<lparr> averageRating = roundToDouble (4 / 3), reviewCount = 3 \<rparr>, ex_rated)
     \<and> (\<exists>y. roundToDouble (4 / 3) = Num y \<and> \<bar>y - 4 / 3\<bar> \<le> \<bar>4 / 3\<bar> / 2 ^ 53)"
    by (simp add: ex_rated_ratings m)
  from 1 2 3 4 show ?thesis by blast
qed

text \<open>
  As first stated, with \<open>averageRating\<close> the exact arithmetic mean, C5 fails for the
  ratings 1, 1 and 2: their mean is \<open>4/3\<close>, which no double denotes, and
  \<open>getAlbumRating\<close> returns \<open>1.3333333333333333\<close>, the double
  \<open>6004799503160661 / 2^52\<close>.
\<close>

theorem getAlbumRating_inexact_counterexample:
  "albumRatings 1 ex_rated = [1, 1, 2]
   \<and> arithmeticMean (albumRatings 1 ex_rated) = 4 / 3
   \<and> albumsService_getAlbumRating pg 1 ex_rated
       = (Inr \<lparr> averageRating = Num (6004799503160661 / 4503599627370496), reviewCount = 3 \<rparr>, ex_rated)
   \<and> Num (6004799503160661 / 4503599627370496) \<noteq> Num (arithmeticMean (albumRatings 1 ex_rated))"
proof -
  have m: "arithmeticMean [1, 1, 2] = 4 / 3" by (simp add: arithmeticMean_def)
  have "jsDivide (foldl (\<lambda>sum rating. jsAdd sum (fromInt rating)) (Num 0) [1, 1, 2]) (fromInt (int (length [1, 1, 2 :: int])))
      = roundToDouble (arithmeticMean [1, 1, 2])"
    by (rule mean_quotient) simp_all
  then have "albumsService_getAlbumRating pg 1 ex_rated
       = (Inr \<lparr> averageRating = Num (6004799503160661 / 4503599627370496), reviewCount = 3 \<rparr>, ex_rated)"
    by (simp add: getAlbumRating_pg ex_rated_ratings m roundToDouble_four_thirds)
  then show ?thesis by (simp add: ex_rated_ratings m)
qed

text \<open>Without the guard the empty case would divide zero by zero.\<close>

lemma jsDivide_zero_by_zero: "jsDivide (Num 0) (fromInt 0) = NaN"
  by (simp add: fromInt_def roundToDouble_def)

subsection \<open>Keys drawn from sequences\<close>

lemma keysFromSequences_empty:
  "keysFromSequences \<lparr> users = [], artists = [], albums = [], reviews = [], artistSeq = 0,
     albumSeq = 0, reviewSeq = 0, now = t, catalogCalls = [] \<rparr>"
  by (simp add: keysFromSequences_def)

lemma keysFromSequences_artist_create:
  "keysFromSequences w \<Longrightarrow> keysFromSequences (snd (pg_artist_create dto w))"
  by (auto simp add: keysFromSequences_def pg_artist_create_def Let_def)

lemma keysFromSequences_album_create:
  "keysFromSequences w \<Longrightarrow> keysFromSequences (snd (pg_album_create d w))"
  by (auto simp add: keysFromSequences_def pg_album_create_def Let_def split: option.split)

lemma keysFromSequences_review_create:
  "keysFromSequences w \<Longrightarrow> keysFromSequences (snd (pg_review_create d w))"
  by (auto simp add: keysFromSequences_def pg_review_create_def Let_def)

lemma review_id_applyPatch: "review_id (applyPatch p r) = review_id r"
  by (simp add: applyPatch_def)

lemma keysFromSequences_review_update:
  "keysFromSequences w \<Longrightarrow> keysFromSequences (snd (pg_review_update i p w))"
  by (auto simp add: keysFromSequences_def pg_review_update_def review_id_applyPatch split: option.split)

lemma keysFromSequences_review_delete:
  "keysFromSequences w \<Longrightarrow> keysFromSequences (snd (pg_review_delete i w))"
  by (auto simp add: keysFromSequences_def pg_review_delete_def split: option.split)

lemma find_None_set: "(find P xs = None) = (\<forall>x \<in> set xs. \<not> P x)"
  by (induction xs) simp_all

lemma find_Some_set: "find P xs = Some x \<Longrightarrow> x \<in> set xs \<and> P x"
  by (induction xs) (auto split: if_splits)

subsection \<open>Review creation\<close>

lemma reviewsService_create_NotFound:
  assumes "\<forall>b \<in> set (albums w). album_id b \<noteq> cr_albumId dto"
  shows "reviewsService_create pg userId dto w
     = (Inl (NotFoundException (''Album with ID '' @ showNumber (cr_albumId dto) @ '' not found'')), w)"
proof -
  from assms have "find (\<lambda>b. album_id b = cr_albumId dto) (albums w) = None"
    by (simp add: find_None_set)
  then show ?thesis
    by (simp add: reviewsService_create_def pg_simps pg_album_findUnique_id_def await_def throw_def)
qed

lemma reviewsService_create_Conflict:
  assumes "\<exists>b \<in> set (albums w). album_id b = cr_albumId dto"
    and "\<exists>r \<in> set (reviews w). review_userId r = userId \<and> review_albumId r = cr_albumId dto"
  shows "reviewsService_create pg userId dto w
     = (Inl (ConflictException ''You have already reviewed this album''), w)"
proof -
  from assms(1) obtain b where "find (\<lambda>b. album_id b = cr_albumId dto) (albums w) = Some b"
    by (cases "find (\<lambda>b. album_id b = cr_albumId dto) (albums w)") (auto simp add: find_None_set)
  moreover from assms(2) obtain r where
    "find (\<lambda>r. review_userId r = userId \<and> review_albumId r = cr_albumId dto) (reviews w) = Some r"
    by (cases "find (\<lambda>r. review_userId r = userId \<and> review_albumId r = cr_albumId dto) (reviews w)")
       (auto simp add: find_None_set)
  ultimately show ?thesis
    by (simp add: reviewsService_create_def pg_simps pg_album_findUnique_id_def
          pg_review_findUnique_userId_albumId_def await_def throw_def)
qed

lemma reviewsService_create_insert:
  assumes "\<exists>b \<in> set (albums w). album_id b = cr_albumId dto"
    and "\<forall>r \<in> set (reviews w). \<not> (review_userId r = userId \<and> review_albumId r = cr_albumId dto)"
  shows "reviewsService_create pg userId dto w
     = pg_review_create \<lparr> rd_userId = userId, rd_albumId = cr_albumId dto,
                           rd_rating = cr_rating dto, rd_comment = cr_comment dto \<rparr> w"
proof -
  from assms(1) obtain b where "find (\<lambda>b. album_id b = cr_albumId dto) (albums w) = Some b"
    by (cases "find (\<lambda>b. album_id b = cr_albumId dto) (albums w)") (auto simp add: find_None_set)
  moreover from assms(2) have
    "find (\<lambda>r. review_userId r = userId \<and> review_albumId r = cr_albumId dto) (reviews w) = None"
    by (simp add: find_None_set)
  ultimately show ?thesis
    by (simp add: reviewsService_create_def pg_simps pg_album_findUnique_id_def
          pg_review_findUnique_userId_albumId_def await_def)
qed

lemma pg_review_create_accepts:
  assumes "keysFromSequences w"
    and "\<exists>u \<in> set (users w). user_id u = rd_userId d"
    and "\<exists>b \<in> set (albums w). album_id b = rd_albumId d"
    and "\<forall>r \<in> set (reviews w). \<not> (review_userId r = rd_userId d \<and> review_albumId r = rd_albumId d)"
  shows "pg_review_create d w
     = (Inr \<lparr> review_id = reviewSeq w + 1, review_userId = rd_userId d, review_albumId = rd_albumId d,
               review_rating = rd_rating d, review_comment = rd_comment d, review_createdAt = now w \<rparr>,
        w\<lparr> reviewSeq := reviewSeq w + 1,
           reviews := reviews w @ [\<lparr> review_id = reviewSeq w + 1, review_userId = rd_userId d,
               review_albumId = rd_albumId d, review_rating = rd_rating d,
               review_comment = rd_comment d, review_createdAt = now w \<rparr>] \<rparr>)"
proof -
  from assms(1) have "\<forall>r \<in> set (reviews w). review_id r \<noteq> reviewSeq w + 1"
    by (auto simp add: keysFromSequences_def)
  with assms(2-4) show ?thesis
    by (auto simp add: pg_review_create_def Let_def)
qed

lemma reviewsService_create_Inr:
  assumes "reviewsService_create pg userId dto w = (Inr row, w')"
  shows "(\<exists>b \<in> set (albums w). album_id b = cr_albumId dto)
     \<and> (\<forall>r \<in> set (reviews w). \<not> (review_userId r = userId \<and> review_albumId r = cr_albumId dto))
     \<and> row = \<lparr> review_id = reviewSeq w + 1, review_userId = userId, review_albumId = cr_albumId dto,
                 review_rating = cr_rating dto, review_comment = cr_comment dto,
                 review_createdAt = now w \<rparr>
     \<and> w' = w\<lparr> reviewSeq := reviewSeq w + 1, reviews := reviews w @ [row] \<rparr>"
proof -
  have a: "\<exists>b \<in> set (albums w). album_id b = cr_albumId dto"
  proof (rule ccontr)
    assume "\<not> (\<exists>b \<in> set (albums w). album_id b = cr_albumId dto)"
    then have "\<forall>b \<in> set (albums w). album_id b \<noteq> cr_albumId dto" by simp
    from reviewsService_create_NotFound [OF this, of userId] assms show False by simp
  qed
  have n: "\<forall>r \<in> set (reviews w). \<not> (review_userId r = userId \<and> review_albumId r = cr_albumId dto)"
  proof (rule ccontr)
    assume "\<not> (\<forall>r \<in> set (reviews w). \<not> (review_userId r = userId \<and> review_albumId r = cr_albumId dto))"
    then have "\<exists>r \<in> set (reviews w). review_userId r = userId \<and> review_albumId r = cr_albumId dto"
      by simp
    from reviewsService_create_Conflict [OF a this] assms show False by simp
  qed
  from reviewsService_create_insert [OF a n] assms
  have "pg_review_create \<lparr> rd_userId = userId, rd_albumId = cr_albumId dto,
                           rd_rating = cr_rating dto, rd_comment = cr_comment dto \<rparr> w = (Inr row, w')"
    by simp
  then have "row = \<lparr> review_id = reviewSeq w + 1, review_userId = userId, review_albumId = cr_albumId dto,
                 review_rating = cr_rating dto, review_comment = cr_comment dto,
                 review_createdAt = now w \<rparr>
     \<and> w' = w\<lparr> reviewSeq := reviewSeq w + 1, reviews := reviews w @ [row] \<rparr>"
    by (auto simp add: pg_review_create_def Let_def split: if_splits)
  with a n show ?thesis by simp
qed

text \<open>
  C3. On the relational store, creating a review fails with \<open>NotFound\<close> when no album
  has the given id, and with \<open>Conflict\<close> when the album exists and a review of the same
  user for the same album exists; the store is unchanged in both cases. Otherwise the
  outcome is that of the store's insert of a row with the user, the album, the rating and
  the comment of the request. Whenever a creation succeeds, the row it returns carries
  that rating and comment, it is the one row added to the table, and any further creation
  by the same user for the same album fails with \<open>Conflict\<close>.
\<close>

theorem reviewsService_create_outcomes:
  "((\<forall>b \<in> set (albums w). album_id b \<noteq> cr_albumId dto) \<longrightarrow>
      reviewsService_create pg userId dto w
        = (Inl (NotFoundException (''Album with ID '' @ showNumber (cr_albumId dto) @ '' not found'')), w))
   \<and> ((\<exists>b \<in> set (albums w). album_id b = cr_albumId dto)
        \<and> (\<exists>r \<in> set (reviews w). review_userId r = userId \<and> review_albumId r = cr_albumId dto) \<longrightarrow>
      reviewsService_create pg userId dto w = (Inl (ConflictException ''You have already reviewed this album''), w))
   \<and> ((\<exists>b \<in> set (albums w). album_id b = cr_albumId dto)
        \<and> (\<forall>r \<in> set (reviews w). \<not> (review_userId r = userId \<and> review_albumId r = cr_albumId dto)) \<longrightarrow>
      reviewsService_create pg userId dto w
        = pg_review_create \<lparr> rd_userId = userId, rd_albumId = cr_albumId dto,
                              rd_rating = cr_rating dto, rd_comment = cr_comment dto \<rparr> w)
   \<and> (reviewsService_create pg userId dto w = (Inr row, w') \<and> cr_albumId dto2 = cr_albumId dto \<longrightarrow>
      review_userId row = userId \<and> review_albumId row = cr_albumId dto
      \<and> review_rating row = cr_rating dto \<and> review_comment row = cr_comment dto
      \<and> reviews w' = reviews w @ [row]
      \<and> reviewsService_create pg userId dto2 w'
          = (Inl (ConflictException ''You have already reviewed this album''), w'))"
proof (intro conjI impI)
  assume "\<forall>b \<in> set (albums w). album_id b \<noteq> cr_albumId dto"
  then show "reviewsService_create pg userId dto w
        = (Inl (NotFoundException (''Album with ID '' @ showNumber (cr_albumId dto) @ '' not found'')), w)"
    by (rule reviewsService_create_NotFound)
next
  assume "(\<exists>b \<in> set (albums w). album_id b = cr_albumId dto)
        \<and> (\<exists>r \<in> set (reviews w). review_userId r = userId \<and> review_albumId r = cr_albumId dto)"
  then show "reviewsService_create pg userId dto w = (Inl (ConflictException ''You have already reviewed this album''), w)"
    by (simp add: reviewsService_create_Conflict)
next
  assume "(\<exists>b \<in> set (albums w). album_id b = cr_albumId dto)
        \<and> (\<forall>r \<in> set (reviews w). \<not> (review_userId r = userId \<and> review_albumId r = cr_albumId dto))"
  then show "reviewsService_create pg userId dto w
        = pg_review_create \<lparr> rd_userId = userId, rd_albumId = cr_albumId dto,
                              rd_rating = cr_rating dto, rd_comment = cr_comment dto \<rparr> w"
    by (simp add: reviewsService_create_insert)
next
  assume s: "reviewsService_create pg userId dto w = (Inr row, w') \<and> cr_albumId dto2 = cr_albumId dto"
  then have c: "reviewsService_create pg userId dto w = (Inr row, w')" by simp
  note i = reviewsService_create_Inr [OF c]
  from i show "review_userId row = userId" by simp
  from i show "review_albumId row = cr_albumId dto" by simp
  from i show "review_rating row = cr_rating dto" by simp
  from i show "review_comment row = cr_comment dto" by simp
  from i have w': "w' = w\<lparr> reviewSeq := reviewSeq w + 1, reviews := reviews w @ [row] \<rparr>" by simp
  then show r: "reviews w' = reviews w @ [row]" by simp
  from i w' s have "\<exists>b \<in> set (albums w'). album_id b = cr_albumId dto2" by simp
  moreover from i r s
  have "\<exists>r \<in> set (reviews w'). review_userId r = userId \<and> review_albumId r = cr_albumId dto2"
    by simp
  ultimately show "reviewsService_create pg userId dto2 w'
          = (Inl (ConflictException ''You have already reviewed this album''), w')"
    by (rule reviewsService_create_Conflict)
qed

lemmas ex_world_eval =
  ex_world_def ex_artist_def ex_album1_def ex_album2_def ex_review1_def ex_review2_def

lemma ex_world_keys: "keysFromSequences ex_world"
  by (simp add: keysFromSequences_def ex_world_eval)

lemma ex_review_created:
  "pg_review_create \<lparr> rd_userId = 1, rd_albumId = 2, rd_rating = 3, rd_comment = Some ''Fine'' \<rparr> ex_world
     = (Inr \<lparr> review_id = 3, review_userId = 1, review_albumId = 2, review_rating = 3,
               review_comment = Some ''Fine'', review_createdAt = 30 \<rparr>,
        ex_world\<lparr> reviewSeq := 3,
                  reviews := [ex_review1, ex_review2,
                    \<lparr> review_id = 3, review_userId = 1, review_albumId = 2, review_rating = 3,
                      review_comment = Some ''Fine'', review_createdAt = 30 \<rparr>] \<rparr>)"
proof -
  have "pg_review_create \<lparr> rd_userId = 1, rd_albumId = 2, rd_rating = 3, rd_comment = Some ''Fine'' \<rparr> ex_world
     = (Inr \<lparr> review_id = reviewSeq ex_world + 1, review_userId = 1, review_albumId = 2,
               review_rating = 3, review_comment = Some ''Fine'', review_createdAt = now ex_world \<rparr>,
        ex_world\<lparr> reviewSeq := reviewSeq ex_world + 1,
                  reviews := reviews ex_world @ [\<lparr> review_id = reviewSeq ex_world + 1,
                      review_userId = 1, review_albumId = 2, review_rating = 3,
                      review_comment = Some ''Fine'', review_createdAt = now ex_world \<rparr>] \<rparr>)"
    using pg_review_create_accepts
            [of ex_world "\<lparr> rd_userId = 1, rd_albumId = 2, rd_rating = 3, rd_comment = Some ''Fine'' \<rparr>"]
          ex_world_keys
    by (simp add: ex_world_eval)
  then show ?thesis by (simp add: ex_world_def)
qed

theorem reviewsService_create_outcomes_witness:
  "reviewsService_create pg 1 \<lparr> cr_albumId = 99, cr_rating = 5, cr_comment = None \<rparr> ex_world
     = (Inl (NotFoundException ''Album with ID 99 not found''), ex_world)
   \<and> reviewsService_create pg 1 \<lparr> cr_albumId = 1, cr_rating = 5, cr_comment = None \<rparr> ex_world
     = (Inl (ConflictException ''You have already reviewed this album''), ex_world)
   \<and> reviewsService_create pg 1 \<lparr> cr_albumId = 2, cr_rating = 3, cr_comment = Some ''Fine'' \<rparr> ex_world
     = (Inr \<lparr> review_id = 3, review_userId = 1, review_albumId = 2, review_rating = 3,
               review_comment = Some ''Fine'', review_createdAt = 30 \<rparr>,
        ex_world\<lparr> reviewSeq := 3,
                  reviews := [ex_review1, ex_review2,
                    \<lparr> review_id = 3, review_userId = 1, review_albumId = 2, review_rating = 3,
                      review_comment = Some ''Fine'', review_createdAt = 30 \<rparr>] \<rparr>)
   \<and> reviewsService_create pg 1 \<lparr> cr_albumId = 2, cr_rating = 1, cr_comment = None \<rparr>
       (ex_world\<lparr> reviewSeq := 3,
                  reviews := [ex_review1, ex_review2,
                    \<lparr> review_id = 3, review_userId = 1, review_albumId = 2, review_rating = 3,
                      review_comment = Some ''Fine'', review_createdAt = 30 \<rparr>] \<rparr>)
     = (Inl (ConflictException ''You have already reviewed this album''),
        ex_world\<lparr> reviewSeq := 3,
                  reviews := [ex_review1, ex_review2,
                    \<lparr> review_id = 3, review_userId = 1, review_albumId = 2, review_rating = 3,
                      review_comment = Some ''Fine'', review_createdAt = 30 \<rparr>] \<rparr>)"
proof -
  let ?d99 = "\<lparr> cr_albumId = 99, cr_rating = 5, cr_comment = None \<rparr>"
  let ?d1 = "\<lparr> cr_albumId = 1, cr_rating = 5, cr_comment = None \<rparr>"
  let ?d2 = "\<lparr> cr_albumId = 2, cr_rating = 3, cr_comment = Some ''Fine'' \<rparr>"
  let ?d2' = "\<lparr> cr_albumId = 2, cr_rating = 1, cr_comment = None \<rparr>"
  let ?row = "\<lparr> review_id = 3, review_userId = 1, review_albumId = 2, review_rating = 3,
               review_comment = Some ''Fine'', review_createdAt = 30 \<rparr>"
  let ?w' = "ex_world\<lparr> reviewSeq := 3, reviews := [ex_review1, ex_review2, ?row] \<rparr>"
  have h1: "\<forall>b \<in> set (albums ex_world). album_id b \<noteq> cr_albumId ?d99"
    by (simp add: ex_world_eval)
  have m: "showNumber 99 = ''99''"
    by (simp add: showNumber_def)
  have h2: "(\<exists>b \<in> set (albums ex_world). album_id b = cr_albumId ?d1)
        \<and> (\<exists>r \<in> set (reviews ex_world). review_userId r = 1 \<and> review_albumId r = cr_albumId ?d1)"
    by (simp add: ex_world_eval)
  have h3: "(\<exists>b \<in> set (albums ex_world). album_id b = cr_albumId ?d2)
        \<and> (\<forall>r \<in> set (reviews ex_world). \<not> (review_userId r = 1 \<and> review_albumId r = cr_albumId ?d2))"
    by (simp add: ex_world_eval)
  from reviewsService_create_outcomes [of ex_world ?d99 1 ?row ?w' ?d2'] h1 m
  have 1: "reviewsService_create pg 1 ?d99 ex_world
     = (Inl (NotFoundException ''Album with ID 99 not found''), ex_world)"
    by simp
  from reviewsService_create_outcomes [of ex_world ?d1 1 ?row ?w' ?d2'] h2
  have 2: "reviewsService_create pg 1 ?d1 ex_world
     = (Inl (ConflictException ''You have already reviewed this album''), ex_world)"
    by blast
  from reviewsService_create_outcomes [of ex_world ?d2 1 ?row ?w' ?d2'] h3
  have "reviewsService_create pg 1 ?d2 ex_world
     = pg_review_create \<lparr> rd_userId = 1, rd_albumId = cr_albumId ?d2,
                           rd_rating = cr_rating ?d2, rd_comment = cr_comment ?d2 \<rparr> ex_world"
    by blast
  then have 3: "reviewsService_create pg 1 ?d2 ex_world = (Inr ?row, ?w')"
    by (simp add: ex_review_created)
  have e: "cr_albumId ?d2' = cr_albumId ?d2" by simp
  from reviewsService_create_outcomes [of ex_world ?d2 1 ?row ?w' ?d2'] 3 e
  have 4: "reviewsService_create pg 1 ?d2' ?w'
     = (Inl (ConflictException ''You have already reviewed this album''), ?w')"
    by blast
  from 1 2 3 4 show ?thesis by (intro conjI)
qed

text \<open>
  The store accepts the insert when the acting user has a row (and the keys of the store
  were drawn from their sequences); for an acting user without a row, such as a deleted
  account whose token is still valid, the foreign key \<open>Review_userId_fkey\<close> refuses it and
  \<open>create\<close> lets the store's error through, as it has no handler.
\<close>

lemma reviewsService_create_unknown_user:
  "reviewsService_create pg 99 \<lparr> cr_albumId = 2, cr_rating = 5, cr_comment = None \<rparr> ex_world
     = (Inl (PrismaError ''P2003''), ex_world\<lparr> reviewSeq := 3 \<rparr>)"
  by (simp add: reviewsService_create_def pg_simps pg_album_findUnique_id_def
        pg_review_findUnique_userId_albumId_def pg_review_create_def await_def throw_def Let_def
        ex_world_eval)

subsection \<open>Review update and removal\<close>

lemma reviewsService_update_cases:
  "reviewsService_update pg i userId patch w =
     (case find (\<lambda>r. review_id r = i) (reviews w) of
        None \<Rightarrow> (Inl (NotFoundException (''Review with ID '' @ showNumber i @ '' not found'')), w)
      | Some r \<Rightarrow>
          if review_userId r \<noteq> userId
          then (Inl (ForbiddenException ''You can only update your own reviews''), w)
          else (Inr (applyPatch patch r),
                w\<lparr>reviews := map (\<lambda>x. if review_id x = i then applyPatch patch x else x) (reviews w)\<rparr>))"
  by (simp add: reviewsService_update_def pg_simps pg_review_findUnique_id_def pg_review_update_def
        await_def throw_def split: option.split)

lemma reviewsService_remove_cases:
  "reviewsService_remove pg i userId w =
     (case find (\<lambda>r. review_id r = i) (reviews w) of
        None \<Rightarrow> (Inl (NotFoundException (''Review with ID '' @ showNumber i @ '' not found'')), w)
      | Some r \<Rightarrow>
          if review_userId r \<noteq> userId
          then (Inl (ForbiddenException ''You can only delete your own reviews''), w)
          else (Inr r, w\<lparr>reviews := filter (\<lambda>x. review_id x \<noteq> i) (reviews w)\<rparr>))"
  by (simp add: reviewsService_remove_def pg_simps pg_review_findUnique_id_def pg_review_delete_def
        await_def throw_def split: option.split)

text \<open>
  C4. On the relational store, \<open>update\<close> and \<open>remove\<close> fail with \<open>NotFound\<close> when
  no review has the given id, and with \<open>Forbidden\<close> when the review found belongs to
  another user; in both cases the store, and so the review row, is unchanged. Otherwise
  \<open>update\<close> returns the review with the rating and the comment replaced where the patch
  gives them and every other field as it was, and stores it under the same id, leaving
  every other row alone; \<open>remove\<close> returns the review and deletes the rows with that id.
\<close>

theorem reviewsService_update_remove_guards:
  "((\<forall>r \<in> set (reviews w). review_id r \<noteq> i) \<longrightarrow>
      reviewsService_update pg i userId patch w
        = (Inl (NotFoundException (''Review with ID '' @ showNumber i @ '' not found'')), w)
      \<and> reviewsService_remove pg i userId w
        = (Inl (NotFoundException (''Review with ID '' @ showNumber i @ '' not found'')), w))
   \<and> (find (\<lambda>r. review_id r = i) (reviews w) = Some r \<and> review_userId r \<noteq> userId \<longrightarrow>
      reviewsService_update pg i userId patch w
        = (Inl (ForbiddenException ''You can only update your own reviews''), w)
      \<and> reviewsService_remove pg i userId w
        = (Inl (ForbiddenException ''You can only delete your own reviews''), w))
   \<and> (find (\<lambda>r. review_id r = i) (reviews w) = Some r \<and> review_userId r = userId \<longrightarrow>
      reviewsService_update pg i userId patch w
        = (Inr (r\<lparr> review_rating := (case ur_rating patch of None \<Rightarrow> review_rating r | Some x \<Rightarrow> x),
                  review_comment := (case ur_comment patch of None \<Rightarrow> review_comment r
                                      | Some c \<Rightarrow> Some c) \<rparr>),
           w\<lparr>reviews := map (\<lambda>x. if review_id x = i
                  then x\<lparr> review_rating := (case ur_rating patch of None \<Rightarrow> review_rating x | Some y \<Rightarrow> y),
                         review_comment := (case ur_comment patch of None \<Rightarrow> review_comment x
                                             | Some c \<Rightarrow> Some c) \<rparr>
                  else x) (reviews w)\<rparr>)
      \<and> reviewsService_remove pg i userId w
        = (Inr r, w\<lparr>reviews := filter (\<lambda>x. review_id x \<noteq> i) (reviews w)\<rparr>))"
proof (intro conjI impI)
  assume "\<forall>r \<in> set (reviews w). review_id r \<noteq> i"
  then have n: "find (\<lambda>r. review_id r = i) (reviews w) = None" by (simp add: find_None_set)
  from n show "reviewsService_update pg i userId patch w
        = (Inl (NotFoundException (''Review with ID '' @ showNumber i @ '' not found'')), w)"
    by (simp add: reviewsService_update_cases)
  from n show "reviewsService_remove pg i userId w
        = (Inl (NotFoundException (''Review with ID '' @ showNumber i @ '' not found'')), w)"
    by (simp add: reviewsService_remove_cases)
next
  assume f: "find (\<lambda>r. review_id r = i) (reviews w) = Some r \<and> review_userId r \<noteq> userId"
  from f show "reviewsService_update pg i userId patch w
        = (Inl (ForbiddenException ''You can only update your own reviews''), w)"
    by (simp add: reviewsService_update_cases)
  from f show "reviewsService_remove pg i userId w
        = (Inl (ForbiddenException ''You can only delete your own reviews''), w)"
    by (simp add: reviewsService_remove_cases)
next
  assume o: "find (\<lambda>r. review_id r = i) (reviews w) = Some r \<and> review_userId r = userId"
  from o show "reviewsService_update pg i userId patch w
        = (Inr (r\<lparr> review_rating := (case ur_rating patch of None \<Rightarrow> review_rating r | Some x \<Rightarrow> x),
                  review_comment := (case ur_comment patch of None \<Rightarrow> review_comment r
                                      | Some c \<Rightarrow> Some c) \<rparr>),
           w\<lparr>reviews := map (\<lambda>x. if review_id x = i
                  then x\<lparr> review_rating := (case ur_rating patch of None \<Rightarrow> review_rating x | Some y \<Rightarrow> y),
                         review_comment := (case ur_comment patch of None \<Rightarrow> review_comment x
                                             | Some c \<Rightarrow> Some c) \<rparr>
                  else x) (reviews w)\<rparr>)"
    by (simp add: reviewsService_update_cases applyPatch_def)
  from o show "reviewsService_remove pg i userId w
        = (Inr r, w\<lparr>reviews := filter (\<lambda>x. review_id x \<noteq> i) (reviews w)\<rparr>)"
    by (simp add: reviewsService_remove_cases)
qed

theorem reviewsService_update_remove_guards_witness:
  "reviewsService_update pg 9 1 \<lparr> ur_rating = Some 2, ur_comment = None \<rparr> ex_world
     = (Inl (NotFoundException ''Review with ID 9 not found''), ex_world)
   \<and> reviewsService_remove pg 9 1 ex_world
     = (Inl (NotFoundException ''Review with ID 9 not found''), ex_world)
   \<and> reviewsService_update pg 1 2 \<lparr> ur_rating = Some 2, ur_comment = None \<rparr> ex_world
     = (Inl (ForbiddenException ''You can only update your own reviews''), ex_world)
   \<and> reviewsService_remove pg 1 2 ex_world
     = (Inl (ForbiddenException ''You can only delete your own reviews''), ex_world)
   \<and> reviewsService_update pg 1 1 \<lparr> ur_rating = Some 2, ur_comment = None \<rparr> ex_world
     = (Inr (ex_review1\<lparr> review_rating := 2 \<rparr>),
        ex_world\<lparr> reviews := [ex_review1\<lparr> review_rating := 2 \<rparr>, ex_review2] \<rparr>)
   \<and> reviewsService_remove pg 1 1 ex_world = (Inr ex_review1, ex_world\<lparr> reviews := [ex_review2] \<rparr>)"
proof -
  let ?p = "\<lparr> ur_rating = Some 2, ur_comment = None \<rparr>"
  have h1: "\<forall>r \<in> set (reviews ex_world). review_id r \<noteq> 9"
    by (simp add: ex_world_eval)
  have m: "''Review with ID '' @ showNumber 9 @ '' not found'' = ''Review with ID 9 not found''"
    by (simp add: showNumber_def)
  have h2: "find (\<lambda>r. review_id r = 1) (reviews ex_world) = Some ex_review1 \<and> review_userId ex_review1 \<noteq> 2"
    by (simp add: ex_world_eval)
  have h3: "find (\<lambda>r. review_id r = 1) (reviews ex_world) = Some ex_review1 \<and> review_userId ex_review1 = 1"
    by (simp add: ex_world_eval)
  have u: "map (\<lambda>x. if review_id x = 1
                  then x\<lparr> review_rating := (case ur_rating ?p of None \<Rightarrow> review_rating x | Some y \<Rightarrow> y),
                         review_comment := (case ur_comment ?p of None \<Rightarrow> review_comment x
                                             | Some c \<Rightarrow> Some c) \<rparr>
                  else x) (reviews ex_world) = [ex_review1\<lparr> review_rating := 2 \<rparr>, ex_review2]"
    by (simp add: ex_world_eval)
  have d: "filter (\<lambda>x. review_id x \<noteq> 1) (reviews ex_world) = [ex_review2]"
    by (simp add: ex_world_eval)
  have r: "ex_review1\<lparr> review_rating := (case ur_rating ?p of None \<Rightarrow> review_rating ex_review1 | Some x \<Rightarrow> x),
                  review_comment := (case ur_comment ?p of None \<Rightarrow> review_comment ex_review1
                                      | Some c \<Rightarrow> Some c) \<rparr> = ex_review1\<lparr> review_rating := 2 \<rparr>"
    by (simp add: ex_review1_def)
  note t1 = reviewsService_update_remove_guards [of ex_world 9 1 ?p ex_review1]
  note t2 = reviewsService_update_remove_guards [of ex_world 1 2 ?p ex_review1]
  note t3 = reviewsService_update_remove_guards [of ex_world 1 1 ?p ex_review1]
  from t1 h1 have 1: "reviewsService_update pg 9 1 ?p ex_world
        = (Inl (NotFoundException (''Review with ID '' @ showNumber 9 @ '' not found'')), ex_world)
      \<and> reviewsService_remove pg 9 1 ex_world
        = (Inl (NotFoundException (''Review with ID '' @ showNumber 9 @ '' not found'')), ex_world)"
    by blast
  from t2 h2 have 2: "reviewsService_update pg 1 2 ?p ex_world
        = (Inl (ForbiddenException ''You can only update your own reviews''), ex_world)
      \<and> reviewsService_remove pg 1 2 ex_world
        = (Inl (ForbiddenException ''You can only delete your own reviews''), ex_world)"
    by blast
  from t3 h3 have 3: "reviewsService_update pg 1 1 ?p ex_world
     = (Inr (ex_review1\<lparr> review_rating := 2 \<rparr>),
        ex_world\<lparr> reviews := [ex_review1\<lparr> review_rating := 2 \<rparr>, ex_review2] \<rparr>)
   \<and> reviewsService_remove pg 1 1 ex_world = (Inr ex_review1, ex_world\<lparr> reviews := [ex_review2] \<rparr>)"
    unfolding u d r by blast
  from 1 2 3 show ?thesis unfolding m by blast
qed

subsection \<open>Review listings\<close>

lemma newestFirst_mset: "mset (newestFirst rs) = mset rs"
  by (simp add: newestFirst_def)

lemma newestFirst_sorted:
  "sorted_wrt (\<lambda>a b. review_createdAt a \<ge> review_createdAt b) (newestFirst rs)"
proof -
  have "sorted (map (\<lambda>r. - review_createdAt r) (newestFirst rs))"
    by (simp add: newestFirst_def)
  then show ?thesis by (simp add: sorted_map)
qed

lemma window_sorted:
  "sorted_wrt (\<lambda>a b. review_createdAt a \<ge> review_createdAt b) (take tk (drop skip (newestFirst rs)))"
  by (intro sorted_wrt_take sorted_wrt_drop newestFirst_sorted)

lemma reviewPage_pg:
  "reviewPage pg wh skip tk w =
     (Inr \<lparr> page_reviews = take tk (drop skip (newestFirst (filter (matches wh) (reviews w)))),
             page_meta = \<lparr> meta_total = length (filter (matches wh) (reviews w)),
                           meta_skip = skip, meta_take = tk,
                           meta_hasMore = (skip + tk < length (filter (matches wh) (reviews w))) \<rparr> \<rparr>, w)"
  by (simp add: reviewPage_def pg_simps pg_review_findMany_def pg_review_count_def await_def ret_def)

text \<open>
  C9. On the relational store, each listing returns the window \<open>[skip, skip + take)\<close>
  of the matching reviews (all of them, those of the album, those of the user) taken in
  an order that is a rearrangement of the matching rows and descending in creation time,
  together with \<open>total\<close> (the number of matching rows), \<open>skip\<close>, \<open>take\<close> and
  \<open>hasMore\<close>, which is true exactly when \<open>skip + take < total\<close>. The album and user
  variants fail with \<open>NotFound\<close> when no album, respectively no user, has the given id.
  The store is unchanged.
\<close>

theorem reviewsService_listings:
  "reviewsService_findAll pg skip tk w =
     (Inr \<lparr> page_reviews = take tk (drop skip (newestFirst (reviews w))),
             page_meta = \<lparr> meta_total = length (reviews w), meta_skip = skip, meta_take = tk,
                           meta_hasMore = (skip + tk < length (reviews w)) \<rparr> \<rparr>, w)
   \<and> ((\<exists>b \<in> set (albums w). album_id b = albumId) \<longrightarrow>
        reviewsService_findByAlbumId pg albumId skip tk w =
          (Inr \<lparr> page_reviews =
                    take tk (drop skip (newestFirst (filter (\<lambda>r. review_albumId r = albumId) (reviews w)))),
                  page_meta = \<lparr> meta_total = length (filter (\<lambda>r. review_albumId r = albumId) (reviews w)),
                                meta_skip = skip, meta_take = tk,
                                meta_hasMore =
                                  (skip + tk < length (filter (\<lambda>r. review_albumId r = albumId) (reviews w))) \<rparr> \<rparr>,
           w))
   \<and> ((\<forall>b \<in> set (albums w). album_id b \<noteq> albumId) \<longrightarrow>
        reviewsService_findByAlbumId pg albumId skip tk w =
          (Inl (NotFoundException (''Album with ID '' @ showNumber albumId @ '' not found'')), w))
   \<and> ((\<exists>u \<in> set (users w). user_id u = userId) \<longrightarrow>
        reviewsService_findByUserId pg userId skip tk w =
          (Inr \<lparr> page_reviews =
                    take tk (drop skip (newestFirst (filter (\<lambda>r. review_userId r = userId) (reviews w)))),
                  page_meta = \<lparr> meta_total = length (filter (\<lambda>r. review_userId r = userId) (reviews w)),
                                meta_skip = skip, meta_take = tk,
                                meta_hasMore =
                                  (skip + tk < length (filter (\<lambda>r. review_userId r = userId) (reviews w))) \<rparr> \<rparr>,
           w))
   \<and> ((\<forall>u \<in> set (users w). user_id u \<noteq> userId) \<longrightarrow>
        reviewsService_findByUserId pg userId skip tk w =
          (Inl (NotFoundException (''User with ID '' @ showNumber userId @ '' not found'')), w))
   \<and> mset (newestFirst rs) = mset rs
   \<and> sorted_wrt (\<lambda>a b. review_createdAt a \<ge> review_createdAt b) (newestFirst rs)
   \<and> sorted_wrt (\<lambda>a b. review_createdAt a \<ge> review_createdAt b) (take tk (drop skip (newestFirst rs)))"
proof (intro conjI impI)
  show "reviewsService_findAll pg skip tk w =
     (Inr \<lparr> page_reviews = take tk (drop skip (newestFirst (reviews w))),
             page_meta = \<lparr> meta_total = length (reviews w), meta_skip = skip, meta_take = tk,
                           meta_hasMore = (skip + tk < length (reviews w)) \<rparr> \<rparr>, w)"
    by (simp add: reviewsService_findAll_def reviewPage_pg)
next
  assume "\<exists>b \<in> set (albums w). album_id b = albumId"
  then obtain b where "find (\<lambda>b. album_id b = albumId) (albums w) = Some b"
    by (cases "find (\<lambda>b. album_id b = albumId) (albums w)") (auto simp add: find_None_set)
  moreover have "matches (ByAlbumId albumId) = (\<lambda>r. review_albumId r = albumId)"
    by (rule ext) simp
  ultimately show "reviewsService_findByAlbumId pg albumId skip tk w =
          (Inr \<lparr> page_reviews =
                    take tk (drop skip (newestFirst (filter (\<lambda>r. review_albumId r = albumId) (reviews w)))),
                  page_meta = \<lparr> meta_total = length (filter (\<lambda>r. review_albumId r = albumId) (reviews w)),
                                meta_skip = skip, meta_take = tk,
                                meta_hasMore =
                                  (skip + tk < length (filter (\<lambda>r. review_albumId r = albumId) (reviews w))) \<rparr> \<rparr>,
           w)"
    by (simp add: reviewsService_findByAlbumId_def pg_simps pg_album_findUnique_id_def await_def
          reviewPage_pg)
next
  assume "\<forall>b \<in> set (albums w). album_id b \<noteq> albumId"
  then have "find (\<lambda>b. album_id b = albumId) (albums w) = None" by (simp add: find_None_set)
  then show "reviewsService_findByAlbumId pg albumId skip tk w =
          (Inl (NotFoundException (''Album with ID '' @ showNumber albumId @ '' not found'')), w)"
    by (simp add: reviewsService_findByAlbumId_def pg_simps pg_album_findUnique_id_def await_def throw_def)
next
  assume "\<exists>u \<in> set (users w). user_id u = userId"
  then obtain u where "find (\<lambda>u. user_id u = userId) (users w) = Some u"
    by (cases "find (\<lambda>u. user_id u = userId) (users w)") (auto simp add: find_None_set)
  moreover have "matches (ByUserId userId) = (\<lambda>r. review_userId r = userId)"
    by (rule ext) simp
  ultimately show "reviewsService_findByUserId pg userId skip tk w =
          (Inr \<lparr> page_reviews =
                    take tk (drop skip (newestFirst (filter (\<lambda>r. review_userId r = userId) (reviews w)))),
                  page_meta = \<lparr> meta_total = length (filter (\<lambda>r. review_userId r = userId) (reviews w)),
                                meta_skip = skip, meta_take = tk,
                                meta_hasMore =
                                  (skip + tk < length (filter (\<lambda>r. review_userId r = userId) (reviews w))) \<rparr> \<rparr>,
           w)"
    by (simp add: reviewsService_findByUserId_def pg_simps pg_user_findUnique_id_def await_def
          reviewPage_pg)
next
  assume "\<forall>u \<in> set (users w). user_id u \<noteq> userId"
  then have "find (\<lambda>u. user_id u = userId) (users w) = None" by (simp add: find_None_set)
  then show "reviewsService_findByUserId pg userId skip tk w =
          (Inl (NotFoundException (''User with ID '' @ showNumber userId @ '' not found'')), w)"
    by (simp add: reviewsService_findByUserId_def pg_simps pg_user_findUnique_id_def await_def throw_def)
next
  show "mset (newestFirst rs) = mset rs" by (rule newestFirst_mset)
next
  show "sorted_wrt (\<lambda>a b. review_createdAt a \<ge> review_createdAt b) (newestFirst rs)"
    by (rule newestFirst_sorted)
next
  show "sorted_wrt (\<lambda>a b. review_createdAt a \<ge> review_createdAt b) (take tk (drop skip (newestFirst rs)))"
    by (rule window_sorted)
qed

lemma ex_newestFirst:
  "newestFirst [ex_review1, ex_review2] = [ex_review2, ex_review1]"
  "newestFirst [ex_review2] = [ex_review2]"
  by (simp_all add: newestFirst_def ex_review1_def ex_review2_def)

theorem reviewsService_listings_witness:
  "reviewsService_findAll pg 0 1 ex_world =
     (Inr \<lparr> page_reviews = [ex_review2],
             page_meta = \<lparr> meta_total = 2, meta_skip = 0, meta_take = 1, meta_hasMore = True \<rparr> \<rparr>,
      ex_world)
   \<and> reviewsService_findByAlbumId pg 1 1 10 ex_world =
     (Inr \<lparr> page_reviews = [ex_review1],
             page_meta = \<lparr> meta_total = 2, meta_skip = 1, meta_take = 10, meta_hasMore = False \<rparr> \<rparr>,
      ex_world)
   \<and> reviewsService_findByAlbumId pg 99 0 10 ex_world =
     (Inl (NotFoundException ''Album with ID 99 not found''), ex_world)
   \<and> reviewsService_findByUserId pg 2 0 10 ex_world =
     (Inr \<lparr> page_reviews = [ex_review2],
             page_meta = \<lparr> meta_total = 1, meta_skip = 0, meta_take = 10, meta_hasMore = False \<rparr> \<rparr>,
      ex_world)
   \<and> reviewsService_findByUserId pg 99 0 10 ex_world =
     (Inl (NotFoundException ''User with ID 99 not found''), ex_world)"
proof -
  have rs: "reviews ex_world = [ex_review1, ex_review2]" by (simp add: ex_world_def)
  have fa: "filter (\<lambda>r. review_albumId r = 1) (reviews ex_world) = [ex_review1, ex_review2]"
    and fu: "filter (\<lambda>r. review_userId r = 2) (reviews ex_world) = [ex_review2]"
    by (simp_all add: ex_world_eval)
  have a1: "\<exists>b \<in> set (albums ex_world). album_id b = 1"
    and a99: "\<forall>b \<in> set (albums ex_world). album_id b \<noteq> 99"
    and u2: "\<exists>u \<in> set (users ex_world). user_id u = 2"
    and u99: "\<forall>u \<in> set (users ex_world). user_id u \<noteq> 99"
    by (simp_all add: ex_world_eval)
  have m: "showNumber 99 = ''99''"
    by (simp add: showNumber_def)
  from reviewsService_listings [of 0 1 ex_world 1 1 "[]"]
  have 1: "reviewsService_findAll pg 0 1 ex_world =
     (Inr \<lparr> page_reviews = [ex_review2],
             page_meta = \<lparr> meta_total = 2, meta_skip = 0, meta_take = 1, meta_hasMore = True \<rparr> \<rparr>,
      ex_world)"
    by (simp add: rs ex_newestFirst)
  from reviewsService_listings [of 1 10 ex_world 1 2 "[]"] a1 u2
  have 2: "reviewsService_findByAlbumId pg 1 1 10 ex_world =
     (Inr \<lparr> page_reviews = [ex_review1],
             page_meta = \<lparr> meta_total = 2, meta_skip = 1, meta_take = 10, meta_hasMore = False \<rparr> \<rparr>,
      ex_world)"
    by (simp add: fa ex_newestFirst)
  from reviewsService_listings [of 0 10 ex_world 99 2 "[]"] a99 u2
  have 3: "reviewsService_findByAlbumId pg 99 0 10 ex_world =
     (Inl (NotFoundException ''Album with ID 99 not found''), ex_world)"
    and 4: "reviewsService_findByUserId pg 2 0 10 ex_world =
     (Inr \<lparr> page_reviews = [ex_review2],
             page_meta = \<lparr> meta_total = 1, meta_skip = 0, meta_take = 10, meta_hasMore = False \<rparr> \<rparr>,
      ex_world)"
    by (simp_all add: fu ex_newestFirst m)
  from reviewsService_listings [of 0 10 ex_world 99 99 "[]"] a99 u99
  have 5: "reviewsService_findByUserId pg 99 0 10 ex_world =
     (Inl (NotFoundException ''User with ID 99 not found''), ex_world)"
    by (simp add: m)
  from 1 2 3 4 5 show ?thesis by (intro conjI)
qed

subsection \<open>Albums of an artist\<close>

text \<open>
  C6. For an artist in the store, \<open>getArtistAlbums\<close> returns the album rows of that
  artist when there is at least one, without calling the catalog client and without
  changing anything. When there is none, it calls the catalog client once with the
  artist's \<open>externalId\<close> and returns its answer (the records, or its error); the
  tables and sequences of the store are as before, so no album row is created.
\<close>

theorem artistsService_getArtistAlbums_cache_aside:
  "(find (\<lambda>a. artist_id a = artistId) (artists w) = Some a
      \<and> filter (\<lambda>b. album_artistId b = artistId) (albums w) \<noteq> [] \<longrightarrow>
    artistsService_getArtistAlbums pg api artistId w
      = (Inr (AlbumsInDb (filter (\<lambda>b. album_artistId b = artistId) (albums w))), w))
   \<and> (find (\<lambda>a. artist_id a = artistId) (artists w) = Some a
      \<and> filter (\<lambda>b. album_artistId b = artistId) (albums w) = [] \<longrightarrow>
    artistsService_getArtistAlbums pg api artistId w
      = ((case api_getArtistAlbums api (artist_externalId a) of
            Inl e \<Rightarrow> Inl e
          | Inr externalAlbums \<Rightarrow> Inr (ExternalAlbums externalAlbums)),
         w\<lparr>catalogCalls := catalogCalls w @ [GetArtistAlbums (artist_externalId a)]\<rparr>))"
  by (simp add: artistsService_getArtistAlbums_def pg_simps pg_artist_findUnique_id_def
        pg_album_findMany_artistId_def musicApi_getArtistAlbums_def await_def ret_def
        split: sum.split)

theorem artistsService_getArtistAlbums_cache_aside_witness:
  "artistsService_getArtistAlbums pg ex_api 1 ex_world = (Inr (AlbumsInDb [ex_album1, ex_album2]), ex_world)
   \<and> artistsService_getArtistAlbums pg ex_api 1 (ex_world\<lparr>albums := [], reviews := []\<rparr>)
       = (Inr (ExternalAlbums [\<lparr> aa_externalId = ''album789'', aa_title = ''Catalog Album'',
                   aa_releaseDate = None, aa_coverUrl = None, aa_albumType = Some ''album'' \<rparr>]),
          ex_world\<lparr>albums := [], reviews := [], catalogCalls := [GetArtistAlbums ''artist123'']\<rparr>)"
proof -
  let ?w = "ex_world\<lparr>albums := [], reviews := []\<rparr>"
  have h1: "find (\<lambda>a. artist_id a = 1) (artists ex_world) = Some ex_artist
      \<and> filter (\<lambda>b. album_artistId b = 1) (albums ex_world) \<noteq> []"
    by (simp add: ex_world_eval)
  have f: "filter (\<lambda>b. album_artistId b = 1) (albums ex_world) = [ex_album1, ex_album2]"
    by (simp add: ex_world_eval)
  have h2: "find (\<lambda>a. artist_id a = 1) (artists ?w) = Some ex_artist
      \<and> filter (\<lambda>b. album_artistId b = 1) (albums ?w) = []"
    by (simp add: ex_world_eval)
  have c: "(case api_getArtistAlbums ex_api (artist_externalId ex_artist) of
            Inl e \<Rightarrow> Inl e
          | Inr externalAlbums \<Rightarrow> Inr (ExternalAlbums externalAlbums))
       = Inr (ExternalAlbums [\<lparr> aa_externalId = ''album789'', aa_title = ''Catalog Album'',
                   aa_releaseDate = None, aa_coverUrl = None, aa_albumType = Some ''album'' \<rparr>])"
    by (simp add: ex_api_def)
  have l: "?w\<lparr>catalogCalls := catalogCalls ?w @ [GetArtistAlbums (artist_externalId ex_artist)]\<rparr>
       = ex_world\<lparr>albums := [], reviews := [], catalogCalls := [GetArtistAlbums ''artist123'']\<rparr>"
    by (simp add: ex_world_eval)
  from artistsService_getArtistAlbums_cache_aside [of 1 ex_world ex_artist ex_api] h1
  have 1: "artistsService_getArtistAlbums pg ex_api 1 ex_world
      = (Inr (AlbumsInDb [ex_album1, ex_album2]), ex_world)"
    unfolding f by blast
  from artistsService_getArtistAlbums_cache_aside [of 1 ?w ex_artist ex_api] h2
  have 2: "artistsService_getArtistAlbums pg ex_api 1 ?w
       = (Inr (ExternalAlbums [\<lparr> aa_externalId = ''album789'', aa_title = ''Catalog Album'',
                   aa_releaseDate = None, aa_coverUrl = None, aa_albumType = Some ''album'' \<rparr>]),
          ex_world\<lparr>albums := [], reviews := [], catalogCalls := [GetArtistAlbums ''artist123'']\<rparr>)"
    unfolding c l by blast
  from 1 2 show ?thesis by (intro conjI)
qed

subsection \<open>Resolving an artist\<close>

lemma find_snoc:
  "find P (xs @ [x]) = (case find P xs of Some y \<Rightarrow> Some y | None \<Rightarrow> if P x then Some x else None)"
  by (induction xs) simp_all

lemma artistsService_create_pg:
  "artistsService_create pg dto w =
     (case find (\<lambda>a. artist_externalId a = ca_externalId dto) (artists w) of
        Some a \<Rightarrow> (Inr a, w)
      | None \<Rightarrow>
          if \<exists>a \<in> set (artists w). artist_id a = artistSeq w + 1
          then (Inl (ConflictException ''Artist with this external ID already exists''),
                w\<lparr>artistSeq := artistSeq w + 1\<rparr>)
          else (Inr \<lparr> artist_id = artistSeq w + 1, artist_externalId = ca_externalId dto,
                       artist_name = ca_name dto, artist_imageUrl = ca_imageUrl dto \<rparr>,
                w\<lparr>artistSeq := artistSeq w + 1,
                   artists := artists w @ [\<lparr> artist_id = artistSeq w + 1,
                       artist_externalId = ca_externalId dto, artist_name = ca_name dto,
                       artist_imageUrl = ca_imageUrl dto \<rparr>]\<rparr>))"
proof (cases "find (\<lambda>a. artist_externalId a = ca_externalId dto) (artists w)")
  case None
  then have "\<forall>a \<in> set (artists w). artist_externalId a \<noteq> ca_externalId dto"
    by (simp add: find_None_set)
  with None show ?thesis
    by (simp add: artistsService_create_def pg_simps pg_artist_findUnique_externalId_def
          pg_artist_create_def try_catch_def await_def throw_def Let_def)
next
  case (Some a)
  then show ?thesis
    by (simp add: artistsService_create_def pg_simps pg_artist_findUnique_externalId_def
          try_catch_def await_def ret_def)
qed

lemma getArtistDetailsByExternalId_pg:
  "artistsService_getArtistDetailsByExternalId pg api externalId w =
     (case find (\<lambda>a. artist_externalId a = externalId) (artists w) of
        Some a \<Rightarrow>
          (Inr \<lparr> v_artist = a,
                  v_albums = Some (filter (\<lambda>b. album_artistId b = artist_id a) (albums w)) \<rparr>, w)
      | None \<Rightarrow>
          (case api_getArtistDetails api externalId of
             Inl e \<Rightarrow> (Inl e, w\<lparr>catalogCalls := catalogCalls w @ [GetArtistDetails externalId]\<rparr>)
           | Inr d \<Rightarrow>
               (case artistsService_create pg
                       \<lparr> ca_externalId = ad_externalId d, ca_name = ad_name d, ca_imageUrl = ad_imageUrl d \<rparr>
                       (w\<lparr>catalogCalls := catalogCalls w @ [GetArtistDetails externalId]\<rparr>) of
                  (Inl e, w') \<Rightarrow> (Inl e, w')
                | (Inr a, w') \<Rightarrow> (Inr \<lparr> v_artist = a, v_albums = None \<rparr>, w'))))"
  by (simp add: artistsService_getArtistDetailsByExternalId_def pg_simps
        pg_artist_findUnique_externalId_albums_def musicApi_getArtistDetails_def await_def ret_def
        split: option.split sum.split prod.split)

lemma getArtistDetailsByExternalId_twice:
  assumes first: "artistsService_getArtistDetailsByExternalId pg api externalId w = (Inr v1, w1)"
    and second: "artistsService_getArtistDetailsByExternalId pg api externalId w1 = (r2, w2)"
  shows "(\<exists>v2. r2 = Inr v2 \<and> v_artist v2 = v_artist v1)
         \<and> artists w2 = artists w1
         \<and> (artists w1 = artists w \<or> artists w1 = artists w @ [v_artist v1])"
proof (cases "find (\<lambda>a. artist_externalId a = externalId) (artists w)")
  case (Some a)
  with first have "w1 = w" "v_artist v1 = a"
    by (auto simp add: getArtistDetailsByExternalId_pg)
  with Some second show ?thesis
    by (auto simp add: getArtistDetailsByExternalId_pg)
next
  case None
  show ?thesis
  proof (cases "api_getArtistDetails api externalId")
    case (Inl e)
    with None first show ?thesis by (simp add: getArtistDetailsByExternalId_pg)
  next
    case (Inr d)
    let ?dto = "\<lparr> ca_externalId = ad_externalId d, ca_name = ad_name d, ca_imageUrl = ad_imageUrl d \<rparr>"
    let ?w' = "w\<lparr>catalogCalls := catalogCalls w @ [GetArtistDetails externalId]\<rparr>"
    show ?thesis
    proof (cases "find (\<lambda>a. artist_externalId a = ad_externalId d) (artists w)")
      case (Some a')
      with None Inr first have 1: "w1 = ?w'" "v_artist v1 = a'"
        by (auto simp add: getArtistDetailsByExternalId_pg artistsService_create_pg)
      with Some None Inr second show ?thesis
        by (auto simp add: getArtistDetailsByExternalId_pg artistsService_create_pg)
    next
      case none: None
      let ?row = "\<lparr> artist_id = artistSeq w + 1, artist_externalId = ad_externalId d,
                       artist_name = ad_name d, artist_imageUrl = ad_imageUrl d \<rparr>"
      show ?thesis
      proof (cases "\<exists>a \<in> set (artists w). artist_id a = artistSeq w + 1")
        case True
        with none None Inr first show ?thesis
          by (simp add: getArtistDetailsByExternalId_pg artistsService_create_pg)
      next
        case False
        with none None Inr first
        have 1: "w1 = ?w'\<lparr>artistSeq := artistSeq w + 1, artists := artists w @ [?row]\<rparr>"
          and 2: "v_artist v1 = ?row"
          by (auto simp add: getArtistDetailsByExternalId_pg artistsService_create_pg)
        have f1: "find (\<lambda>a. artist_externalId a = externalId) (artists w1)
                  = (if ad_externalId d = externalId then Some ?row else None)"
          using None 1 by (simp add: find_snoc)
        have f2: "find (\<lambda>a. artist_externalId a = ad_externalId d) (artists w1) = Some ?row"
          using none 1 by (simp add: find_snoc)
        show ?thesis
        proof (cases "ad_externalId d = externalId")
          case True
          with f1 second 1 2 show ?thesis
            by (auto simp add: getArtistDetailsByExternalId_pg)
        next
          case False
          with f1 f2 Inr second 1 2 show ?thesis
            by (auto simp add: getArtistDetailsByExternalId_pg artistsService_create_pg)
        qed
      qed
    qed
  qed
qed

text \<open>
  C1. On the relational store: when an artist row with the external id exists,
  \<open>getArtistDetailsByExternalId\<close> returns it (with its albums) and changes nothing, so
  the catalog client is not called. And when a call succeeds, a second call for the same
  external id right after it succeeds too and returns the same row, hence the same local
  id; the first call added at most one artist row (the one it returned), the second
  none. The catalog client is a function of the request: it answers the same both times.
\<close>

theorem artistsService_getArtistDetailsByExternalId_idempotent:
  "(find (\<lambda>a. artist_externalId a = externalId) (artists w) = Some a \<longrightarrow>
      artistsService_getArtistDetailsByExternalId pg api externalId w
        = (Inr \<lparr> v_artist = a,
                  v_albums = Some (filter (\<lambda>b. album_artistId b = artist_id a) (albums w)) \<rparr>, w))
   \<and> (artistsService_getArtistDetailsByExternalId pg api externalId w = (Inr v1, w1)
        \<and> artistsService_getArtistDetailsByExternalId pg api externalId w1 = (r2, w2) \<longrightarrow>
      (\<exists>v2. r2 = Inr v2 \<and> v_artist v2 = v_artist v1
            \<and> artist_id (v_artist v2) = artist_id (v_artist v1))
      \<and> artists w2 = artists w1
      \<and> (artists w1 = artists w \<or> artists w1 = artists w @ [v_artist v1]))"
proof (intro conjI impI)
  assume "find (\<lambda>a. artist_externalId a = externalId) (artists w) = Some a"
  then show "artistsService_getArtistDetailsByExternalId pg api externalId w
        = (Inr \<lparr> v_artist = a,
                  v_albums = Some (filter (\<lambda>b. album_artistId b = artist_id a) (albums w)) \<rparr>, w)"
    by (simp add: getArtistDetailsByExternalId_pg)
next
  assume a: "artistsService_getArtistDetailsByExternalId pg api externalId w = (Inr v1, w1)
        \<and> artistsService_getArtistDetailsByExternalId pg api externalId w1 = (r2, w2)"
  then have t: "(\<exists>v2. r2 = Inr v2 \<and> v_artist v2 = v_artist v1)
         \<and> artists w2 = artists w1
         \<and> (artists w1 = artists w \<or> artists w1 = artists w @ [v_artist v1])"
    using getArtistDetailsByExternalId_twice [of api externalId w v1 w1 r2 w2] by blast
  from t show "\<exists>v2. r2 = Inr v2 \<and> v_artist v2 = v_artist v1
            \<and> artist_id (v_artist v2) = artist_id (v_artist v1)"
    by auto
  from t show "artists w2 = artists w1" by simp
  from t show "artists w1 = artists w \<or> artists w1 = artists w @ [v_artist v1]" by simp
qed

lemma ex_resolve_known:
  "find (\<lambda>a. artist_externalId a = ''artist123'') (artists ex_world) = Some ex_artist"
  "filter (\<lambda>b. album_artistId b = artist_id ex_artist) (albums ex_world) = [ex_album1, ex_album2]"
  by (simp_all add: ex_world_eval)

lemma ex_resolve_first:
  "artistsService_getArtistDetailsByExternalId pg ex_api ''artist999'' ex_world
     = (Inr \<lparr> v_artist = ex_new_artist, v_albums = None \<rparr>, ex_world1)"
  by (simp add: getArtistDetailsByExternalId_pg artistsService_create_pg ex_api_def ex_world_eval
        ex_world1_def ex_new_artist_def)

lemma ex_resolve_second:
  "artistsService_getArtistDetailsByExternalId pg ex_api ''artist999'' ex_world1
     = (Inr \<lparr> v_artist = ex_new_artist, v_albums = Some [] \<rparr>, ex_world1)"
  by (simp add: getArtistDetailsByExternalId_pg ex_world_eval ex_world1_def ex_new_artist_def)

theorem artistsService_getArtistDetailsByExternalId_idempotent_witness:
  "artistsService_getArtistDetailsByExternalId pg ex_api ''artist123'' ex_world
     = (Inr \<lparr> v_artist = ex_artist, v_albums = Some [ex_album1, ex_album2] \<rparr>, ex_world)
   \<and> artistsService_getArtistDetailsByExternalId pg ex_api ''artist999'' ex_world
     = (Inr \<lparr> v_artist = ex_new_artist, v_albums = None \<rparr>, ex_world1)
   \<and> artistsService_getArtistDetailsByExternalId pg ex_api ''artist999'' ex_world1
     = (Inr \<lparr> v_artist = ex_new_artist, v_albums = Some [] \<rparr>, ex_world1)
   \<and> (artists ex_world1 = artists ex_world \<or> artists ex_world1 = artists ex_world @ [ex_new_artist])"
proof -
  from artistsService_getArtistDetailsByExternalId_idempotent
         [of "''artist123''" ex_world ex_artist ex_api
             "\<lparr> v_artist = ex_new_artist, v_albums = None \<rparr>" ex_world1
             "Inr \<lparr> v_artist = ex_new_artist, v_albums = Some [] \<rparr>" ex_world1]
       ex_resolve_known
  have 1: "artistsService_getArtistDetailsByExternalId pg ex_api ''artist123'' ex_world
     = (Inr \<lparr> v_artist = ex_artist, v_albums = Some [ex_album1, ex_album2] \<rparr>, ex_world)"
    by simp
  from artistsService_getArtistDetailsByExternalId_idempotent
         [of "''artist999''" ex_world ex_artist ex_api
             "\<lparr> v_artist = ex_new_artist, v_albums = None \<rparr>" ex_world1
             "Inr \<lparr> v_artist = ex_new_artist, v_albums = Some [] \<rparr>" ex_world1]
       ex_resolve_first ex_resolve_second
  have 2: "artists ex_world1 = artists ex_world \<or> artists ex_world1 = artists ex_world @ [ex_new_artist]"
    by simp
  from 1 ex_resolve_first ex_resolve_second 2 show ?thesis by (intro conjI) simp_all
qed

subsection \<open>Creation of artists and albums\<close>

lemma artistsService_create_found:
  assumes "artist_findUnique_externalId p (ca_externalId dto) w = (Inr (Some a), wa)"
  shows "artistsService_create p dto w = (Inr a, wa)"
  using assms by (simp add: artistsService_create_def try_catch_def await_def ret_def)

lemma artistsService_create_insert_error:
  assumes "artist_findUnique_externalId p (ca_externalId dto) w = (Inr None, wa)"
    and "artist_create p dto wa = (Inl e, wb)"
  shows "artistsService_create p dto w
     = (Inl (if errorCode e = Some ''P2002''
             then ConflictException ''Artist with this external ID already exists'' else e), wb)"
  using assms by (simp add: artistsService_create_def try_catch_def await_def throw_def)

lemma artistsService_create_lookup_error:
  assumes "artist_findUnique_externalId p (ca_externalId dto) w = (Inl e, wa)"
  shows "artistsService_create p dto w
     = (Inl (if errorCode e = Some ''P2002''
             then ConflictException ''Artist with this external ID already exists'' else e), wa)"
  using assms by (simp add: artistsService_create_def try_catch_def await_def throw_def)

lemma albumsService_create_lookup_error:
  assumes "album_findUnique_externalId p (cb_externalId dto) w = (Inl e, wa)"
  shows "albumsService_create p api dto w
     = (Inl (if errorCode e = Some ''P2002''
             then ConflictException ''Album with this external ID already exists'' else e), wa)"
  using assms by (simp add: albumsService_create_def try_catch_def await_def throw_def)

lemma albumsService_create_artist_lookup_error:
  assumes "album_findUnique_externalId p (cb_externalId dto) w = (Inr None, wa)"
    and "artist_findUnique_externalId p (cb_artistExternalId dto) wa = (Inl e, wb)"
  shows "albumsService_create p api dto w
     = (Inl (if errorCode e = Some ''P2002''
             then ConflictException ''Album with this external ID already exists'' else e), wb)"
  using assms by (simp add: albumsService_create_def try_catch_def await_def throw_def)

lemma albumsService_create_found:
  assumes "album_findUnique_externalId p (cb_externalId dto) w = (Inr (Some b), wa)"
  shows "albumsService_create p api dto w = (Inr (b, None), wa)"
  using assms by (simp add: albumsService_create_def try_catch_def await_def ret_def)

lemma albumsService_create_insert_error:
  assumes "album_findUnique_externalId p (cb_externalId dto) w = (Inr None, wa)"
    and "artist_findUnique_externalId p (cb_artistExternalId dto) wa = (Inr (Some ar), wb)"
    and "album_create p \<lparr> ab_externalId = cb_externalId dto, ab_title = cb_title dto,
            ab_releaseDate = (case cb_releaseDate dto of None \<Rightarrow> None
                              | Some d \<Rightarrow> if d = [] then None else Some d),
            ab_coverUrl = cb_coverUrl dto, ab_connect_artist_id = artist_id ar \<rparr> wb = (Inl e, wc)"
  shows "albumsService_create p api dto w
     = (Inl (if errorCode e = Some ''P2002''
             then ConflictException ''Album with this external ID already exists'' else e), wc)"
  using assms by (simp add: albumsService_create_def try_catch_def await_def throw_def ret_def)

lemma albumsService_create_new_artist_insert_error:
  assumes "album_findUnique_externalId p (cb_externalId dto) w = (Inr None, wa)"
    and "artist_findUnique_externalId p (cb_artistExternalId dto) wa = (Inr None, wb)"
    and "api_getArtistDetails api (cb_artistExternalId dto) = Inr d"
    and "artistsService_create p \<lparr> ca_externalId = ad_externalId d, ca_name = ad_name d,
            ca_imageUrl = ad_imageUrl d \<rparr>
           (wb\<lparr>catalogCalls := catalogCalls wb @ [GetArtistDetails (cb_artistExternalId dto)]\<rparr>)
         = (Inr ar, wc)"
    and "album_create p \<lparr> ab_externalId = cb_externalId dto, ab_title = cb_title dto,
            ab_releaseDate = (case cb_releaseDate dto of None \<Rightarrow> None
                              | Some d \<Rightarrow> if d = [] then None else Some d),
            ab_coverUrl = cb_coverUrl dto, ab_connect_artist_id = artist_id ar \<rparr> wc = (Inl e, wd)"
  shows "albumsService_create p api dto w
     = (Inl (if errorCode e = Some ''P2002''
             then ConflictException ''Album with this external ID already exists'' else e), wd)"
  using assms
  by (simp add: albumsService_create_def try_catch_def await_def throw_def ret_def
        musicApi_getArtistDetails_def)

text \<open>
  C7. For any behaviour of the store client: \<open>create\<close> of an artist, and of an album,
  first looks the external id up and returns the row found, without inserting. When
  nothing is found and the store's insert raises an error, the creation raises
  \<open>Conflict\<close> if the error's code is \<open>P2002\<close> (unique constraint) and the store's
  error itself otherwise. For albums this holds both when the artist was found and when
  it was created on the way. An error of one of the lookups is passed on in the same way.
\<close>

theorem create_maps_unique_violation_to_Conflict:
  "(artist_findUnique_externalId p (ca_externalId dto) w = (Inr (Some a), wa) \<longrightarrow>
      artistsService_create p dto w = (Inr a, wa))
   \<and> (artist_findUnique_externalId p (ca_externalId dto) w = (Inr None, wa)
        \<and> artist_create p dto wa = (Inl e, wb) \<longrightarrow>
      artistsService_create p dto w
        = (Inl (if errorCode e = Some ''P2002''
                then ConflictException ''Artist with this external ID already exists'' else e), wb))
   \<and> (album_findUnique_externalId p (cb_externalId bdto) w = (Inr (Some b), wa) \<longrightarrow>
      albumsService_create p api bdto w = (Inr (b, None), wa))
   \<and> (album_findUnique_externalId p (cb_externalId bdto) w = (Inr None, wa)
        \<and> artist_findUnique_externalId p (cb_artistExternalId bdto) wa = (Inr (Some ar), wb)
        \<and> album_create p \<lparr> ab_externalId = cb_externalId bdto, ab_title = cb_title bdto,
              ab_releaseDate = (case cb_releaseDate bdto of None \<Rightarrow> None
                                | Some d \<Rightarrow> if d = [] then None else Some d),
              ab_coverUrl = cb_coverUrl bdto, ab_connect_artist_id = artist_id ar \<rparr> wb = (Inl e, wc) \<longrightarrow>
      albumsService_create p api bdto w
        = (Inl (if errorCode e = Some ''P2002''
                then ConflictException ''Album with this external ID already exists'' else e), wc))
   \<and> (album_findUnique_externalId p (cb_externalId bdto) w = (Inr None, wa)
        \<and> artist_findUnique_externalId p (cb_artistExternalId bdto) wa = (Inr None, wb)
        \<and> api_getArtistDetails api (cb_artistExternalId bdto) = Inr details
        \<and> artistsService_create p \<lparr> ca_externalId = ad_externalId details, ca_name = ad_name details,
              ca_imageUrl = ad_imageUrl details \<rparr>
             (wb\<lparr>catalogCalls := catalogCalls wb @ [GetArtistDetails (cb_artistExternalId bdto)]\<rparr>)
           = (Inr ar, wc)
        \<and> album_create p \<lparr> ab_externalId = cb_externalId bdto, ab_title = cb_title bdto,
              ab_releaseDate = (case cb_releaseDate bdto of None \<Rightarrow> None
                                | Some d \<Rightarrow> if d = [] then None else Some d),
              ab_coverUrl = cb_coverUrl bdto, ab_connect_artist_id = artist_id ar \<rparr> wc = (Inl e, wd) \<longrightarrow>
      albumsService_create p api bdto w
        = (Inl (if errorCode e = Some ''P2002''
                then ConflictException ''Album with this external ID already exists'' else e), wd))
   \<and> (artist_findUnique_externalId p (ca_externalId dto) w = (Inl e, wa) \<longrightarrow>
      artistsService_create p dto w
        = (Inl (if errorCode e = Some ''P2002''
                then ConflictException ''Artist with this external ID already exists'' else e), wa))
   \<and> (album_findUnique_externalId p (cb_externalId bdto) w = (Inl e, wa) \<longrightarrow>
      albumsService_create p api bdto w
        = (Inl (if errorCode e = Some ''P2002''
                then ConflictException ''Album with this external ID already exists'' else e), wa))
   \<and> (album_findUnique_externalId p (cb_externalId bdto) w = (Inr None, wa)
        \<and> artist_findUnique_externalId p (cb_artistExternalId bdto) wa = (Inl e, wb) \<longrightarrow>
      albumsService_create p api bdto w
        = (Inl (if errorCode e = Some ''P2002''
                then ConflictException ''Album with this external ID already exists'' else e), wb))"
proof (intro conjI impI)
  assume "artist_findUnique_externalId p (ca_externalId dto) w = (Inr (Some a), wa)"
  then show "artistsService_create p dto w = (Inr a, wa)"
    by (rule artistsService_create_found)
next
  assume "artist_findUnique_externalId p (ca_externalId dto) w = (Inr None, wa)
        \<and> artist_create p dto wa = (Inl e, wb)"
  then show "artistsService_create p dto w
        = (Inl (if errorCode e = Some ''P2002''
                then ConflictException ''Artist with this external ID already exists'' else e), wb)"
    using artistsService_create_insert_error [of p dto w wa e wb] by blast
next
  assume "album_findUnique_externalId p (cb_externalId bdto) w = (Inr (Some b), wa)"
  then show "albumsService_create p api bdto w = (Inr (b, None), wa)"
    by (rule albumsService_create_found)
next
  assume "album_findUnique_externalId p (cb_externalId bdto) w = (Inr None, wa)
        \<and> artist_findUnique_externalId p (cb_artistExternalId bdto) wa = (Inr (Some ar), wb)
        \<and> album_create p \<lparr> ab_externalId = cb_externalId bdto, ab_title = cb_title bdto,
              ab_releaseDate = (case cb_releaseDate bdto of None \<Rightarrow> None
                                | Some d \<Rightarrow> if d = [] then None else Some d),
              ab_coverUrl = cb_coverUrl bdto, ab_connect_artist_id = artist_id ar \<rparr> wb = (Inl e, wc)"
  then show "albumsService_create p api bdto w
        = (Inl (if errorCode e = Some ''P2002''
                then ConflictException ''Album with this external ID already exists'' else e), wc)"
    using albumsService_create_insert_error [of p bdto w wa ar wb e wc api] by blast
next
  assume "album_findUnique_externalId p (cb_externalId bdto) w = (Inr None, wa)
        \<and> artist_findUnique_externalId p (cb_artistExternalId bdto) wa = (Inr None, wb)
        \<and> api_getArtistDetails api (cb_artistExternalId bdto) = Inr details
        \<and> artistsService_create p \<lparr> ca_externalId = ad_externalId details, ca_name = ad_name details,
              ca_imageUrl = ad_imageUrl details \<rparr>
             (wb\<lparr>catalogCalls := catalogCalls wb @ [GetArtistDetails (cb_artistExternalId bdto)]\<rparr>)
           = (Inr ar, wc)
        \<and> album_create p \<lparr> ab_externalId = cb_externalId bdto, ab_title = cb_title bdto,
              ab_releaseDate = (case cb_releaseDate bdto of None \<Rightarrow> None
                                | Some d \<Rightarrow> if d = [] then None else Some d),
              ab_coverUrl = cb_coverUrl bdto, ab_connect_artist_id = artist_id ar \<rparr> wc = (Inl e, wd)"
  then show "albumsService_create p api bdto w
        = (Inl (if errorCode e = Some ''P2002''
                then ConflictException ''Album with this external ID already exists'' else e), wd)"
    using albumsService_create_new_artist_insert_error [of p bdto w wa wb api details ar wc e wd]
    by blast
next
  assume "artist_findUnique_externalId p (ca_externalId dto) w = (Inl e, wa)"
  then show "artistsService_create p dto w
        = (Inl (if errorCode e = Some ''P2002''
                then ConflictException ''Artist with this external ID already exists'' else e), wa)"
    by (rule artistsService_create_lookup_error)
next
  assume "album_findUnique_externalId p (cb_externalId bdto) w = (Inl e, wa)"
  then show "albumsService_create p api bdto w
        = (Inl (if errorCode e = Some ''P2002''
                then ConflictException ''Album with this external ID already exists'' else e), wa)"
    by (rule albumsService_create_lookup_error)
next
  assume "album_findUnique_externalId p (cb_externalId bdto) w = (Inr None, wa)
        \<and> artist_findUnique_externalId p (cb_artistExternalId bdto) wa = (Inl e, wb)"
  then show "albumsService_create p api bdto w
        = (Inl (if errorCode e = Some ''P2002''
                then ConflictException ''Album with this external ID already exists'' else e), wb)"
    using albumsService_create_artist_lookup_error [of p bdto w wa e wb api] by blast
qed

lemma ex_stores_simps:
  "artist_findUnique_externalId (pg_racing other) = pg_artist_findUnique_externalId"
  "album_findUnique_externalId (pg_racing other) = pg_album_findUnique_externalId"
  "artist_create (pg_racing other) = (\<lambda>dto w. pg_artist_create dto (other w))"
  "album_create (pg_racing other) = (\<lambda>d w. pg_album_create d (other w))"
  "artist_findUnique_externalId ex_artist_insert_down = pg_artist_findUnique_externalId"
  "artist_create ex_artist_insert_down = (\<lambda>dto. throw (PrismaError ''P1001''))"
  "album_findUnique_externalId ex_album_insert_down = pg_album_findUnique_externalId"
  "artist_findUnique_externalId ex_album_insert_down = pg_artist_findUnique_externalId"
  "artist_create ex_album_insert_down = pg_artist_create"
  "album_create ex_album_insert_down = (\<lambda>d. throw (PrismaError ''P1001''))"
  "artist_findUnique_externalId ex_artist_lookup_down = (\<lambda>e. throw (PrismaError ''P1001''))"
  "album_findUnique_externalId ex_artist_lookup_down = pg_album_findUnique_externalId"
  "album_findUnique_externalId ex_album_lookup_down = (\<lambda>e. throw (PrismaError ''P1001''))"
  by (simp_all add: pg_racing_def ex_artist_insert_down_def ex_album_insert_down_def
        ex_artist_lookup_down_def ex_album_lookup_down_def pg_def)

lemma ex_find_artist:
  "pg_artist_findUnique_externalId ''artist123'' ex_world = (Inr (Some ex_artist), ex_world)"
  "pg_artist_findUnique_externalId ''artist999'' ex_world = (Inr None, ex_world)"
  by (simp_all add: pg_artist_findUnique_externalId_def ex_world_eval)

lemma ex_find_album:
  "pg_album_findUnique_externalId ''album123'' ex_world = (Inr (Some ex_album1), ex_world)"
  "pg_album_findUnique_externalId ''album789'' ex_world = (Inr None, ex_world)"
  by (simp_all add: pg_album_findUnique_externalId_def ex_world_eval)

lemma ex_artist_race:
  "pg_artist_create ex_createArtist (ex_concurrent_artist ex_world)
     = (Inl (PrismaError ''P2002''), ex_world\<lparr>artists := [ex_artist, ex_new_artist], artistSeq := 3\<rparr>)"
  by (simp add: pg_artist_create_def ex_concurrent_artist_def ex_createArtist_def Let_def
        ex_world_eval ex_new_artist_def)

lemma ex_album_race:
  "pg_album_create \<lparr> ab_externalId = ''album789'', ab_title = ''Catalog Album'',
         ab_releaseDate = None, ab_coverUrl = None, ab_connect_artist_id = 1 \<rparr>
       (ex_concurrent_album ex_world)
     = (Inl (PrismaError ''P2002''),
        ex_world\<lparr>albums := [ex_album1, ex_album2,
             \<lparr> album_id = 3, album_externalId = ''album789'', album_title = ''Catalog Album'',
               album_releaseDate = None, album_coverUrl = None, album_artistId = 1 \<rparr>],
           albumSeq := 4\<rparr>)"
  by (simp add: pg_album_create_def ex_concurrent_album_def Let_def ex_world_eval)

lemma ex_create_new_artist:
  "artistsService_create ex_album_insert_down ex_createArtist
     (ex_world\<lparr>catalogCalls := catalogCalls ex_world @ [GetArtistDetails ''artist999'']\<rparr>)
   = (Inr ex_new_artist, ex_world1)"
  by (simp add: artistsService_create_def ex_stores_simps pg_artist_findUnique_externalId_def
        pg_artist_create_def try_catch_def await_def Let_def ex_createArtist_def ex_world_eval
        ex_world1_def ex_new_artist_def)

theorem create_maps_unique_violation_to_Conflict_witness:
  "artistsService_create pg \<lparr> ca_externalId = ''artist123'', ca_name = ''Test Artist'', ca_imageUrl = None \<rparr>
       ex_world
     = (Inr ex_artist, ex_world)
   \<and> artistsService_create (pg_racing ex_concurrent_artist) ex_createArtist ex_world
     = (Inl (ConflictException ''Artist with this external ID already exists''),
        ex_world\<lparr>artists := [ex_artist, ex_new_artist], artistSeq := 3\<rparr>)
   \<and> artistsService_create ex_artist_insert_down ex_createArtist ex_world
     = (Inl (PrismaError ''P1001''), ex_world)
   \<and> albumsService_create pg ex_api (ex_createAlbum ''album123'' ''artist123'') ex_world
     = (Inr (ex_album1, None), ex_world)
   \<and> albumsService_create (pg_racing ex_concurrent_album) ex_api
       (ex_createAlbum ''album789'' ''artist123'') ex_world
     = (Inl (ConflictException ''Album with this external ID already exists''),
        ex_world\<lparr>albums := [ex_album1, ex_album2,
             \<lparr> album_id = 3, album_externalId = ''album789'', album_title = ''Catalog Album'',
               album_releaseDate = None, album_coverUrl = None, album_artistId = 1 \<rparr>],
           albumSeq := 4\<rparr>)
   \<and> albumsService_create ex_album_insert_down ex_api (ex_createAlbum ''album789'' ''artist999'') ex_world
     = (Inl (PrismaError ''P1001''), ex_world1)
   \<and> artistsService_create ex_artist_lookup_down ex_createArtist ex_world
     = (Inl (PrismaError ''P1001''), ex_world)
   \<and> albumsService_create ex_album_lookup_down ex_api (ex_createAlbum ''album789'' ''artist123'') ex_world
     = (Inl (PrismaError ''P1001''), ex_world)
   \<and> albumsService_create ex_artist_lookup_down ex_api (ex_createAlbum ''album789'' ''artist123'') ex_world
     = (Inl (PrismaError ''P1001''), ex_world)"
proof -
  let ?d123 = "\<lparr> ca_externalId = ''artist123'', ca_name = ''Test Artist'', ca_imageUrl = None \<rparr>"
  let ?b = "ex_createAlbum ''album789'' ''artist123''"
  let ?b9 = "ex_createAlbum ''album789'' ''artist999''"
  let ?wb = "ex_world\<lparr>artists := [ex_artist, ex_new_artist], artistSeq := 3\<rparr>"
  let ?wc = "ex_world\<lparr>albums := [ex_album1, ex_album2,
             \<lparr> album_id = 3, album_externalId = ''album789'', album_title = ''Catalog Album'',
               album_releaseDate = None, album_coverUrl = None, album_artistId = 1 \<rparr>],
           albumSeq := 4\<rparr>"
  let ?det = "\<lparr> ad_externalId = ''artist999'', ad_name = ''New Artist'', ad_imageUrl = None,
                   ad_popularity = Some 85, ad_genres = [''pop''] \<rparr>"
  have 1: "artistsService_create pg ?d123 ex_world = (Inr ex_artist, ex_world)"
    using create_maps_unique_violation_to_Conflict
            [where a = "ex_artist" and b = "ex_album1" and api = "ex_api" and details = "?det" and p = "pg" and dto = "?d123" and w = "ex_world" and wa = "ex_world" and e = "PrismaError ''P2002''" and wb = "ex_world" and bdto = "?b" and ar = "ex_artist" and wc = "ex_world" and wd = "ex_world"]
    by (simp add: pg_simps ex_find_artist)
  have 2: "artistsService_create (pg_racing ex_concurrent_artist) ex_createArtist ex_world
     = (Inl (ConflictException ''Artist with this external ID already exists''), ?wb)"
    using create_maps_unique_violation_to_Conflict
            [where a = "ex_artist" and b = "ex_album1" and api = "ex_api" and details = "?det" and p = "pg_racing ex_concurrent_artist" and dto = "ex_createArtist" and w = "ex_world" and wa = "ex_world" and e = "PrismaError ''P2002''" and wb = "?wb" and bdto = "?b" and ar = "ex_artist" and wc = "ex_world" and wd = "ex_world"]
    by (simp add: ex_stores_simps ex_find_artist ex_artist_race ex_createArtist_def [symmetric])
       (simp add: ex_createArtist_def ex_find_artist)
  have 3: "artistsService_create ex_artist_insert_down ex_createArtist ex_world
     = (Inl (PrismaError ''P1001''), ex_world)"
    using create_maps_unique_violation_to_Conflict
            [where a = "ex_artist" and b = "ex_album1" and api = "ex_api" and details = "?det" and p = "ex_artist_insert_down" and dto = "ex_createArtist" and w = "ex_world" and wa = "ex_world" and e = "PrismaError ''P1001''" and wb = "ex_world" and bdto = "?b" and ar = "ex_artist" and wc = "ex_world" and wd = "ex_world"]
    by (simp add: ex_stores_simps throw_def) (simp add: ex_createArtist_def ex_find_artist)
  have 4: "albumsService_create pg ex_api (ex_createAlbum ''album123'' ''artist123'') ex_world
     = (Inr (ex_album1, None), ex_world)"
    using create_maps_unique_violation_to_Conflict
            [where a = "ex_artist" and b = "ex_album1" and api = "ex_api" and details = "?det" and p = "pg" and dto = "?d123" and w = "ex_world" and wa = "ex_world" and e = "PrismaError ''P2002''" and wb = "ex_world" and bdto = "ex_createAlbum ''album123'' ''artist123''" and ar = "ex_artist" and wc = "ex_world" and wd = "ex_world"]
    by (simp add: pg_simps ex_createAlbum_def ex_find_album)
  have 5: "albumsService_create (pg_racing ex_concurrent_album) ex_api ?b ex_world
     = (Inl (ConflictException ''Album with this external ID already exists''), ?wc)"
    using create_maps_unique_violation_to_Conflict
            [where a = "ex_artist" and b = "ex_album1" and api = "ex_api" and details = "?det" and p = "pg_racing ex_concurrent_album" and dto = "?d123" and w = "ex_world" and wa = "ex_world" and e = "PrismaError ''P2002''" and wb = "ex_world" and bdto = "?b" and ar = "ex_artist" and wc = "?wc" and wd = "ex_world"]
    by (simp add: ex_stores_simps ex_createAlbum_def ex_find_album ex_find_artist ex_album_race
          ex_artist_def [symmetric])
       (simp add: ex_artist_def ex_album_race)
  have 6: "albumsService_create ex_album_insert_down ex_api ?b9 ex_world
     = (Inl (PrismaError ''P1001''), ex_world1)"
    using create_maps_unique_violation_to_Conflict
            [where a = "ex_artist" and b = "ex_album1" and api = "ex_api" and details = "?det" and p = "ex_album_insert_down" and dto = "?d123" and w = "ex_world" and wa = "ex_world" and e = "PrismaError ''P1001''" and wb = "ex_world" and bdto = "?b9" and ar = "ex_new_artist" and wc = "ex_world1" and wd = "ex_world1"]
          ex_create_new_artist
    by (simp add: ex_stores_simps ex_createAlbum_def ex_find_album ex_find_artist throw_def
          ex_api_def ex_createArtist_def)
  have 7: "artistsService_create ex_artist_lookup_down ex_createArtist ex_world
     = (Inl (PrismaError ''P1001''), ex_world)"
    using create_maps_unique_violation_to_Conflict
            [where p = "ex_artist_lookup_down" and dto = "ex_createArtist" and w = "ex_world"
               and wa = "ex_world" and e = "PrismaError ''P1001''" and wb = "ex_world" and bdto = "?b"
               and a = "ex_artist" and b = "ex_album1" and api = "ex_api" and details = "?det"
               and ar = "ex_artist" and wc = "ex_world" and wd = "ex_world"]
    by (simp add: ex_stores_simps throw_def)
  have 8: "albumsService_create ex_album_lookup_down ex_api ?b ex_world
     = (Inl (PrismaError ''P1001''), ex_world)"
    using create_maps_unique_violation_to_Conflict
            [where p = "ex_album_lookup_down" and dto = "ex_createArtist" and w = "ex_world"
               and wa = "ex_world" and e = "PrismaError ''P1001''" and wb = "ex_world" and bdto = "?b"
               and a = "ex_artist" and b = "ex_album1" and api = "ex_api" and details = "?det"
               and ar = "ex_artist" and wc = "ex_world" and wd = "ex_world"]
    by (simp add: ex_stores_simps throw_def)
  have 9: "albumsService_create ex_artist_lookup_down ex_api ?b ex_world
     = (Inl (PrismaError ''P1001''), ex_world)"
    using create_maps_unique_violation_to_Conflict
            [where p = "ex_artist_lookup_down" and dto = "ex_createArtist" and w = "ex_world"
               and wa = "ex_world" and e = "PrismaError ''P1001''" and wb = "ex_world" and bdto = "?b"
               and a = "ex_artist" and b = "ex_album1" and api = "ex_api" and details = "?det"
               and ar = "ex_artist" and wc = "ex_world" and wd = "ex_world"]
    by (simp add: ex_stores_simps throw_def ex_createAlbum_def ex_find_album)
  from 1 2 3 4 5 6 7 8 9 show ?thesis by (intro conjI)
qed

end
